theory Spec2Isabelle
  imports Main
begin

section \<open>JavaScript values\<close>

text \<open>
  The values the runtime forwards. Functions, arrays, objects and streams carry the
  identity of the JavaScript object (a number): \<open>Map\<close>, \<open>WeakMap\<close> and listener
  sets compare by identity. A plain object is one whose prototype is
  \<open>Object.prototype\<close> or \<open>null\<close> (\<open>isPlainObject\<close>); its own enumerable string
  keys are kept in the order of \<open>Object.entries\<close>. \<open>JError\<close> is an instance of \<open>Error\<close>
  with its \<open>name\<close> and \<open>message\<close>; \<open>JStream\<close> is a \<open>ReadableStream\<close>; \<open>JOther\<close> is
  any other non-plain object (an instance of a class, a \<open>Map\<close>, a \<open>Date\<close>) with the
  properties it holds.

  An object graph is written as the term that a walk from its root unfolds. Where the
  walk meets again an array or a plain object that it has entered before (an object with
  two parents, or one that holds itself), the term has \<open>JRef\<close> with the identity of that
  object, or the object written out once more under the same identity.
\<close>

datatype proto = ObjectPrototype | NullPrototype

datatype jsval =
    Undefined
  | Null
  | JBool bool
  | JNum int
  | JStr string
  | JFun nat
  | JArr nat "jsval list"
  | JObj nat proto "(string \<times> jsval) list"
  | JError nat string string
  | JStream nat
  | JOther nat "(string \<times> jsval) list"
  | JRef nat

section \<open>Envelopes of the invoke protocol (invoke-shared.ts)\<close>

text \<open>
  The body of an invoke event is \<open>{ invokeId, content, isReqStream? }\<close>. The content of
  a \<open>receive-error\<close> event is the box \<open>{ error }\<close>. A missing \<open>invokeId\<close> and the
  empty string are both falsy in the guards of the listeners, so \<open>''''\<close> stands for
  both; a missing \<open>isReqStream\<close> is \<open>False\<close>. \<open>EventBody\<close> is the body of an event that
  is not an invoke event (it has no \<open>invokeId\<close> property).
\<close>

datatype content = Plain jsval | ErrorBox jsval

datatype body =
    InvokeBody string content bool
  | EventBody jsval

text \<open>The seven event ids derived from one tag (\<open>defineInvokeEventa\<close>).\<close>

definition sendEvent :: "string \<Rightarrow> string" where
  "sendEvent tag = tag @ ''-send''"

definition sendEventError :: "string \<Rightarrow> string" where
  "sendEventError tag = tag @ ''-send-error''"

definition sendEventStreamEnd :: "string \<Rightarrow> string" where
  "sendEventStreamEnd tag = tag @ ''-send-stream-end''"

definition sendEventAbort :: "string \<Rightarrow> string" where
  "sendEventAbort tag = tag @ ''-send-abort''"

definition receiveEvent :: "string \<Rightarrow> string" where
  "receiveEvent tag = tag @ ''-receive''"

definition receiveEventError :: "string \<Rightarrow> string" where
  "receiveEventError tag = tag @ ''-receive-error''"

definition receiveEventStreamEnd :: "string \<Rightarrow> string" where
  "receiveEventStreamEnd tag = tag @ ''-receive-stream-end''"

text \<open>The per-call ids: \<open>`${event.receiveEvent.id}-${invokeId}`\<close> and its siblings.\<close>

definition invokeReceiveEvent :: "string \<Rightarrow> string \<Rightarrow> string" where
  "invokeReceiveEvent tag iid = receiveEvent tag @ ''-'' @ iid"

definition invokeReceiveEventError :: "string \<Rightarrow> string \<Rightarrow> string" where
  "invokeReceiveEventError tag iid = receiveEventError tag @ ''-'' @ iid"

definition invokeReceiveEventStreamEnd :: "string \<Rightarrow> string \<Rightarrow> string" where
  "invokeReceiveEventStreamEnd tag iid = receiveEventStreamEnd tag @ ''-'' @ iid"

section \<open>Handlers, promises, streams, jobs\<close>

text \<open>
  What a user handler does when called with a payload and the options: it throws
  synchronously, returns a value (directly or through a promise that fulfils), returns
  a promise that rejects, or returns a promise that never settles.
\<close>

datatype outcome = Throws jsval | Returns jsval | Rejects jsval | NeverSettles

datatype promiseState = Unsettled | Fulfilled jsval | Rejected jsval

text \<open>How a call of a function of the sources ends: it returns a value or it throws
  one.\<close>

datatype 'a completion = Normal 'a | Thrown jsval

text \<open>
  A \<open>ReadableStream\<close> seen through its default controller: the chunks queued and not
  yet read, and whether it is readable, closed, or errored.
\<close>

datatype streamStatus = Readable | Closed | Errored jsval

record rstream =
  chunks :: "jsval list"
  status :: streamStatus

text \<open>The request of a call: a plain value, or a stream that delivers the chunks and
  then closes (\<open>None\<close>) or throws (\<open>Some e\<close>).\<close>

datatype request = ReqValue jsval | ReqStream "jsval list" "jsval option"

text \<open>
  Continuations waiting in the job queue. \<open>JRespond\<close> is \<open>handleInvoke\<close> of invoke.ts
  after its \<open>await\<close>; \<open>JPump\<close> is the \<open>for await\<close> loop of the client's \<open>pump\<close>.
\<close>

datatype job =
    JRespond string string "jsval + jsval" jsval
  | JPump string string "jsval list" "jsval option" jsval

text \<open>
  The closures a context holds as listeners. \<open>OnReceive\<close> and \<open>OnReceiveError\<close> are
  the two listeners of a call of \<open>_invoke\<close> (event tag and invokeId); \<open>OnSend\<close> and
  \<open>OnSendStreamEnd\<close> are the two functions of an internal handler made by
  \<open>defineInvokeHandler\<close> (its number in the table of internal handlers).
\<close>

datatype listener =
    OnReceive string string
  | OnReceiveError string string
  | OnSend nat
  | OnSendStreamEnd nat

record internalHandler =
  ih_tag :: string
  ih_handler :: nat

section \<open>The context\<close>

text \<open>
  One event context with everything the closures over it hold: the listener registry,
  \<open>ctx.invokeHandlers\<close>, the internal handlers and their \<open>streamStates\<close>, the two
  tables of the \<open>defineInvoke\<close> factory, the promises made, the input streams made, the
  job queue, the log of handler calls, the log of emits, the identifiers \<open>nanoid\<close>
  will return, and \<open>ctx.extensions.__internal.invoke.abortOnEvents\<close>.
  \<open>impl\<close> gives the behaviour of every user function by its identity.
\<close>

record world =
  listeners :: "string \<Rightarrow> listener list"
  invokeHandlers :: "(string \<Rightarrow> (nat \<times> nat) list option) option"
  internalHandlers :: "nat \<Rightarrow> internalHandler option"
  nextInternal :: nat
  streamStates :: "nat \<Rightarrow> string \<Rightarrow> nat option"
  impl :: "nat \<Rightarrow> jsval \<Rightarrow> jsval \<Rightarrow> outcome"
  mInvokeIdPromiseResolvers :: "string \<Rightarrow> nat option"
  mInvokeIdPromiseRejectors :: "string \<Rightarrow> nat option"
  promises :: "nat \<Rightarrow> promiseState"
  settleLog :: "(nat \<times> promiseState) list"
  nextPromise :: nat
  streams :: "nat \<Rightarrow> rstream option"
  nextStream :: nat
  calls :: "(nat \<times> jsval \<times> jsval) list"
  jobs :: "job list"
  emitted :: "(string \<times> body option) list"
  nanoidSeq :: "nat \<Rightarrow> string"
  nanoidNext :: nat
  abortOnEvents :: "string list option"
  stackOverflow :: bool

text \<open>
  Modelled from the spec: \<open>createContext\<close>, \<open>on\<close>, \<open>off\<close> and \<open>emit\<close> of context.ts,
  which is not among the sources (spec 4.1). \<open>on\<close> appends a listener unless the same
  function is already registered on the id; \<open>off\<close> removes one listener, or all of the
  id when none is given; \<open>emit\<close> calls the listeners registered on the id when the emit
  starts, in registration order, synchronously.
\<close>

definition createContext :: "(nat \<Rightarrow> jsval \<Rightarrow> jsval \<Rightarrow> outcome) \<Rightarrow> (nat \<Rightarrow> string) \<Rightarrow> world" where
  "createContext behaviours ids =
     \<lparr> listeners = (\<lambda>_. []), invokeHandlers = None, internalHandlers = (\<lambda>_. None),
       nextInternal = 0, streamStates = (\<lambda>_ _. None), impl = behaviours,
       mInvokeIdPromiseResolvers = (\<lambda>_. None), mInvokeIdPromiseRejectors = (\<lambda>_. None),
       promises = (\<lambda>_. Unsettled), settleLog = [], nextPromise = 0,
       streams = (\<lambda>_. None), nextStream = 0, calls = [], jobs = [], emitted = [],
       nanoidSeq = ids, nanoidNext = 0, abortOnEvents = None, stackOverflow = False \<rparr>"

definition reg_on :: "string \<Rightarrow> 'l \<Rightarrow> (string \<Rightarrow> 'l list) \<Rightarrow> (string \<Rightarrow> 'l list)" where
  "reg_on eid l ls = (if l \<in> set (ls eid) then ls else ls(eid := ls eid @ [l]))"

definition reg_off :: "string \<Rightarrow> 'l option \<Rightarrow> (string \<Rightarrow> 'l list) \<Rightarrow> (string \<Rightarrow> 'l list)" where
  "reg_off eid lo ls = ls(eid := (case lo of None \<Rightarrow> [] | Some l \<Rightarrow> removeAll l (ls eid)))"

definition ctx_on :: "string \<Rightarrow> listener \<Rightarrow> world \<Rightarrow> world" where
  "ctx_on eid l w = w\<lparr>listeners := reg_on eid l (listeners w)\<rparr>"

definition ctx_off :: "string \<Rightarrow> listener option \<Rightarrow> world \<Rightarrow> world" where
  "ctx_off eid lo w = w\<lparr>listeners := reg_off eid lo (listeners w)\<rparr>"

definition nanoid :: "world \<Rightarrow> string \<times> world" where
  "nanoid w = (nanoidSeq w (nanoidNext w), w\<lparr>nanoidNext := Suc (nanoidNext w)\<rparr>)"

text \<open>\<open>resolve\<close> and \<open>reject\<close> of a promise: the first call settles it, every call is
  logged.\<close>

definition settle :: "nat \<Rightarrow> promiseState \<Rightarrow> world \<Rightarrow> world" where
  "settle p r w =
     w\<lparr>promises := (if promises w p = Unsettled then (promises w)(p := r) else promises w),
       settleLog := settleLog w @ [(p, r)]\<rparr>"

text \<open>\<open>payload.body.content\<close> read as a value; the box is the object \<open>{ error }\<close>.\<close>

fun contentValue :: "content \<Rightarrow> jsval" where
  "contentValue (Plain v) = v"
| "contentValue (ErrorBox e) = JObj 0 ObjectPrototype [(''error'', e)]"

text \<open>\<open>const { error } = payload.body.content\<close>: \<open>None\<close> is the TypeError of
  destructuring \<open>undefined\<close> or \<open>null\<close>.\<close>

fun contentError :: "content \<Rightarrow> jsval option" where
  "contentError (ErrorBox e) = Some e"
| "contentError (Plain Undefined) = None"
| "contentError (Plain Null) = None"
| "contentError (Plain (JObj i p fs)) =
     Some (case map_of fs ''error'' of None \<Rightarrow> Undefined | Some e \<Rightarrow> e)"
| "contentError (Plain (JOther i fs)) =
     Some (case map_of fs ''error'' of None \<Rightarrow> Undefined | Some e \<Rightarrow> e)"
| "contentError (Plain v) = Some Undefined"

text \<open>\<open>controller.enqueue\<close>, \<open>controller.close\<close>: both throw a TypeError on a stream
  that is not readable (\<open>None\<close>).\<close>

definition rs_enqueue :: "jsval \<Rightarrow> rstream \<Rightarrow> rstream option" where
  "rs_enqueue v s = (if status s = Readable then Some (s\<lparr>chunks := chunks s @ [v]\<rparr>) else None)"

definition rs_close :: "rstream \<Rightarrow> rstream option" where
  "rs_close s = (if status s = Readable then Some (s\<lparr>status := Closed\<rparr>) else None)"

section \<open>The unary client (invoke.ts, defineInvoke)\<close>

text \<open>The listener of \<open>_invoke\<close> on \<open>receive-<invokeId>\<close>.\<close>

definition onReceive :: "string \<Rightarrow> string \<Rightarrow> body option \<Rightarrow> world \<Rightarrow> world" where
  "onReceive tag invokeId b w =
     (case b of
        None \<Rightarrow> w
      | Some (EventBody v) \<Rightarrow> w
      | Some (InvokeBody i c s) \<Rightarrow>
          if i \<noteq> invokeId then w
          else
            let w1 = (case mInvokeIdPromiseResolvers w invokeId of
                        None \<Rightarrow> w
                      | Some p \<Rightarrow> settle p (Fulfilled (contentValue c)) w);
                w2 = w1\<lparr>mInvokeIdPromiseResolvers := (mInvokeIdPromiseResolvers w1)(invokeId := None)\<rparr>;
                w3 = w2\<lparr>mInvokeIdPromiseRejectors := (mInvokeIdPromiseRejectors w2)(invokeId := None)\<rparr>;
                w4 = ctx_off (invokeReceiveEvent tag invokeId) None w3
            in ctx_off (invokeReceiveEventError tag invokeId) None w4)"

text \<open>The listener of \<open>_invoke\<close> on \<open>receive-error-<invokeId>\<close>.\<close>

definition onReceiveError :: "string \<Rightarrow> string \<Rightarrow> body option \<Rightarrow> world \<Rightarrow> world" where
  "onReceiveError tag invokeId b w =
     (case b of
        None \<Rightarrow> w
      | Some (EventBody v) \<Rightarrow> w
      | Some (InvokeBody i c s) \<Rightarrow>
          if i \<noteq> invokeId then w
          else
            (case contentError c of
               None \<Rightarrow> w
             | Some e \<Rightarrow>
                 let w1 = (case mInvokeIdPromiseRejectors w invokeId of
                             None \<Rightarrow> w
                           | Some p \<Rightarrow> settle p (Rejected e) w);
                     w2 = w1\<lparr>mInvokeIdPromiseRejectors := (mInvokeIdPromiseRejectors w1)(invokeId := None)\<rparr>;
                     w3 = w2\<lparr>mInvokeIdPromiseResolvers := (mInvokeIdPromiseResolvers w2)(invokeId := None)\<rparr>;
                     w4 = ctx_off (invokeReceiveEvent tag invokeId) None w3
                 in ctx_off (invokeReceiveEventError tag invokeId) None w4))"

section \<open>The unary server (invoke.ts, defineInvokeHandler)\<close>

type_synonym emitter = "string \<Rightarrow> body option \<Rightarrow> jsval \<Rightarrow> world \<Rightarrow> world"

text \<open>
  \<open>handleInvoke\<close>: the handler is called at once; a synchronous throw is caught and
  answered with \<open>receive-error\<close> in the same turn, anything else is answered after the
  \<open>await\<close>, from the job queue.
\<close>

definition handleInvoke :: "emitter \<Rightarrow> string \<Rightarrow> nat \<Rightarrow> string \<Rightarrow> jsval \<Rightarrow> jsval \<Rightarrow> world \<Rightarrow> world" where
  "handleInvoke em tag handler invokeId payload options w =
     (let w1 = w\<lparr>calls := calls w @ [(handler, payload, options)]\<rparr> in
      case impl w handler payload options of
        Throws e \<Rightarrow>
          em (invokeReceiveEventError tag invokeId)
             (Some (InvokeBody invokeId (ErrorBox e) False)) options w1
      | Returns r \<Rightarrow> w1\<lparr>jobs := jobs w1 @ [JRespond tag invokeId (Inr r) options]\<rparr>
      | Rejects e \<Rightarrow> w1\<lparr>jobs := jobs w1 @ [JRespond tag invokeId (Inl e) options]\<rparr>
      | NeverSettles \<Rightarrow> w1)"

text \<open>\<open>new ReadableStream({ start(c) { localController = c } })\<close> followed by
  \<open>streamStates.set(invokeId, controller)\<close>.\<close>

definition newReqStream :: "nat \<Rightarrow> string \<Rightarrow> world \<Rightarrow> nat \<times> world" where
  "newReqStream c invokeId w =
     (let sid = nextStream w in
      (sid, w\<lparr>nextStream := Suc sid,
              streams := (streams w)(sid := Some \<lparr>chunks = [], status = Readable\<rparr>),
              streamStates := (streamStates w)(c := (streamStates w c)(invokeId := Some sid))\<rparr>))"

definition controller_enqueue :: "nat \<Rightarrow> jsval \<Rightarrow> world \<Rightarrow> world" where
  "controller_enqueue sid v w =
     (case streams w sid of
        None \<Rightarrow> w
      | Some s \<Rightarrow> (case rs_enqueue v s of
                     None \<Rightarrow> w
                   | Some s' \<Rightarrow> w\<lparr>streams := (streams w)(sid := Some s')\<rparr>))"

definition onSend :: "emitter \<Rightarrow> nat \<Rightarrow> body option \<Rightarrow> jsval \<Rightarrow> world \<Rightarrow> world" where
  "onSend em c b options w =
     (case internalHandlers w c of
        None \<Rightarrow> w
      | Some ih \<Rightarrow>
         (case b of
            None \<Rightarrow> w
          | Some (EventBody v) \<Rightarrow> w
          | Some (InvokeBody invokeId cont isReqStream) \<Rightarrow>
              if invokeId = [] then w
              else if isReqStream then
                (case streamStates w c invokeId of
                   Some sid \<Rightarrow> controller_enqueue sid (contentValue cont) w
                 | None \<Rightarrow>
                     let (sid, w1) = newReqStream c invokeId w;
                         w2 = handleInvoke em (ih_tag ih) (ih_handler ih) invokeId (JStream sid) options w1
                     in controller_enqueue sid (contentValue cont) w2)
              else handleInvoke em (ih_tag ih) (ih_handler ih) invokeId (contentValue cont) options w))"

text \<open>\<open>controller.close()\<close> then \<open>streamStates.delete(invokeId)\<close>; a throwing \<open>close\<close>
  leaves the table as it is.\<close>

definition closeAndDrop :: "nat \<Rightarrow> string \<Rightarrow> nat \<Rightarrow> world \<Rightarrow> world" where
  "closeAndDrop c invokeId sid w =
     (case streams w sid of
        None \<Rightarrow> w
      | Some s \<Rightarrow> (case rs_close s of
                     None \<Rightarrow> w
                   | Some s' \<Rightarrow>
                       w\<lparr>streams := (streams w)(sid := Some s'),
                         streamStates := (streamStates w)(c := (streamStates w c)(invokeId := None))\<rparr>))"

definition onSendStreamEnd :: "emitter \<Rightarrow> nat \<Rightarrow> body option \<Rightarrow> jsval \<Rightarrow> world \<Rightarrow> world" where
  "onSendStreamEnd em c b options w =
     (case internalHandlers w c of
        None \<Rightarrow> w
      | Some ih \<Rightarrow>
         (case b of
            None \<Rightarrow> w
          | Some (EventBody v) \<Rightarrow> w
          | Some (InvokeBody invokeId cont isReqStream) \<Rightarrow>
              if invokeId = [] then w
              else
                (case streamStates w c invokeId of
                   Some sid \<Rightarrow> closeAndDrop c invokeId sid w
                 | None \<Rightarrow>
                     let (sid, w1) = newReqStream c invokeId w;
                         w2 = handleInvoke em (ih_tag ih) (ih_handler ih) invokeId (JStream sid) options w1
                     in closeAndDrop c invokeId sid w2)))"

section \<open>Dispatch\<close>

definition runListener :: "emitter \<Rightarrow> listener \<Rightarrow> body option \<Rightarrow> jsval \<Rightarrow> world \<Rightarrow> world" where
  "runListener em l b options w =
     (case l of
        OnReceive tag invokeId \<Rightarrow> onReceive tag invokeId b w
      | OnReceiveError tag invokeId \<Rightarrow> onReceiveError tag invokeId b w
      | OnSend c \<Rightarrow> onSend em c b options w
      | OnSendStreamEnd c \<Rightarrow> onSendStreamEnd em c b options w)"

text \<open>
  \<open>ctx.emit\<close>. The first argument bounds the depth of emits made from inside
  listeners, as the call stack does; running out of it is recorded in
  \<open>stackOverflow\<close>.
\<close>

primrec ctx_emit :: "nat \<Rightarrow> string \<Rightarrow> body option \<Rightarrow> jsval \<Rightarrow> world \<Rightarrow> world" where
  "ctx_emit 0 eid b options w = w\<lparr>stackOverflow := True\<rparr>"
| "ctx_emit (Suc n) eid b options w =
     foldl (\<lambda>w' l. runListener (ctx_emit n) l b options w')
           (w\<lparr>emitted := emitted w @ [(eid, b)]\<rparr>) (listeners w eid)"

text \<open>\<open>_invoke\<close> of \<open>defineInvoke\<close>: returns the promise and the context after the
  synchronous part of the call.\<close>

definition invoke :: "nat \<Rightarrow> string \<Rightarrow> request \<Rightarrow> jsval \<Rightarrow> world \<Rightarrow> nat \<times> world" where
  "invoke n tag req options w =
     (let p = nextPromise w;
          w0 = w\<lparr>nextPromise := Suc p\<rparr>;
          (invokeId, w1) = nanoid w0;
          w2 = w1\<lparr>mInvokeIdPromiseResolvers := (mInvokeIdPromiseResolvers w1)(invokeId := Some p)\<rparr>;
          w3 = w2\<lparr>mInvokeIdPromiseRejectors := (mInvokeIdPromiseRejectors w2)(invokeId := Some p)\<rparr>;
          w4 = ctx_on (invokeReceiveEvent tag invokeId) (OnReceive tag invokeId) w3;
          w5 = ctx_on (invokeReceiveEventError tag invokeId) (OnReceiveError tag invokeId) w4
      in (p, case req of
               ReqValue v \<Rightarrow>
                 ctx_emit n (sendEvent tag) (Some (InvokeBody invokeId (Plain v) False)) options w5
             | ReqStream cs e \<Rightarrow> w5\<lparr>jobs := jobs w5 @ [JPump tag invokeId cs e options]\<rparr>))"

text \<open>One job: the continuation of \<open>handleInvoke\<close>, or one turn of \<open>pump\<close>.\<close>

fun runJob :: "nat \<Rightarrow> job \<Rightarrow> world \<Rightarrow> world" where
  "runJob n (JRespond tag invokeId (Inr r) options) w =
     ctx_emit n (invokeReceiveEvent tag invokeId) (Some (InvokeBody invokeId (Plain r) False)) options w"
| "runJob n (JRespond tag invokeId (Inl e) options) w =
     ctx_emit n (invokeReceiveEventError tag invokeId) (Some (InvokeBody invokeId (ErrorBox e) False)) options w"
| "runJob n (JPump tag invokeId (c # cs) e options) w =
     (let w1 = ctx_emit n (sendEvent tag) (Some (InvokeBody invokeId (Plain c) True)) options w
      in w1\<lparr>jobs := jobs w1 @ [JPump tag invokeId cs e options]\<rparr>)"
| "runJob n (JPump tag invokeId [] None options) w =
     ctx_emit n (sendEventStreamEnd tag) (Some (InvokeBody invokeId (Plain Undefined) False)) options w"
| "runJob n (JPump tag invokeId [] (Some err) options) w =
     ctx_emit n (sendEventError tag) (Some (InvokeBody invokeId (Plain err) False)) options w"

text \<open>The event loop: \<open>runJobs k n\<close> runs at most \<open>k\<close> jobs from the front of the
  queue.\<close>

fun runJobs :: "nat \<Rightarrow> nat \<Rightarrow> world \<Rightarrow> world" where
  "runJobs 0 n w = w"
| "runJobs (Suc k) n w =
     (case jobs w of
        [] \<Rightarrow> w
      | j # js \<Rightarrow> runJobs k n (runJob n j (w\<lparr>jobs := js\<rparr>)))"




text \<open>\<open>defineInvokeHandler\<close>: returns the number of the internal handler (which its
  disposer closes over) and the context.\<close>

definition defineInvokeHandler :: "string \<Rightarrow> nat \<Rightarrow> world \<Rightarrow> nat \<times> world" where
  "defineInvokeHandler tag handler w =
     (let m = (case invokeHandlers w of None \<Rightarrow> (\<lambda>_. None) | Some m' \<Rightarrow> m');
          handlers = (case m (sendEvent tag) of None \<Rightarrow> [] | Some hs \<Rightarrow> hs)
      in case map_of handlers handler of
           Some c \<Rightarrow> (c, w\<lparr>invokeHandlers := Some (m(sendEvent tag := Some handlers))\<rparr>)
         | None \<Rightarrow>
             let c = nextInternal w;
                 w1 = w\<lparr>nextInternal := Suc c,
                        internalHandlers := (internalHandlers w)(c := Some \<lparr>ih_tag = tag, ih_handler = handler\<rparr>),
                        streamStates := (streamStates w)(c := (\<lambda>_. None)),
                        invokeHandlers := Some (m(sendEvent tag := Some (handlers @ [(handler, c)])))\<rparr>;
                 w2 = ctx_on (sendEvent tag) (OnSend c) w1
             in (c, ctx_on (sendEventStreamEnd tag) (OnSendStreamEnd c) w2))"

text \<open>The disposer returned by \<open>defineInvokeHandler\<close>.\<close>

definition dispose :: "string \<Rightarrow> nat \<Rightarrow> world \<Rightarrow> world" where
  "dispose tag c w =
     ctx_off (sendEventStreamEnd tag) (Some (OnSendStreamEnd c))
       (ctx_off (sendEvent tag) (Some (OnSend c)) w)"

text \<open>
  \<open>undefineInvokeHandler(ctx, event, handler?)\<close>. \<open>ctx.invokeHandlers\<close> maps the id of
  the send event to a \<open>Map\<close> from handler to internal handler, kept here as a list in
  insertion order (the order of \<open>handlers.values()\<close>). Both branches end with
  \<open>ctx.invokeHandlers.delete(event.sendEvent.id)\<close>.
\<close>

definition undefineInvokeHandler :: "string \<Rightarrow> nat option \<Rightarrow> world \<Rightarrow> bool \<times> world" where
  "undefineInvokeHandler tag handler w =
     (case invokeHandlers w of
        None \<Rightarrow> (False, w)
      | Some m \<Rightarrow>
         (case m (sendEvent tag) of
            None \<Rightarrow> (False, w)
          | Some handlers \<Rightarrow>
             (case handler of
                Some h \<Rightarrow>
                  (case map_of handlers h of
                     None \<Rightarrow> (False, w)
                   | Some c \<Rightarrow>
                       let w1 = ctx_off (sendEvent tag) (Some (OnSend c)) w;
                           w2 = ctx_off (sendEventStreamEnd tag) (Some (OnSendStreamEnd c)) w1
                       in (True, w2\<lparr>invokeHandlers := Some (m(sendEvent tag := None))\<rparr>))
              | None \<Rightarrow>
                  let w1 = foldl (\<lambda>w' hc.
                              ctx_off (sendEventStreamEnd tag) (Some (OnSendStreamEnd (snd hc)))
                                (ctx_off (sendEvent tag) (Some (OnSend (snd hc))) w'))
                            w handlers
                  in (handlers \<noteq> [], w1\<lparr>invokeHandlers := Some (m(sendEvent tag := None))\<rparr>))))"

section \<open>Fatal events (context-extension-invoke-internal.ts)\<close>

text \<open>
  \<open>registerInvokeAbortEventListeners\<close>: appends the event to
  \<open>ctx.extensions.__internal.invoke.abortOnEvents\<close> unless it is there. It registers no
  listener; \<open>getContextExtensionInvokeInternalConfig\<close> reads the list back. An event is
  given here by its id, one event object for each id; \<open>includes\<close> compares the event
  objects themselves, so two objects made with the same id would both be kept.
\<close>

definition registerInvokeAbortEventListeners :: "string \<Rightarrow> world \<Rightarrow> world" where
  "registerInvokeAbortEventListeners eventOrMatch w =
     (let abortOn = (case abortOnEvents w of None \<Rightarrow> [] | Some xs \<Rightarrow> xs)
      in w\<lparr>abortOnEvents :=
             Some (if eventOrMatch \<in> set abortOn then abortOn else abortOn @ [eventOrMatch])\<rparr>)"

definition getContextExtensionInvokeInternalConfig :: "world \<Rightarrow> string list option" where
  "getContextExtensionInvokeInternalConfig w = abortOnEvents w"

section \<open>Streaming invoke: stream.ts and its revision with cancellation (src/unnamed/part_000)\<close>

text \<open>
  What a stream handler does when called: it throws before returning a generator, or
  returns a generator that yields the values and then returns, throws, or never
  completes.
\<close>

datatype ending = Finishes | Fails jsval | Stalls

datatype production = FnThrows jsval | Generates "jsval list" ending

text \<open>An \<open>AbortSignal\<close>: not aborted, or aborted with its \<open>reason\<close>.\<close>

datatype signalState = NotAborted | Aborted jsval

text \<open>What the closures of one call of the revised \<open>defineStreamInvoke\<close> capture: the
  event tag, the invokeId, the controller of the response stream, the caller's signal
  if any, and the emit options.\<close>

record scall =
  c_tag :: string
  c_invokeId :: string
  c_stream :: nat
  c_signal :: "nat option"
  c_options :: jsval

text \<open>
  Listeners of the streaming contexts. \<open>StreamReceive\<close>, \<open>StreamReceiveError\<close>,
  \<open>StreamReceiveStreamEnd\<close>: a call of \<open>defineStreamInvoke\<close> of stream.ts (invokeId and
  controller); \<open>StreamSend\<close>, \<open>StreamSendStreamEnd\<close>: a handler registered by
  \<open>defineStreamInvokeHandler\<close> of stream.ts (its number). The \<open>P0\<close> ones are the same
  closures in the revision of part_000, which adds the listener on \<open>send-abort\<close>.
\<close>

datatype slistener =
    StreamReceive string nat
  | StreamReceiveError string nat
  | StreamReceiveStreamEnd string nat
  | StreamSend nat
  | StreamSendStreamEnd nat
  | P0Receive scall
  | P0ReceiveError scall
  | P0ReceiveStreamEnd scall
  | P0Send nat
  | P0SendStreamEnd nat
  | P0SendAbort nat

text \<open>
  Jobs: \<open>SGen\<close> is the \<open>for await\<close> loop of \<open>handleInvoke\<close> in stream.ts (values left to
  yield and how the generator ends), \<open>P0Gen\<close> the same loop in part_000 (with the
  handler's number, for the \<open>finally\<close>); \<open>SPump\<close> and \<open>P0Pump\<close> are the client's request
  pump; \<open>AbortJob\<close> is the microtask queued by \<open>scheduleAbort\<close>.
\<close>

text \<open>
  A context that carries streaming calls, with the platform it runs on: whether
  \<open>DOMException\<close> is defined; \<open>String(v)\<close>, which throws for a value that cannot be
  converted (an object made by \<open>Object.create(null)\<close>, an object whose \<open>toString\<close> throws);
  and the assignment \<open>error.name = 'AbortError'\<close> to the \<open>Error\<close> of a given identity,
  which throws in module code when the object is frozen.
\<close>

datatype sjob =
    SGen string string "jsval list" ending jsval
  | SPump string string "jsval list" "jsval option"
  | P0Gen nat string string "jsval list" ending jsval
  | P0Pump scall "jsval list" "jsval option"
  | AbortJob nat jsval

record sworld =
  sw_listeners :: "string \<Rightarrow> slistener list"
  streamHandlers :: "nat \<Rightarrow> (string \<times> nat) option"
  nextHandler :: nat
  sw_streamStates :: "nat \<Rightarrow> string \<Rightarrow> nat option"
  abortControllers :: "nat \<Rightarrow> string \<Rightarrow> nat option"
  abortReasons :: "nat \<Rightarrow> string \<Rightarrow> jsval option"
  signals :: "nat \<Rightarrow> signalState"
  nextSignal :: nat
  signalListeners :: "nat \<Rightarrow> scall list"
  producers :: "nat \<Rightarrow> jsval \<Rightarrow> jsval \<Rightarrow> production"
  sw_streams :: "nat \<Rightarrow> rstream option"
  sw_nextStream :: nat
  sw_calls :: "(nat \<times> jsval \<times> jsval \<times> nat option) list"
  sw_jobs :: "sjob list"
  sw_emitted :: "(string \<times> body option) list"
  sw_nanoidSeq :: "nat \<Rightarrow> string"
  sw_nanoidNext :: nat
  hasDOMException :: bool
  js_String :: "jsval \<Rightarrow> string completion"
  js_setName :: "nat \<Rightarrow> unit completion"
  nextObject :: nat
  sw_stackOverflow :: bool

text \<open>Modelled from the spec: \<open>createContext\<close> of context.ts, as above, for a context
  that carries streaming calls.\<close>

definition createStreamContext ::
  "(nat \<Rightarrow> jsval \<Rightarrow> jsval \<Rightarrow> production) \<Rightarrow> (nat \<Rightarrow> string) \<Rightarrow> bool
     \<Rightarrow> (jsval \<Rightarrow> string completion) \<Rightarrow> (nat \<Rightarrow> unit completion) \<Rightarrow> sworld" where
  "createStreamContext fns ids hasDom str setName =
     \<lparr> sw_listeners = (\<lambda>_. []), streamHandlers = (\<lambda>_. None), nextHandler = 0,
       sw_streamStates = (\<lambda>_ _. None), abortControllers = (\<lambda>_ _. None),
       abortReasons = (\<lambda>_ _. None), signals = (\<lambda>_. NotAborted), nextSignal = 0,
       signalListeners = (\<lambda>_. []), producers = fns, sw_streams = (\<lambda>_. None),
       sw_nextStream = 0, sw_calls = [], sw_jobs = [], sw_emitted = [],
       sw_nanoidSeq = ids, sw_nanoidNext = 0, hasDOMException = hasDom, js_String = str,
       js_setName = setName, nextObject = 0, sw_stackOverflow = False \<rparr>"

definition sw_on :: "string \<Rightarrow> slistener \<Rightarrow> sworld \<Rightarrow> sworld" where
  "sw_on eid l w = w\<lparr>sw_listeners := reg_on eid l (sw_listeners w)\<rparr>"

definition sw_off :: "string \<Rightarrow> slistener option \<Rightarrow> sworld \<Rightarrow> sworld" where
  "sw_off eid lo w = w\<lparr>sw_listeners := reg_off eid lo (sw_listeners w)\<rparr>"

definition sw_nanoid :: "sworld \<Rightarrow> string \<times> sworld" where
  "sw_nanoid w = (sw_nanoidSeq w (sw_nanoidNext w), w\<lparr>sw_nanoidNext := Suc (sw_nanoidNext w)\<rparr>)"

text \<open>\<open>controller.error(e)\<close>: a stream that is not readable stays as it is; otherwise
  its queue is reset and it is errored.\<close>

definition rs_error :: "jsval \<Rightarrow> rstream \<Rightarrow> rstream" where
  "rs_error e s = (if status s = Readable then s\<lparr>chunks := [], status := Errored e\<rparr> else s)"

text \<open>The three controller calls on a stream of the context; \<open>None\<close> is a thrown
  TypeError.\<close>

definition sw_enqueue :: "nat \<Rightarrow> jsval \<Rightarrow> sworld \<Rightarrow> sworld option" where
  "sw_enqueue sid v w =
     (case sw_streams w sid of
        None \<Rightarrow> None
      | Some s \<Rightarrow> (case rs_enqueue v s of
                     None \<Rightarrow> None
                   | Some s' \<Rightarrow> Some (w\<lparr>sw_streams := (sw_streams w)(sid := Some s')\<rparr>)))"

definition sw_close :: "nat \<Rightarrow> sworld \<Rightarrow> sworld option" where
  "sw_close sid w =
     (case sw_streams w sid of
        None \<Rightarrow> None
      | Some s \<Rightarrow> (case rs_close s of
                     None \<Rightarrow> None
                   | Some s' \<Rightarrow> Some (w\<lparr>sw_streams := (sw_streams w)(sid := Some s')\<rparr>)))"

definition sw_error :: "nat \<Rightarrow> jsval \<Rightarrow> sworld \<Rightarrow> sworld" where
  "sw_error sid e w =
     (case sw_streams w sid of
        None \<Rightarrow> w
      | Some s \<Rightarrow> w\<lparr>sw_streams := (sw_streams w)(sid := Some (rs_error e s))\<rparr>)"

text \<open>\<open>new ReadableStream(...)\<close>: a fresh readable stream with an empty queue.\<close>

definition sw_newStream :: "sworld \<Rightarrow> nat \<times> sworld" where
  "sw_newStream w =
     (let sid = sw_nextStream w in
      (sid, w\<lparr>sw_nextStream := Suc sid,
              sw_streams := (sw_streams w)(sid := Some \<lparr>chunks = [], status = Readable\<rparr>)\<rparr>))"

subsection \<open>utils.ts\<close>

text \<open>JavaScript truthiness, for \<open>reason ? String(reason) : 'Aborted'\<close>.\<close>

fun truthy :: "jsval \<Rightarrow> bool" where
  "truthy Undefined = False"
| "truthy Null = False"
| "truthy (JBool b) = b"
| "truthy (JNum n) = (n \<noteq> 0)"
| "truthy (JStr s) = (s \<noteq> [])"
| "truthy v = True"

fun isAbortError :: "jsval \<Rightarrow> bool" where
  "isAbortError (JError i name msg) = (name = ''AbortError'')"
| "isAbortError v = False"

text \<open>
  \<open>createAbortError\<close>: an \<open>Error\<close> named AbortError is returned as it is. Otherwise, where
  the platform has \<open>DOMException\<close>, a new one named AbortError is made from
  \<open>reason ? String(reason) : 'Aborted'\<close>, inside a \<open>try\<close> whose \<open>catch\<close> falls through. The
  last statements are outside of any \<open>try\<close>: the reason itself, if it is an \<open>Error\<close>, gets
  the name AbortError; anything else is wrapped in a new \<open>Error\<close> of that name, made from
  the same expression. \<open>String(reason)\<close> and the assignment of the name can throw, and
  then \<open>createAbortError\<close> throws.
\<close>

definition newAbortError :: "string \<Rightarrow> sworld \<Rightarrow> jsval completion \<times> sworld" where
  "newAbortError message w =
     (Normal (JError (nextObject w) ''AbortError'' message), w\<lparr>nextObject := Suc (nextObject w)\<rparr>)"

definition abortMessage :: "jsval \<Rightarrow> sworld \<Rightarrow> string completion" where
  "abortMessage reason w = (if truthy reason then js_String w reason else Normal ''Aborted'')"

definition renameOrWrap :: "jsval \<Rightarrow> sworld \<Rightarrow> jsval completion \<times> sworld" where
  "renameOrWrap reason w =
     (case reason of
        JError i name msg \<Rightarrow>
          (case js_setName w i of
             Thrown e \<Rightarrow> (Thrown e, w)
           | Normal u \<Rightarrow> (Normal (JError i ''AbortError'' msg), w))
      | _ \<Rightarrow>
          (case abortMessage reason w of
             Thrown e \<Rightarrow> (Thrown e, w)
           | Normal message \<Rightarrow> newAbortError message w))"

definition createAbortError :: "jsval \<Rightarrow> sworld \<Rightarrow> jsval completion \<times> sworld" where
  "createAbortError reason w =
     (if isAbortError reason then (Normal reason, w)
      else if hasDOMException w then
        (case abortMessage reason w of
           Normal message \<Rightarrow> newAbortError message w
         | Thrown e \<Rightarrow> renameOrWrap reason w)
      else renameOrWrap reason w)"

text \<open>\<open>createAbortError\<close> returns an error for the reason, on the platform of the
  context.\<close>

definition makesAbortError :: "jsval \<Rightarrow> sworld \<Rightarrow> bool" where
  "makesAbortError reason w =
     (case fst (createAbortError reason w) of Normal err \<Rightarrow> True | Thrown e \<Rightarrow> False)"

subsection \<open>stream.ts: the client\<close>

definition streamOnReceive :: "string \<Rightarrow> nat \<Rightarrow> body option \<Rightarrow> sworld \<Rightarrow> sworld" where
  "streamOnReceive invokeId controller b w =
     (case b of
        None \<Rightarrow> w
      | Some (EventBody v) \<Rightarrow> w
      | Some (InvokeBody i c s) \<Rightarrow>
          if i \<noteq> invokeId then w
          else (case sw_enqueue controller (contentValue c) w of None \<Rightarrow> w | Some w' \<Rightarrow> w'))"

definition streamOnReceiveError :: "string \<Rightarrow> nat \<Rightarrow> body option \<Rightarrow> sworld \<Rightarrow> sworld" where
  "streamOnReceiveError invokeId controller b w =
     (case b of
        None \<Rightarrow> w
      | Some (EventBody v) \<Rightarrow> w
      | Some (InvokeBody i c s) \<Rightarrow>
          if i \<noteq> invokeId then w
          else (case contentError c of None \<Rightarrow> w | Some e \<Rightarrow> sw_error controller e w))"

definition streamOnReceiveStreamEnd :: "string \<Rightarrow> nat \<Rightarrow> body option \<Rightarrow> sworld \<Rightarrow> sworld" where
  "streamOnReceiveStreamEnd invokeId controller b w =
     (case b of
        None \<Rightarrow> w
      | Some (EventBody v) \<Rightarrow> w
      | Some (InvokeBody i c s) \<Rightarrow>
          if i \<noteq> invokeId then w
          else (case sw_close controller w of None \<Rightarrow> w | Some w' \<Rightarrow> w'))"

text \<open>\<open>cancel()\<close> of the response stream in stream.ts.\<close>

definition stream_cancel :: "string \<Rightarrow> string \<Rightarrow> sworld \<Rightarrow> sworld" where
  "stream_cancel tag invokeId w =
     sw_off (invokeReceiveEventStreamEnd tag invokeId) None
       (sw_off (invokeReceiveEventError tag invokeId) None
         (sw_off (invokeReceiveEvent tag invokeId) None w))"

subsection \<open>stream.ts: the server\<close>

type_synonym semitter = "string \<Rightarrow> body option \<Rightarrow> jsval \<Rightarrow> sworld \<Rightarrow> sworld"

definition handleInvoke_stream ::
  "semitter \<Rightarrow> string \<Rightarrow> nat \<Rightarrow> string \<Rightarrow> jsval \<Rightarrow> jsval \<Rightarrow> sworld \<Rightarrow> sworld" where
  "handleInvoke_stream em tag fn invokeId payload options w =
     (let w1 = w\<lparr>sw_calls := sw_calls w @ [(fn, payload, options, None)]\<rparr> in
      case producers w fn payload options of
        FnThrows e \<Rightarrow>
          em (invokeReceiveEventError tag invokeId)
             (Some (InvokeBody invokeId (ErrorBox e) False)) options w1
      | Generates xs en \<Rightarrow> w1\<lparr>sw_jobs := sw_jobs w1 @ [SGen tag invokeId xs en options]\<rparr>)"

text \<open>\<open>new ReadableStream\<close> and \<open>streamStates.set(invokeId, controller)\<close>.\<close>

definition sw_newReqStream :: "nat \<Rightarrow> string \<Rightarrow> sworld \<Rightarrow> nat \<times> sworld" where
  "sw_newReqStream h invokeId w =
     (let (sid, w1) = sw_newStream w in
      (sid, w1\<lparr>sw_streamStates := (sw_streamStates w1)(h := (sw_streamStates w1 h)(invokeId := Some sid))\<rparr>))"

definition streamOnSend :: "semitter \<Rightarrow> nat \<Rightarrow> body option \<Rightarrow> jsval \<Rightarrow> sworld \<Rightarrow> sworld" where
  "streamOnSend em h b options w =
     (case streamHandlers w h of
        None \<Rightarrow> w
      | Some (tag, fn) \<Rightarrow>
         (case b of
            None \<Rightarrow> w
          | Some (EventBody v) \<Rightarrow> w
          | Some (InvokeBody invokeId cont isReqStream) \<Rightarrow>
              if invokeId = [] then w
              else if isReqStream then
                (case sw_streamStates w h invokeId of
                   Some sid \<Rightarrow>
                     (case sw_enqueue sid (contentValue cont) w of None \<Rightarrow> w | Some w' \<Rightarrow> w')
                 | None \<Rightarrow>
                     let (sid, w1) = sw_newReqStream h invokeId w;
                         w2 = handleInvoke_stream em tag fn invokeId (JStream sid) options w1
                     in (case sw_enqueue sid (contentValue cont) w2 of None \<Rightarrow> w2 | Some w' \<Rightarrow> w'))
              else handleInvoke_stream em tag fn invokeId (contentValue cont) options w))"

text \<open>The listener on \<open>send-stream-end\<close>, the same in stream.ts (238-253) and in
  part_000 (303-318): without a controller for the invokeId it returns.\<close>

definition streamOnSendStreamEnd :: "nat \<Rightarrow> body option \<Rightarrow> sworld \<Rightarrow> sworld" where
  "streamOnSendStreamEnd h b w =
     (case b of
        None \<Rightarrow> w
      | Some (EventBody v) \<Rightarrow> w
      | Some (InvokeBody invokeId cont isReqStream) \<Rightarrow>
          if invokeId = [] then w
          else
            (case sw_streamStates w h invokeId of
               None \<Rightarrow> w
             | Some sid \<Rightarrow>
                 (case sw_close sid w of
                    None \<Rightarrow> w
                  | Some w' \<Rightarrow>
                      w'\<lparr>sw_streamStates := (sw_streamStates w')(h := (sw_streamStates w' h)(invokeId := None))\<rparr>)))"

subsection \<open>part_000: the client with a cancellation signal\<close>

definition cleanup :: "scall \<Rightarrow> sworld \<Rightarrow> sworld" where
  "cleanup c w =
     (let w1 = sw_off (invokeReceiveEvent (c_tag c) (c_invokeId c)) None w;
          w2 = sw_off (invokeReceiveEventError (c_tag c) (c_invokeId c)) None w1;
          w3 = sw_off (invokeReceiveEventStreamEnd (c_tag c) (c_invokeId c)) None w2
      in case c_signal c of
           None \<Rightarrow> w3
         | Some sg \<Rightarrow> w3\<lparr>signalListeners := (signalListeners w3)(sg := removeAll c (signalListeners w3 sg))\<rparr>)"

text \<open>\<open>signal?.aborted\<close> and \<open>signal?.reason\<close>.\<close>

definition signalAborted :: "scall \<Rightarrow> sworld \<Rightarrow> bool" where
  "signalAborted c w =
     (case c_signal c of
        None \<Rightarrow> False
      | Some sg \<Rightarrow> (case signals w sg of NotAborted \<Rightarrow> False | Aborted r \<Rightarrow> True))"

definition signalReason :: "scall \<Rightarrow> sworld \<Rightarrow> jsval" where
  "signalReason c w =
     (case c_signal c of
        None \<Rightarrow> Undefined
      | Some sg \<Rightarrow> (case signals w sg of NotAborted \<Rightarrow> Undefined | Aborted r \<Rightarrow> r))"

text \<open>\<open>onAbort\<close>: when \<open>createAbortError\<close> throws, so does \<open>onAbort\<close>, after the emit of
  \<open>send-abort\<close> and before \<open>controller.error\<close> and \<open>cleanup\<close>.\<close>

definition onAbort :: "semitter \<Rightarrow> scall \<Rightarrow> sworld \<Rightarrow> unit completion \<times> sworld" where
  "onAbort em c w =
     (let w1 = em (sendEventAbort (c_tag c))
                  (Some (InvokeBody (c_invokeId c) (Plain (signalReason c w)) False)) (c_options c) w
      in case createAbortError (signalReason c w1) w1 of
           (Thrown e, w2) \<Rightarrow> (Thrown e, w2)
         | (Normal err, w2) \<Rightarrow> (Normal (), cleanup c (sw_error (c_stream c) err w2)))"

definition p0OnReceive :: "scall \<Rightarrow> body option \<Rightarrow> sworld \<Rightarrow> sworld" where
  "p0OnReceive c b w = streamOnReceive (c_invokeId c) (c_stream c) b w"

definition p0OnReceiveError :: "scall \<Rightarrow> body option \<Rightarrow> sworld \<Rightarrow> sworld" where
  "p0OnReceiveError c b w =
     (case b of
        None \<Rightarrow> w
      | Some (EventBody v) \<Rightarrow> w
      | Some (InvokeBody i ct s) \<Rightarrow>
          if i \<noteq> c_invokeId c then w
          else (case contentError ct of
                  None \<Rightarrow> w
                | Some e \<Rightarrow> cleanup c (sw_error (c_stream c) e w)))"

definition p0OnReceiveStreamEnd :: "scall \<Rightarrow> body option \<Rightarrow> sworld \<Rightarrow> sworld" where
  "p0OnReceiveStreamEnd c b w =
     (case b of
        None \<Rightarrow> w
      | Some (EventBody v) \<Rightarrow> w
      | Some (InvokeBody i ct s) \<Rightarrow>
          if i \<noteq> c_invokeId c then w
          else (case sw_close (c_stream c) w of
                  None \<Rightarrow> w
                | Some w' \<Rightarrow> cleanup c w'))"

text \<open>\<open>cancel(reason)\<close> of the response stream in part_000.\<close>

definition p0_cancel :: "semitter \<Rightarrow> scall \<Rightarrow> jsval \<Rightarrow> sworld \<Rightarrow> sworld" where
  "p0_cancel em c reason w =
     cleanup c (em (sendEventAbort (c_tag c))
                   (Some (InvokeBody (c_invokeId c) (Plain reason) False)) (c_options c) w)"

subsection \<open>part_000: the server with cancellation\<close>

text \<open>\<open>new AbortController()\<close>: a fresh signal, not aborted.\<close>

definition newAbortController :: "sworld \<Rightarrow> nat \<times> sworld" where
  "newAbortController w =
     (let sg = nextSignal w in
      (sg, w\<lparr>nextSignal := Suc sg, signals := (signals w)(sg := NotAborted)\<rparr>))"

text \<open>The \<open>finally\<close> of \<open>handleInvoke\<close>.\<close>

definition clearAbortState :: "nat \<Rightarrow> string \<Rightarrow> sworld \<Rightarrow> sworld" where
  "clearAbortState h invokeId w =
     w\<lparr>abortControllers := (abortControllers w)(h := (abortControllers w h)(invokeId := None)),
       abortReasons := (abortReasons w)(h := (abortReasons w h)(invokeId := None))\<rparr>"

definition scheduleAbort :: "nat \<Rightarrow> jsval \<Rightarrow> sworld \<Rightarrow> sworld" where
  "scheduleAbort controller reason w = w\<lparr>sw_jobs := sw_jobs w @ [AbortJob controller reason]\<rparr>"

definition handleInvoke_p0 ::
  "semitter \<Rightarrow> nat \<Rightarrow> string \<Rightarrow> nat \<Rightarrow> string \<Rightarrow> jsval \<Rightarrow> jsval \<Rightarrow> sworld \<Rightarrow> sworld" where
  "handleInvoke_p0 em h tag fn invokeId payload options w =
     (let (abortController, w0) = newAbortController w;
          w1 = w0\<lparr>abortControllers := (abortControllers w0)(h := (abortControllers w0 h)(invokeId := Some abortController))\<rparr>;
          w2 = (case abortReasons w1 h invokeId of
                  None \<Rightarrow> w1
                | Some reason \<Rightarrow> scheduleAbort abortController reason w1);
          w3 = w2\<lparr>sw_calls := sw_calls w2 @ [(fn, payload, options, Some abortController)]\<rparr>
      in case producers w fn payload options of
           FnThrows e \<Rightarrow>
             clearAbortState h invokeId
               (em (invokeReceiveEventError tag invokeId)
                   (Some (InvokeBody invokeId (ErrorBox e) False)) options w3)
         | Generates xs en \<Rightarrow> w3\<lparr>sw_jobs := sw_jobs w3 @ [P0Gen h tag invokeId xs en options]\<rparr>)"

definition p0OnSend :: "semitter \<Rightarrow> nat \<Rightarrow> body option \<Rightarrow> jsval \<Rightarrow> sworld \<Rightarrow> sworld" where
  "p0OnSend em h b options w =
     (case streamHandlers w h of
        None \<Rightarrow> w
      | Some (tag, fn) \<Rightarrow>
         (case b of
            None \<Rightarrow> w
          | Some (EventBody v) \<Rightarrow> w
          | Some (InvokeBody invokeId cont isReqStream) \<Rightarrow>
              if invokeId = [] then w
              else if isReqStream then
                (case sw_streamStates w h invokeId of
                   Some sid \<Rightarrow>
                     (case sw_enqueue sid (contentValue cont) w of None \<Rightarrow> w | Some w' \<Rightarrow> w')
                 | None \<Rightarrow>
                     let (sid, w1) = sw_newReqStream h invokeId w;
                         w2 = handleInvoke_p0 em h tag fn invokeId (JStream sid) options w1
                     in (case sw_enqueue sid (contentValue cont) w2 of None \<Rightarrow> w2 | Some w' \<Rightarrow> w'))
              else handleInvoke_p0 em h tag fn invokeId (contentValue cont) options w))"

text \<open>\<open>controller.error(createAbortError(reason))\<close> then
  \<open>streamStates.delete(invokeId)\<close>, the last two statements of the listener on
  \<open>send-abort\<close>. When \<open>createAbortError\<close> throws, the listener ends there: the stream is
  not errored and its entry stays.\<close>

definition abortInput :: "nat \<Rightarrow> string \<Rightarrow> nat \<Rightarrow> jsval \<Rightarrow> sworld \<Rightarrow> sworld" where
  "abortInput h invokeId sid reason w =
     (case createAbortError reason w of
        (Thrown e, w1) \<Rightarrow> w1
      | (Normal err, w1) \<Rightarrow>
          (let w2 = sw_error sid err w1
           in w2\<lparr>sw_streamStates := (sw_streamStates w2)(h := (sw_streamStates w2 h)(invokeId := None))\<rparr>))"

definition p0OnSendAbort :: "semitter \<Rightarrow> nat \<Rightarrow> body option \<Rightarrow> sworld \<Rightarrow> sworld" where
  "p0OnSendAbort em h b w =
     (case streamHandlers w h of
        None \<Rightarrow> w
      | Some (tag, fn) \<Rightarrow>
         (case b of
            None \<Rightarrow> w
          | Some (EventBody v) \<Rightarrow> w
          | Some (InvokeBody invokeId cont isReqStream) \<Rightarrow>
              if invokeId = [] then w
              else
                let reason = contentValue cont in
                (case abortControllers w h invokeId of
                   None \<Rightarrow>
                     let w1 = w\<lparr>abortReasons := (abortReasons w)(h := (abortReasons w h)(invokeId := Some reason))\<rparr>
                     in (case sw_streamStates w1 h invokeId of
                           Some sid \<Rightarrow> abortInput h invokeId sid reason w1
                         | None \<Rightarrow>
                             let (sid, w2) = sw_newReqStream h invokeId w1;
                                 w3 = handleInvoke_p0 em h tag fn invokeId (JStream sid) Undefined w2
                             in abortInput h invokeId sid reason w3)
                 | Some abortController \<Rightarrow>
                     let w1 = scheduleAbort abortController reason w
                     in (case sw_streamStates w1 h invokeId of
                           Some sid \<Rightarrow> abortInput h invokeId sid reason w1
                         | None \<Rightarrow> w1))))"

subsection \<open>Dispatch, jobs and registration in the streaming contexts\<close>

definition runSListener :: "semitter \<Rightarrow> slistener \<Rightarrow> body option \<Rightarrow> jsval \<Rightarrow> sworld \<Rightarrow> sworld" where
  "runSListener em l b options w =
     (case l of
        StreamReceive i sid \<Rightarrow> streamOnReceive i sid b w
      | StreamReceiveError i sid \<Rightarrow> streamOnReceiveError i sid b w
      | StreamReceiveStreamEnd i sid \<Rightarrow> streamOnReceiveStreamEnd i sid b w
      | StreamSend h \<Rightarrow> streamOnSend em h b options w
      | StreamSendStreamEnd h \<Rightarrow> streamOnSendStreamEnd h b w
      | P0Receive c \<Rightarrow> p0OnReceive c b w
      | P0ReceiveError c \<Rightarrow> p0OnReceiveError c b w
      | P0ReceiveStreamEnd c \<Rightarrow> p0OnReceiveStreamEnd c b w
      | P0Send h \<Rightarrow> p0OnSend em h b options w
      | P0SendStreamEnd h \<Rightarrow> streamOnSendStreamEnd h b w
      | P0SendAbort h \<Rightarrow> p0OnSendAbort em h b w)"

primrec sw_emit :: "nat \<Rightarrow> string \<Rightarrow> body option \<Rightarrow> jsval \<Rightarrow> sworld \<Rightarrow> sworld" where
  "sw_emit 0 eid b options w = w\<lparr>sw_stackOverflow := True\<rparr>"
| "sw_emit (Suc n) eid b options w =
     foldl (\<lambda>w' l. runSListener (sw_emit n) l b options w')
           (w\<lparr>sw_emitted := sw_emitted w @ [(eid, b)]\<rparr>) (sw_listeners w eid)"

text \<open>\<open>defineStreamInvoke\<close> of stream.ts: returns the response stream and the context
  after the synchronous part of the call.\<close>

definition defineStreamInvoke :: "nat \<Rightarrow> string \<Rightarrow> request \<Rightarrow> sworld \<Rightarrow> nat \<times> sworld" where
  "defineStreamInvoke n tag req w =
     (let (invokeId, w1) = sw_nanoid w;
          (controller, w2) = sw_newStream w1;
          w3 = sw_on (invokeReceiveEvent tag invokeId) (StreamReceive invokeId controller) w2;
          w4 = sw_on (invokeReceiveEventError tag invokeId) (StreamReceiveError invokeId controller) w3;
          w5 = sw_on (invokeReceiveEventStreamEnd tag invokeId) (StreamReceiveStreamEnd invokeId controller) w4
      in (controller,
          case req of
            ReqStream cs e \<Rightarrow> w5\<lparr>sw_jobs := sw_jobs w5 @ [SPump tag invokeId cs e]\<rparr>
          | ReqValue v \<Rightarrow>
              sw_emit n (sendEvent tag) (Some (InvokeBody invokeId (Plain v) False)) Undefined w5))"

text \<open>
  \<open>defineStreamInvoke\<close> of part_000, called with \<open>options = { signal, ...emitOptions }\<close>.
  \<open>start\<close> runs inside \<open>new ReadableStream\<close>: with a signal that is aborted already it
  calls \<open>onAbort\<close>, and when that throws the constructor throws and so does the call, before
  anything of the request is sent.
\<close>

definition defineStreamInvoke_p0 ::
  "nat \<Rightarrow> string \<Rightarrow> request \<Rightarrow> nat option \<Rightarrow> jsval \<Rightarrow> sworld \<Rightarrow> nat completion \<times> sworld" where
  "defineStreamInvoke_p0 n tag req signal emitOptions w =
     (let (invokeId, w1) = sw_nanoid w;
          (controller, w2) = sw_newStream w1;
          c = \<lparr>c_tag = tag, c_invokeId = invokeId, c_stream = controller,
               c_signal = signal, c_options = emitOptions\<rparr>;
          w3 = sw_on (invokeReceiveEvent tag invokeId) (P0Receive c) w2;
          w4 = sw_on (invokeReceiveEventError tag invokeId) (P0ReceiveError c) w3;
          w5 = sw_on (invokeReceiveEventStreamEnd tag invokeId) (P0ReceiveStreamEnd c) w4;
          (started, w6) =
            (case signal of
               None \<Rightarrow> (Normal (), w5)
             | Some sg \<Rightarrow>
                 (case signals w5 sg of
                    Aborted r \<Rightarrow> onAbort (sw_emit n) c w5
                  | NotAborted \<Rightarrow>
                      (Normal (),
                       w5\<lparr>signalListeners := (signalListeners w5)(sg := signalListeners w5 sg @ [c])\<rparr>)))
      in case started of
           Thrown e \<Rightarrow> (Thrown e, w6)
         | Normal u \<Rightarrow>
             (Normal controller,
              case req of
                ReqStream cs e \<Rightarrow> w6\<lparr>sw_jobs := sw_jobs w6 @ [P0Pump c cs e]\<rparr>
              | ReqValue v \<Rightarrow>
                  sw_emit n (sendEvent tag) (Some (InvokeBody invokeId (Plain v) False)) emitOptions w6))"

text \<open>The caller's \<open>AbortController.abort(reason)\<close>: the signal becomes aborted and its
  \<open>abort\<close> listeners, registered with \<open>once\<close>, run in order. The dispatch of the event
  reports what a listener throws and goes on with the next listener.\<close>

definition signal_abort :: "nat \<Rightarrow> nat \<Rightarrow> jsval \<Rightarrow> sworld \<Rightarrow> sworld" where
  "signal_abort n sg reason w =
     (case signals w sg of
        Aborted r \<Rightarrow> w
      | NotAborted \<Rightarrow>
          let w1 = w\<lparr>signals := (signals w)(sg := Aborted reason)\<rparr>;
              ls = signalListeners w1 sg;
              w2 = w1\<lparr>signalListeners := (signalListeners w1)(sg := [])\<rparr>
          in foldl (\<lambda>w' c. snd (onAbort (sw_emit n) c w')) w2 ls)"

fun runSJob :: "nat \<Rightarrow> sjob \<Rightarrow> sworld \<Rightarrow> sworld" where
  "runSJob n (SGen tag invokeId (x # xs) en options) w =
     (let w1 = sw_emit n (invokeReceiveEvent tag invokeId)
                 (Some (InvokeBody invokeId (Plain x) False)) options w
      in w1\<lparr>sw_jobs := sw_jobs w1 @ [SGen tag invokeId xs en options]\<rparr>)"
| "runSJob n (SGen tag invokeId [] Finishes options) w =
     sw_emit n (invokeReceiveEventStreamEnd tag invokeId)
       (Some (InvokeBody invokeId (Plain Undefined) False)) options w"
| "runSJob n (SGen tag invokeId [] (Fails e) options) w =
     sw_emit n (invokeReceiveEventError tag invokeId)
       (Some (InvokeBody invokeId (ErrorBox e) False)) options w"
| "runSJob n (SGen tag invokeId [] Stalls options) w = w"
| "runSJob n (SPump tag invokeId (c # cs) e) w =
     (let w1 = sw_emit n (sendEvent tag) (Some (InvokeBody invokeId (Plain c) True)) Undefined w
      in w1\<lparr>sw_jobs := sw_jobs w1 @ [SPump tag invokeId cs e]\<rparr>)"
| "runSJob n (SPump tag invokeId [] None) w =
     sw_emit n (sendEventStreamEnd tag) (Some (InvokeBody invokeId (Plain Undefined) False)) Undefined w"
| "runSJob n (SPump tag invokeId [] (Some err)) w =
     sw_emit n (sendEventError tag) (Some (InvokeBody invokeId (Plain err) False)) Undefined w"
| "runSJob n (P0Gen h tag invokeId (x # xs) en options) w =
     (let w1 = sw_emit n (invokeReceiveEvent tag invokeId)
                 (Some (InvokeBody invokeId (Plain x) False)) options w
      in w1\<lparr>sw_jobs := sw_jobs w1 @ [P0Gen h tag invokeId xs en options]\<rparr>)"
| "runSJob n (P0Gen h tag invokeId [] Finishes options) w =
     clearAbortState h invokeId
       (sw_emit n (invokeReceiveEventStreamEnd tag invokeId)
          (Some (InvokeBody invokeId (Plain Undefined) False)) options w)"
| "runSJob n (P0Gen h tag invokeId [] (Fails e) options) w =
     clearAbortState h invokeId
       (sw_emit n (invokeReceiveEventError tag invokeId)
          (Some (InvokeBody invokeId (ErrorBox e) False)) options w)"
| "runSJob n (P0Gen h tag invokeId [] Stalls options) w = w"
| "runSJob n (P0Pump c (x # xs) e) w =
     (if signalAborted c w then w
      else
        let w1 = sw_emit n (sendEvent (c_tag c))
                   (Some (InvokeBody (c_invokeId c) (Plain x) True)) (c_options c) w
        in w1\<lparr>sw_jobs := sw_jobs w1 @ [P0Pump c xs e]\<rparr>)"
| "runSJob n (P0Pump c [] None) w =
     sw_emit n (sendEventStreamEnd (c_tag c))
       (Some (InvokeBody (c_invokeId c) (Plain Undefined) False)) (c_options c) w"
| "runSJob n (P0Pump c [] (Some err)) w =
     (if signalAborted c w then w
      else if isAbortError err then
        sw_emit n (sendEventAbort (c_tag c))
          (Some (InvokeBody (c_invokeId c) (Plain err) False)) (c_options c) w
      else
        sw_emit n (sendEventError (c_tag c))
          (Some (InvokeBody (c_invokeId c) (Plain err) False)) (c_options c) w)"
| "runSJob n (AbortJob controller reason) w =
     (case signals w controller of
        Aborted r \<Rightarrow> w
      | NotAborted \<Rightarrow> w\<lparr>signals := (signals w)(controller := Aborted reason)\<rparr>)"

fun runSJobs :: "nat \<Rightarrow> nat \<Rightarrow> sworld \<Rightarrow> sworld" where
  "runSJobs 0 n w = w"
| "runSJobs (Suc k) n w =
     (case sw_jobs w of
        [] \<Rightarrow> w
      | j # js \<Rightarrow> runSJobs k n (runSJob n j (w\<lparr>sw_jobs := js\<rparr>)))"

text \<open>\<open>defineStreamInvokeHandler\<close> of stream.ts and of part_000.\<close>

definition defineStreamInvokeHandler :: "string \<Rightarrow> nat \<Rightarrow> sworld \<Rightarrow> sworld" where
  "defineStreamInvokeHandler tag fn w =
     (let h = nextHandler w;
          w1 = w\<lparr>nextHandler := Suc h, streamHandlers := (streamHandlers w)(h := Some (tag, fn)),
                 sw_streamStates := (sw_streamStates w)(h := (\<lambda>_. None))\<rparr>;
          w2 = sw_on (sendEvent tag) (StreamSend h) w1
      in sw_on (sendEventStreamEnd tag) (StreamSendStreamEnd h) w2)"

definition defineStreamInvokeHandler_p0 :: "string \<Rightarrow> nat \<Rightarrow> sworld \<Rightarrow> sworld" where
  "defineStreamInvokeHandler_p0 tag fn w =
     (let h = nextHandler w;
          w1 = w\<lparr>nextHandler := Suc h, streamHandlers := (streamHandlers w)(h := Some (tag, fn)),
                 sw_streamStates := (sw_streamStates w)(h := (\<lambda>_. None)),
                 abortControllers := (abortControllers w)(h := (\<lambda>_. None)),
                 abortReasons := (abortReasons w)(h := (\<lambda>_. None))\<rparr>;
          w2 = sw_on (sendEvent tag) (P0Send h) w1;
          w3 = sw_on (sendEventStreamEnd tag) (P0SendStreamEnd h) w2
      in sw_on (sendEventAbort tag) (P0SendAbort h) w3)"

text \<open>Reading a stream, as \<open>for await\<close> over it does: \<open>pull\<close> is one \<open>read()\<close> of the
  reader, \<open>pulls k\<close> the results of \<open>k\<close> reads in a row.\<close>

datatype pullResult = Chunk jsval | Done | Raise jsval | Wait

definition pull :: "rstream \<Rightarrow> pullResult \<times> rstream" where
  "pull s =
     (case chunks s of
        x # rest \<Rightarrow> (Chunk x, s\<lparr>chunks := rest\<rparr>)
      | [] \<Rightarrow> (case status s of
                 Readable \<Rightarrow> (Wait, s)
               | Closed \<Rightarrow> (Done, s)
               | Errored e \<Rightarrow> (Raise e, s)))"

fun pulls :: "nat \<Rightarrow> rstream \<Rightarrow> pullResult list" where
  "pulls 0 s = []"
| "pulls (Suc k) s = (case pull s of (r, s') \<Rightarrow> r # pulls k s')"

subsection \<open>A call seen from its two ends\<close>

text \<open>
  What the handler of a call is called with: the request value, or the input stream the
  server makes when the first chunk arrives. \<open>pumpTurns\<close> is the number of turns the
  client's \<open>for await\<close> over a request stream takes (one per chunk and one for the end).
  \<open>startsHandler\<close>: the request makes the server of stream.ts call the handler, which a
  request stream without a chunk does not.
\<close>

definition requestPayload :: "request \<Rightarrow> nat \<Rightarrow> jsval" where
  "requestPayload req rid = (case req of ReqValue v \<Rightarrow> v | ReqStream cs e \<Rightarrow> JStream rid)"

definition pumpTurns :: "request \<Rightarrow> nat" where
  "pumpTurns req = (case req of ReqValue v \<Rightarrow> 0 | ReqStream cs e \<Rightarrow> Suc (length cs))"

definition startsHandler :: "request \<Rightarrow> bool" where
  "startsHandler req = (case req of ReqValue v \<Rightarrow> True | ReqStream cs e \<Rightarrow> cs \<noteq> [])"

text \<open>
  \<open>awaiting\<close>: the client of the call still has its \<open>receive\<close> and \<open>receive-stream-end\<close>
  listeners and its response stream is readable, holding \<open>acc\<close>. \<open>serving\<close>: the server
  has its listeners on the family and an input stream for the call, another stream than
  the response stream. \<open>received\<close> is the log of the emits on the three per-call ids.
\<close>

definition awaiting :: "string \<Rightarrow> string \<Rightarrow> nat \<Rightarrow> jsval list \<Rightarrow> sworld \<Rightarrow> bool" where
  "awaiting tag iid sid acc w =
     (sw_listeners w (invokeReceiveEvent tag iid) = [StreamReceive iid sid]
      \<and> sw_listeners w (invokeReceiveEventStreamEnd tag iid) = [StreamReceiveStreamEnd iid sid]
      \<and> sw_streams w sid = Some \<lparr>chunks = acc, status = Readable\<rparr>)"

definition serving :: "string \<Rightarrow> string \<Rightarrow> nat \<Rightarrow> nat \<Rightarrow> nat \<Rightarrow> sworld \<Rightarrow> bool" where
  "serving tag iid h rid sid w =
     (sw_listeners w (sendEvent tag) = [StreamSend h]
      \<and> sw_listeners w (sendEventStreamEnd tag) = [StreamSendStreamEnd h]
      \<and> sw_listeners w (sendEventError tag) = []
      \<and> map_option fst (streamHandlers w h) = Some tag
      \<and> sw_streamStates w h iid = Some rid \<and> rid \<noteq> sid \<and> iid \<noteq> [])"

definition receiveIds :: "string \<Rightarrow> string \<Rightarrow> string set" where
  "receiveIds tag iid =
     {invokeReceiveEvent tag iid, invokeReceiveEventError tag iid, invokeReceiveEventStreamEnd tag iid}"

definition received :: "string \<Rightarrow> string \<Rightarrow> sworld \<Rightarrow> (string \<times> body option) list" where
  "received tag iid w = filter (\<lambda>e. fst e \<in> receiveIds tag iid) (sw_emitted w)"

section \<open>Remote methods (invoke-remote-methods.ts, src/unnamed/part_001)\<close>

text \<open>
  The caps \<open>maxDepth\<close> and \<open>maxFunctions\<close> are JavaScript numbers that the source compares
  with a count or a depth and prints in its messages, without validating them. A number is
  a whole number, a number strictly between two consecutive whole numbers (given by the
  lower one and by its decimal text), \<open>NaN\<close>, or one of the infinities.
\<close>

datatype jsnumber = Whole int | Between int string | NaN | PlusInfinity | MinusInfinity

text \<open>\<open>count >= cap\<close> and \<open>depth > cap\<close>, for a count or depth that is a natural
  number.\<close>

fun reaches :: "nat \<Rightarrow> jsnumber \<Rightarrow> bool" where
  "reaches k (Whole c) = (c \<le> int k)"
| "reaches k (Between c txt) = (c < int k)"
| "reaches k NaN = False"
| "reaches k PlusInfinity = False"
| "reaches k MinusInfinity = True"

fun exceeds :: "nat \<Rightarrow> jsnumber \<Rightarrow> bool" where
  "exceeds k (Whole c) = (c < int k)"
| "exceeds k (Between c txt) = (c < int k)"
| "exceeds k NaN = False"
| "exceeds k PlusInfinity = False"
| "exceeds k MinusInfinity = True"

text \<open>The normalized options of \<open>normalizeFunctionStubOptions\<close>.\<close>

datatype disallowedTag = Ignore | Throw

record stubOptions =
  allow :: bool
  maxDepth :: jsnumber
  maxFunctions :: jsnumber
  tagPrefix :: string
  onDisallowedTag :: disallowedTag
  autoDisposeMs :: jsnumber
  strict :: bool

text \<open>A number inside a template literal (\<open>`max ${options.maxFunctions}`\<close>). Whole
  numbers are printed in decimal, as JavaScript prints them below \<open>10^21\<close>.\<close>

fun showNat :: "nat \<Rightarrow> string" where
  "showNat n = (if n < 10 then [char_of (48 + n)] else showNat (n div 10) @ [char_of (48 + n mod 10)])"

declare showNat.simps [simp del]

definition showInt :: "int \<Rightarrow> string" where
  "showInt i = (if i < 0 then CHR ''-'' # showNat (nat (- i)) else showNat (nat i))"

fun showNumber :: "jsnumber \<Rightarrow> string" where
  "showNumber (Whole c) = showInt c"
| "showNumber (Between c txt) = txt"
| "showNumber NaN = ''NaN''"
| "showNumber PlusInfinity = ''Infinity''"
| "showNumber MinusInfinity = ''-Infinity''"

text \<open>
  \<open>input.__eventaInvoke.tag\<close> when \<open>input\<close> is a plain object, \<open>__eventaInvoke\<close> is an
  object and its \<open>tag\<close> is a string. Plain objects and the other non-plain objects carry
  properties; the descriptor under \<open>__eventaInvoke\<close> is written out where it is read.
\<close>

fun stubTag :: "jsval \<Rightarrow> string option" where
  "stubTag (JObj i p fs) =
     (case map_of fs ''__eventaInvoke'' of
        Some (JObj j q gs) \<Rightarrow> (case map_of gs ''tag'' of Some (JStr t) \<Rightarrow> Some t | _ \<Rightarrow> None)
      | Some (JOther j gs) \<Rightarrow> (case map_of gs ''tag'' of Some (JStr t) \<Rightarrow> Some t | _ \<Rightarrow> None)
      | _ \<Rightarrow> None)"
| "stubTag v = None"

text \<open>\<open>isPlainObject\<close>, \<open>isInvokeFunctionStubPayload\<close> and \<open>hasInvokeFunctionStubKey\<close>.\<close>

fun isPlainObject :: "jsval \<Rightarrow> bool" where
  "isPlainObject (JObj i p fs) = True"
| "isPlainObject v = False"

definition isInvokeFunctionStubPayload :: "jsval \<Rightarrow> bool" where
  "isInvokeFunctionStubPayload v = (stubTag v \<noteq> None)"

fun hasInvokeFunctionStubKey :: "jsval \<Rightarrow> bool" where
  "hasInvokeFunctionStubKey (JObj i p fs) = (map_of fs ''__eventaInvoke'' \<noteq> None)"
| "hasInvokeFunctionStubKey v = False"

text \<open>\<open>tag.startsWith(prefix)\<close>.\<close>

definition startsWith :: "string \<Rightarrow> string \<Rightarrow> bool" where
  "startsWith s p = (take (length p) s = p)"

subsection \<open>serializeInvokeFunctionPayload\<close>

text \<open>
  What the closure \<open>walk\<close> of the serializer holds and changes: \<open>functionCount\<close>, the
  \<open>WeakMap\<close> \<open>seen\<close> (from the identity of an input object to the identity of its output),
  the \<open>disposers\<close> (each is the disposer of one \<open>defineInvokeHandler\<close>: the tag and the
  internal handler), the context, and the next unused object identity, from which every
  new object of the walk (output arrays and objects, stub descriptors, errors) takes its
  identity.
\<close>

record serializer =
  s_functionCount :: nat
  s_seen :: "(nat \<times> nat) list"
  s_disposers :: "(string \<times> nat) list"
  s_heap :: nat
  s_ctx :: world

text \<open>\<open>throw new Error(msg)\<close>.\<close>

definition throwS :: "string \<Rightarrow> serializer \<Rightarrow> 'a completion \<times> serializer" where
  "throwS msg st = (Thrown (JError (s_heap st) ''Error'' msg), st\<lparr>s_heap := Suc (s_heap st)\<rparr>)"

definition tooManyMessage :: "stubOptions \<Rightarrow> string" where
  "tooManyMessage opts =
     ''Too many function stubs in invoke payload (max '' @ showNumber (maxFunctions opts) @ '').''"

definition tooDeepMessage :: "stubOptions \<Rightarrow> string" where
  "tooDeepMessage opts = ''Invoke payload is too deep (max '' @ showNumber (maxDepth opts) @ '').''"

text \<open>
  The branch of a function value below the cap: a handler for the function is
  registered on the family \<open>`${options.tagPrefix}${nanoid()}`\<close> and the function is
  replaced by the literal \<open>{ __eventaInvoke: { tag } }\<close>, two new objects on
  \<open>Object.prototype\<close>. The handler registered in the source is a new closure that calls
  the function; it is registered here under the function's own number, whose behaviour
  it has.
\<close>

definition registerStub :: "stubOptions \<Rightarrow> nat \<Rightarrow> serializer \<Rightarrow> jsval completion \<times> serializer" where
  "registerStub opts f st =
     (let (nid, w1) = nanoid (s_ctx st);
          tag = tagPrefix opts @ nid;
          (c, w2) = defineInvokeHandler tag f w1;
          inner = s_heap st
      in (Normal (JObj (Suc inner) ObjectPrototype
                    [(''__eventaInvoke'', JObj inner ObjectPrototype [(''tag'', JStr tag)])]),
          st\<lparr>s_functionCount := Suc (s_functionCount st),
             s_disposers := s_disposers st @ [(tag, c)],
             s_heap := Suc (Suc inner), s_ctx := w2\<rparr>))"

text \<open>
  \<open>walk(input, depth)\<close>. The checks come in the order of the source: a function first,
  then \<open>null\<close> and the values that are not objects, then the depth, then \<open>seen\<close>, then
  arrays, then non-plain objects (returned as they are, with all they hold), then plain
  objects, rebuilt on \<open>Object.create(null)\<close> from \<open>Object.entries(input)\<close>. The output of
  an array or plain object is recorded in \<open>seen\<close> before its children are walked; an object
  found in \<open>seen\<close> gives that output, which is the reference \<open>JRef\<close> to it in the term
  returned. A reference to an object that is not in \<open>seen\<close> does not occur in a term
  written in the order of the walk (\<open>inOrderS\<close> below); it is returned as it is.
\<close>

fun walkS :: "stubOptions \<Rightarrow> jsval \<Rightarrow> nat \<Rightarrow> serializer \<Rightarrow> jsval completion \<times> serializer"
  and walkS_items ::
    "stubOptions \<Rightarrow> jsval list \<Rightarrow> nat \<Rightarrow> serializer \<Rightarrow> jsval list completion \<times> serializer"
  and walkS_entries ::
    "stubOptions \<Rightarrow> (string \<times> jsval) list \<Rightarrow> nat \<Rightarrow> serializer
       \<Rightarrow> (string \<times> jsval) list completion \<times> serializer"
where
  "walkS opts (JFun f) depth st =
     (if reaches (s_functionCount st) (maxFunctions opts) then throwS (tooManyMessage opts) st
      else registerStub opts f st)"
| "walkS opts (JArr i xs) depth st =
     (if exceeds depth (maxDepth opts) then throwS (tooDeepMessage opts) st
      else case map_of (s_seen st) i of
        Some output \<Rightarrow> (Normal (JRef output), st)
      | None \<Rightarrow>
          (case walkS_items opts xs (Suc depth)
                  (st\<lparr>s_heap := Suc (s_heap st), s_seen := (i, s_heap st) # s_seen st\<rparr>) of
             (Thrown e, st') \<Rightarrow> (Thrown e, st')
           | (Normal ys, st') \<Rightarrow> (Normal (JArr (s_heap st) ys), st')))"
| "walkS opts (JObj i p fs) depth st =
     (if exceeds depth (maxDepth opts) then throwS (tooDeepMessage opts) st
      else case map_of (s_seen st) i of
        Some output \<Rightarrow> (Normal (JRef output), st)
      | None \<Rightarrow>
          (case walkS_entries opts fs (Suc depth)
                  (st\<lparr>s_heap := Suc (s_heap st), s_seen := (i, s_heap st) # s_seen st\<rparr>) of
             (Thrown e, st') \<Rightarrow> (Thrown e, st')
           | (Normal gs, st') \<Rightarrow> (Normal (JObj (s_heap st) NullPrototype gs), st')))"
| "walkS opts (JRef i) depth st =
     (if exceeds depth (maxDepth opts) then throwS (tooDeepMessage opts) st
      else case map_of (s_seen st) i of
        Some output \<Rightarrow> (Normal (JRef output), st)
      | None \<Rightarrow> (Normal (JRef i), st))"
| "walkS opts (JError i name msg) depth st =
     (if exceeds depth (maxDepth opts) then throwS (tooDeepMessage opts) st
      else case map_of (s_seen st) i of
        Some output \<Rightarrow> (Normal (JRef output), st)
      | None \<Rightarrow> (Normal (JError i name msg), st))"
| "walkS opts (JStream i) depth st =
     (if exceeds depth (maxDepth opts) then throwS (tooDeepMessage opts) st
      else case map_of (s_seen st) i of
        Some output \<Rightarrow> (Normal (JRef output), st)
      | None \<Rightarrow> (Normal (JStream i), st))"
| "walkS opts (JOther i fs) depth st =
     (if exceeds depth (maxDepth opts) then throwS (tooDeepMessage opts) st
      else case map_of (s_seen st) i of
        Some output \<Rightarrow> (Normal (JRef output), st)
      | None \<Rightarrow> (Normal (JOther i fs), st))"
| "walkS opts Undefined depth st = (Normal Undefined, st)"
| "walkS opts Null depth st = (Normal Null, st)"
| "walkS opts (JBool b) depth st = (Normal (JBool b), st)"
| "walkS opts (JNum n) depth st = (Normal (JNum n), st)"
| "walkS opts (JStr s) depth st = (Normal (JStr s), st)"
| "walkS_items opts [] depth st = (Normal [], st)"
| "walkS_items opts (x # xs) depth st =
     (case walkS opts x depth st of
        (Thrown e, st1) \<Rightarrow> (Thrown e, st1)
      | (Normal y, st1) \<Rightarrow>
          (case walkS_items opts xs depth st1 of
             (Thrown e, st2) \<Rightarrow> (Thrown e, st2)
           | (Normal ys, st2) \<Rightarrow> (Normal (y # ys), st2)))"
| "walkS_entries opts [] depth st = (Normal [], st)"
| "walkS_entries opts ((k, c) # fs) depth st =
     (case walkS opts c depth st of
        (Thrown e, st1) \<Rightarrow> (Thrown e, st1)
      | (Normal y, st1) \<Rightarrow>
          (case walkS_entries opts fs depth st1 of
             (Thrown e, st2) \<Rightarrow> (Thrown e, st2)
           | (Normal gs, st2) \<Rightarrow> (Normal ((k, y) # gs), st2)))"

text \<open>The result is \<open>{ value, dispose }\<close>, given as the value and the disposers that
  \<open>dispose\<close> runs, with the context and the next object identity after the walk. A
  throw leaves the handlers registered so far in the context.\<close>

definition serializeInvokeFunctionPayload ::
  "jsval \<Rightarrow> world \<Rightarrow> stubOptions \<Rightarrow> nat
     \<Rightarrow> (jsval \<times> (string \<times> nat) list) completion \<times> world \<times> nat" where
  "serializeInvokeFunctionPayload v w opts h =
     (if \<not> allow opts then (Normal (v, []), w, h)
      else case walkS opts v 0 \<lparr>s_functionCount = 0, s_seen = [], s_disposers = [], s_heap = h,
                                 s_ctx = w\<rparr> of
             (Thrown e, st) \<Rightarrow> (Thrown e, s_ctx st, s_heap st)
           | (Normal out, st) \<Rightarrow> (Normal (out, s_disposers st), s_ctx st, s_heap st))"

subsection \<open>deserializeInvokeFunctionPayload\<close>

text \<open>
  The state of the deserializer's \<open>walk\<close>: \<open>functionCount\<close>, \<open>seen\<close>, the next object
  identity, and the functions made by \<open>defineInvoke(ctx, event)\<close> with the tag of their
  family.
\<close>

record deserializer =
  d_functionCount :: nat
  d_seen :: "(nat \<times> nat) list"
  d_heap :: nat
  d_invokes :: "(nat \<times> string) list"

definition throwD :: "string \<Rightarrow> deserializer \<Rightarrow> 'a completion \<times> deserializer" where
  "throwD msg st = (Thrown (JError (d_heap st) ''Error'' msg), st\<lparr>d_heap := Suc (d_heap st)\<rparr>)"

text \<open>The branch of a node that \<open>isInvokeFunctionStubPayload\<close> accepts: the cap is
  checked before the prefix of the tag.\<close>

definition rehydrate :: "stubOptions \<Rightarrow> jsval \<Rightarrow> string \<Rightarrow> deserializer \<Rightarrow> jsval completion \<times> deserializer" where
  "rehydrate opts input tag st =
     (if reaches (d_functionCount st) (maxFunctions opts) then throwD (tooManyMessage opts) st
      else if tagPrefix opts \<noteq> [] \<and> \<not> startsWith tag (tagPrefix opts) then
        (case onDisallowedTag opts of
           Throw \<Rightarrow> throwD (''Invoke function tag not allowed: '' @ tag) st
         | Ignore \<Rightarrow> (Normal input, st))
      else (Normal (JFun (d_heap st)),
            st\<lparr>d_functionCount := Suc (d_functionCount st), d_heap := Suc (d_heap st),
               d_invokes := d_invokes st @ [(d_heap st, tag)]\<rparr>))"

text \<open>
  \<open>walk(input, depth)\<close> of the deserializer: values that are not objects (functions among
  them) are returned; then the depth; then a stub descriptor; then, in strict mode, the
  key \<open>__eventaInvoke\<close>; then \<open>seen\<close>, arrays, non-plain objects and plain objects as in the
  serializer. An object that the walk has entered is no stub descriptor and, in strict
  mode, has not the key, so a reference to it goes to \<open>seen\<close>.
\<close>

fun walkD :: "stubOptions \<Rightarrow> jsval \<Rightarrow> nat \<Rightarrow> deserializer \<Rightarrow> jsval completion \<times> deserializer"
  and walkD_items ::
    "stubOptions \<Rightarrow> jsval list \<Rightarrow> nat \<Rightarrow> deserializer \<Rightarrow> jsval list completion \<times> deserializer"
  and walkD_entries ::
    "stubOptions \<Rightarrow> (string \<times> jsval) list \<Rightarrow> nat \<Rightarrow> deserializer
       \<Rightarrow> (string \<times> jsval) list completion \<times> deserializer"
where
  "walkD opts (JArr i xs) depth st =
     (if exceeds depth (maxDepth opts) then throwD (tooDeepMessage opts) st
      else case map_of (d_seen st) i of
        Some output \<Rightarrow> (Normal (JRef output), st)
      | None \<Rightarrow>
          (case walkD_items opts xs (Suc depth)
                  (st\<lparr>d_heap := Suc (d_heap st), d_seen := (i, d_heap st) # d_seen st\<rparr>) of
             (Thrown e, st') \<Rightarrow> (Thrown e, st')
           | (Normal ys, st') \<Rightarrow> (Normal (JArr (d_heap st) ys), st')))"
| "walkD opts (JObj i p fs) depth st =
     (if exceeds depth (maxDepth opts) then throwD (tooDeepMessage opts) st
      else case stubTag (JObj i p fs) of
        Some tag \<Rightarrow> rehydrate opts (JObj i p fs) tag st
      | None \<Rightarrow>
          if strict opts \<and> hasInvokeFunctionStubKey (JObj i p fs)
          then throwD ''Invalid invoke function stub payload.'' st
          else case map_of (d_seen st) i of
            Some output \<Rightarrow> (Normal (JRef output), st)
          | None \<Rightarrow>
              (case walkD_entries opts fs (Suc depth)
                      (st\<lparr>d_heap := Suc (d_heap st), d_seen := (i, d_heap st) # d_seen st\<rparr>) of
                 (Thrown e, st') \<Rightarrow> (Thrown e, st')
               | (Normal gs, st') \<Rightarrow> (Normal (JObj (d_heap st) NullPrototype gs), st')))"
| "walkD opts (JRef i) depth st =
     (if exceeds depth (maxDepth opts) then throwD (tooDeepMessage opts) st
      else case map_of (d_seen st) i of
        Some output \<Rightarrow> (Normal (JRef output), st)
      | None \<Rightarrow> (Normal (JRef i), st))"
| "walkD opts (JError i name msg) depth st =
     (if exceeds depth (maxDepth opts) then throwD (tooDeepMessage opts) st
      else case map_of (d_seen st) i of
        Some output \<Rightarrow> (Normal (JRef output), st)
      | None \<Rightarrow> (Normal (JError i name msg), st))"
| "walkD opts (JStream i) depth st =
     (if exceeds depth (maxDepth opts) then throwD (tooDeepMessage opts) st
      else case map_of (d_seen st) i of
        Some output \<Rightarrow> (Normal (JRef output), st)
      | None \<Rightarrow> (Normal (JStream i), st))"
| "walkD opts (JOther i fs) depth st =
     (if exceeds depth (maxDepth opts) then throwD (tooDeepMessage opts) st
      else case map_of (d_seen st) i of
        Some output \<Rightarrow> (Normal (JRef output), st)
      | None \<Rightarrow> (Normal (JOther i fs), st))"
| "walkD opts (JFun f) depth st = (Normal (JFun f), st)"
| "walkD opts Undefined depth st = (Normal Undefined, st)"
| "walkD opts Null depth st = (Normal Null, st)"
| "walkD opts (JBool b) depth st = (Normal (JBool b), st)"
| "walkD opts (JNum n) depth st = (Normal (JNum n), st)"
| "walkD opts (JStr s) depth st = (Normal (JStr s), st)"
| "walkD_items opts [] depth st = (Normal [], st)"
| "walkD_items opts (x # xs) depth st =
     (case walkD opts x depth st of
        (Thrown e, st1) \<Rightarrow> (Thrown e, st1)
      | (Normal y, st1) \<Rightarrow>
          (case walkD_items opts xs depth st1 of
             (Thrown e, st2) \<Rightarrow> (Thrown e, st2)
           | (Normal ys, st2) \<Rightarrow> (Normal (y # ys), st2)))"
| "walkD_entries opts [] depth st = (Normal [], st)"
| "walkD_entries opts ((k, c) # fs) depth st =
     (case walkD opts c depth st of
        (Thrown e, st1) \<Rightarrow> (Thrown e, st1)
      | (Normal y, st1) \<Rightarrow>
          (case walkD_entries opts fs depth st1 of
             (Thrown e, st2) \<Rightarrow> (Thrown e, st2)
           | (Normal gs, st2) \<Rightarrow> (Normal ((k, y) # gs), st2)))"

definition deserializeInvokeFunctionPayload ::
  "jsval \<Rightarrow> stubOptions \<Rightarrow> nat \<Rightarrow> jsval completion \<times> (nat \<times> string) list \<times> nat" where
  "deserializeInvokeFunctionPayload v opts h =
     (if \<not> allow opts then (Normal v, [], h)
      else case walkD opts v 0 \<lparr>d_functionCount = 0, d_seen = [], d_heap = h, d_invokes = []\<rparr> of
             (r, st) \<Rightarrow> (r, d_invokes st, d_heap st))"

subsection \<open>withRemoteMethods\<close>

text \<open>The options as they are given: \<open>undefined\<close>, a boolean, or an object with any of
  the seven keys.\<close>

record givenOptions =
  g_allow :: "bool option"
  g_maxDepth :: "jsnumber option"
  g_maxFunctions :: "jsnumber option"
  g_tagPrefix :: "string option"
  g_onDisallowedTag :: "disallowedTag option"
  g_autoDisposeMs :: "jsnumber option"
  g_strict :: "bool option"

datatype stubArg = ArgUndefined | ArgBool bool | ArgOptions givenOptions

definition DEFAULT_FUNCTION_STUB_OPTIONS :: "bool \<Rightarrow> stubOptions" where
  "DEFAULT_FUNCTION_STUB_OPTIONS a =
     \<lparr>allow = a, maxDepth = Whole 32, maxFunctions = Whole 32, tagPrefix = ''eventa-invoke-fn-'',
      onDisallowedTag = Ignore, autoDisposeMs = Whole 0, strict = False\<rparr>"

definition orElse :: "'a option \<Rightarrow> 'a \<Rightarrow> 'a" where
  "orElse x d = (case x of None \<Rightarrow> d | Some y \<Rightarrow> y)"

definition normalizeFunctionStubOptions :: "stubArg \<Rightarrow> stubOptions" where
  "normalizeFunctionStubOptions options =
     (case options of
        ArgBool True \<Rightarrow> DEFAULT_FUNCTION_STUB_OPTIONS True
      | ArgBool False \<Rightarrow> DEFAULT_FUNCTION_STUB_OPTIONS False
      | ArgUndefined \<Rightarrow> DEFAULT_FUNCTION_STUB_OPTIONS False
      | ArgOptions g \<Rightarrow>
          \<lparr>allow = orElse (g_allow g) True,
           maxDepth = orElse (g_maxDepth g) (Whole 32),
           maxFunctions = orElse (g_maxFunctions g) (Whole 32),
           tagPrefix = orElse (g_tagPrefix g) ''eventa-invoke-fn-'',
           onDisallowedTag = orElse (g_onDisallowedTag g) Ignore,
           autoDisposeMs = orElse (g_autoDisposeMs g) (Whole 0),
           strict = orElse (g_strict g) False\<rparr>)"

definition resolveFunctionStubOptions :: "stubArg \<Rightarrow> stubArg \<Rightarrow> stubOptions" where
  "resolveFunctionStubOptions defaults override =
     (let base = normalizeFunctionStubOptions defaults in
      case override of
        ArgUndefined \<Rightarrow> base
      | ArgBool b \<Rightarrow> base\<lparr>allow := b\<rparr>
      | ArgOptions g \<Rightarrow> normalizeFunctionStubOptions (ArgOptions g))"

text \<open>
  The function returned by \<open>withRemoteMethods(defaultOptions).defineInvoke(ctx, event)\<close>,
  called with a plain request \<open>req\<close> and \<open>options = { functionStubs, ...invokeOptions }\<close>.
  When the serializer throws, the result is \<open>Promise.reject(error)\<close> and the base invoke
  is not called. Otherwise the result is the promise of the base invoke followed by
  \<open>finally(finalize)\<close>; \<open>finalize\<close>, the \<open>dispose\<close> method and the timer of
  \<open>autoDisposeMs\<close> all run the disposers of the serializer: they are returned with the
  promise and \<open>remoteDispose\<close> runs them.
\<close>

record remoteInvokeResult =
  r_promise :: nat
  r_disposers :: "(string \<times> nat) list"

definition remoteInvoke ::
  "nat \<Rightarrow> string \<Rightarrow> stubArg \<Rightarrow> jsval \<Rightarrow> stubArg \<Rightarrow> jsval \<Rightarrow> world \<Rightarrow> nat
     \<Rightarrow> remoteInvokeResult \<times> world \<times> nat" where
  "remoteInvoke n tag defaultOptions req functionStubs invokeOptions w h =
     (let normalizedOptions = resolveFunctionStubOptions defaultOptions functionStubs in
      if \<not> allow normalizedOptions then
        (let (p, w1) = invoke n tag (ReqValue req) invokeOptions w
         in (\<lparr>r_promise = p, r_disposers = []\<rparr>, w1, h))
      else
        case serializeInvokeFunctionPayload req w normalizedOptions h of
          (Thrown e, w1, h1) \<Rightarrow>
            (let p = nextPromise w1
             in (\<lparr>r_promise = p, r_disposers = []\<rparr>,
                 w1\<lparr>nextPromise := Suc p, promises := (promises w1)(p := Rejected e)\<rparr>, h1))
        | (Normal (v, ds), w1, h1) \<Rightarrow>
            (let (p, w2) = invoke n tag (ReqValue v) invokeOptions w1
             in (\<lparr>r_promise = p, r_disposers = ds\<rparr>, w2, h1)))"

definition remoteDispose :: "remoteInvokeResult \<Rightarrow> world \<Rightarrow> world" where
  "remoteDispose r w = foldl (\<lambda>w' (tag, c). dispose tag c w') w (r_disposers r)"

text \<open>
  The handler that \<open>withRemoteMethods(defaultOptions).defineInvokeHandler\<close> registers: an
  async function that deserializes the payload and calls the user's handler, so whatever
  is thrown inside rejects the promise it returns.
\<close>

definition remoteHandler ::
  "stubArg \<Rightarrow> (jsval \<Rightarrow> jsval \<Rightarrow> outcome) \<Rightarrow> nat \<Rightarrow> jsval \<Rightarrow> jsval \<Rightarrow> outcome" where
  "remoteHandler defaultOptions handler h payload options =
     (let normalizedOptions = resolveFunctionStubOptions defaultOptions ArgUndefined in
      case (if allow normalizedOptions
            then fst (deserializeInvokeFunctionPayload payload normalizedOptions h)
            else Normal payload) of
        Thrown e \<Rightarrow> Rejects e
      | Normal handlerPayload \<Rightarrow>
          (case handler handlerPayload options of Throws e \<Rightarrow> Rejects e | r \<Rightarrow> r))"

subsection \<open>Properties of payloads and of the values the walks return\<close>

text \<open>
  \<open>rebuiltS h v\<close>, for the value \<open>v\<close> returned by the serializer's walk that started with
  the object identity \<open>h\<close>: every array and every plain object of \<open>v\<close> outside of non-plain
  objects has an identity given out by that walk, and the plain object is on the null
  prototype, unless it is one of the stub descriptors \<open>{ __eventaInvoke: { tag } }\<close> that
  the walk makes, both objects of which have identities of the walk; every reference is
  to an object of the walk; no function is left. A non-plain object may hold anything.
  \<open>rebuiltD\<close> is the same for the deserializer, where functions are allowed and the plain
  objects that may be on \<open>Object.prototype\<close> are the stub descriptors of the input with a
  tag that is not allowed, returned as they are under \<open>onDisallowedTag: 'ignore'\<close>.
\<close>

definition stubLiteral :: "nat \<Rightarrow> nat \<Rightarrow> string \<Rightarrow> jsval" where
  "stubLiteral i j tag =
     JObj i ObjectPrototype [(''__eventaInvoke'', JObj j ObjectPrototype [(''tag'', JStr tag)])]"








text \<open>
  What a walk comes to in a payload. A walk enters an array or a plain object once, when
  it first comes to it: \<open>entersS v entered\<close> are the objects that have been entered after
  the serializer's walk of \<open>v\<close>, those of \<open>entered\<close> having been entered before it.
  \<open>functionValues v entered\<close> counts the function values that this walk comes to.
  \<open>tooDeep m d v entered\<close>: \<open>v\<close> being at depth \<open>d\<close>, this walk comes to an object at a
  depth greater than \<open>m\<close>. For the deserializer, which does not enter a stub descriptor:
  \<open>entersD\<close>, \<open>stubCount\<close> (the stub descriptors with an allowed tag that the walk comes
  to), \<open>tooDeepD\<close>, and \<open>malformed\<close> (the walk comes to a plain object that has the key
  \<open>__eventaInvoke\<close> without being a stub descriptor). None of them looks into a non-plain
  object, which the walks do not enter.
\<close>

fun entersS :: "jsval \<Rightarrow> nat list \<Rightarrow> nat list"
  and entersS_items :: "jsval list \<Rightarrow> nat list \<Rightarrow> nat list"
  and entersS_entries :: "(string \<times> jsval) list \<Rightarrow> nat list \<Rightarrow> nat list"
where
  "entersS (JArr i xs) entered = (if i \<in> set entered then entered else entersS_items xs (i # entered))"
| "entersS (JObj i p fs) entered = (if i \<in> set entered then entered else entersS_entries fs (i # entered))"
| "entersS Undefined entered = entered"
| "entersS Null entered = entered"
| "entersS (JBool b) entered = entered"
| "entersS (JNum n) entered = entered"
| "entersS (JStr s) entered = entered"
| "entersS (JFun f) entered = entered"
| "entersS (JError i name msg) entered = entered"
| "entersS (JStream i) entered = entered"
| "entersS (JOther i fs) entered = entered"
| "entersS (JRef i) entered = entered"
| "entersS_items [] entered = entered"
| "entersS_items (x # xs) entered = entersS_items xs (entersS x entered)"
| "entersS_entries [] entered = entered"
| "entersS_entries ((k, c) # fs) entered = entersS_entries fs (entersS c entered)"

fun functionValues :: "jsval \<Rightarrow> nat list \<Rightarrow> nat"
  and functionValues_items :: "jsval list \<Rightarrow> nat list \<Rightarrow> nat"
  and functionValues_entries :: "(string \<times> jsval) list \<Rightarrow> nat list \<Rightarrow> nat"
where
  "functionValues (JFun f) entered = 1"
| "functionValues (JArr i xs) entered =
     (if i \<in> set entered then 0 else functionValues_items xs (i # entered))"
| "functionValues (JObj i p fs) entered =
     (if i \<in> set entered then 0 else functionValues_entries fs (i # entered))"
| "functionValues Undefined entered = 0"
| "functionValues Null entered = 0"
| "functionValues (JBool b) entered = 0"
| "functionValues (JNum n) entered = 0"
| "functionValues (JStr s) entered = 0"
| "functionValues (JError i name msg) entered = 0"
| "functionValues (JStream i) entered = 0"
| "functionValues (JOther i fs) entered = 0"
| "functionValues (JRef i) entered = 0"
| "functionValues_items [] entered = 0"
| "functionValues_items (x # xs) entered =
     functionValues x entered + functionValues_items xs (entersS x entered)"
| "functionValues_entries [] entered = 0"
| "functionValues_entries ((k, c) # fs) entered =
     functionValues c entered + functionValues_entries fs (entersS c entered)"

fun tooDeep :: "jsnumber \<Rightarrow> nat \<Rightarrow> jsval \<Rightarrow> nat list \<Rightarrow> bool"
  and tooDeep_items :: "jsnumber \<Rightarrow> nat \<Rightarrow> jsval list \<Rightarrow> nat list \<Rightarrow> bool"
  and tooDeep_entries :: "jsnumber \<Rightarrow> nat \<Rightarrow> (string \<times> jsval) list \<Rightarrow> nat list \<Rightarrow> bool"
where
  "tooDeep m d (JArr i xs) entered =
     (exceeds d m \<or> i \<notin> set entered \<and> tooDeep_items m (Suc d) xs (i # entered))"
| "tooDeep m d (JObj i p fs) entered =
     (exceeds d m \<or> i \<notin> set entered \<and> tooDeep_entries m (Suc d) fs (i # entered))"
| "tooDeep m d (JError i name msg) entered = exceeds d m"
| "tooDeep m d (JStream i) entered = exceeds d m"
| "tooDeep m d (JOther i fs) entered = exceeds d m"
| "tooDeep m d (JRef i) entered = exceeds d m"
| "tooDeep m d Undefined entered = False"
| "tooDeep m d Null entered = False"
| "tooDeep m d (JBool b) entered = False"
| "tooDeep m d (JNum n) entered = False"
| "tooDeep m d (JStr s) entered = False"
| "tooDeep m d (JFun f) entered = False"
| "tooDeep_items m d [] entered = False"
| "tooDeep_items m d (x # xs) entered =
     (tooDeep m d x entered \<or> tooDeep_items m d xs (entersS x entered))"
| "tooDeep_entries m d [] entered = False"
| "tooDeep_entries m d ((k, c) # fs) entered =
     (tooDeep m d c entered \<or> tooDeep_entries m d fs (entersS c entered))"

definition allowedTag :: "stubOptions \<Rightarrow> string \<Rightarrow> bool" where
  "allowedTag opts tag = (tagPrefix opts = [] \<or> startsWith tag (tagPrefix opts))"

fun entersD :: "jsval \<Rightarrow> nat list \<Rightarrow> nat list"
  and entersD_items :: "jsval list \<Rightarrow> nat list \<Rightarrow> nat list"
  and entersD_entries :: "(string \<times> jsval) list \<Rightarrow> nat list \<Rightarrow> nat list"
where
  "entersD (JArr i xs) entered = (if i \<in> set entered then entered else entersD_items xs (i # entered))"
| "entersD (JObj i p fs) entered =
     (if stubTag (JObj i p fs) \<noteq> None \<or> i \<in> set entered then entered
      else entersD_entries fs (i # entered))"
| "entersD Undefined entered = entered"
| "entersD Null entered = entered"
| "entersD (JBool b) entered = entered"
| "entersD (JNum n) entered = entered"
| "entersD (JStr s) entered = entered"
| "entersD (JFun f) entered = entered"
| "entersD (JError i name msg) entered = entered"
| "entersD (JStream i) entered = entered"
| "entersD (JOther i fs) entered = entered"
| "entersD (JRef i) entered = entered"
| "entersD_items [] entered = entered"
| "entersD_items (x # xs) entered = entersD_items xs (entersD x entered)"
| "entersD_entries [] entered = entered"
| "entersD_entries ((k, c) # fs) entered = entersD_entries fs (entersD c entered)"

fun stubCount :: "stubOptions \<Rightarrow> jsval \<Rightarrow> nat list \<Rightarrow> nat"
  and stubCount_items :: "stubOptions \<Rightarrow> jsval list \<Rightarrow> nat list \<Rightarrow> nat"
  and stubCount_entries :: "stubOptions \<Rightarrow> (string \<times> jsval) list \<Rightarrow> nat list \<Rightarrow> nat"
where
  "stubCount opts (JArr i xs) entered =
     (if i \<in> set entered then 0 else stubCount_items opts xs (i # entered))"
| "stubCount opts (JObj i p fs) entered =
     (case stubTag (JObj i p fs) of
        Some tag \<Rightarrow> (if allowedTag opts tag then 1 else 0)
      | None \<Rightarrow> (if i \<in> set entered then 0 else stubCount_entries opts fs (i # entered)))"
| "stubCount opts Undefined entered = 0"
| "stubCount opts Null entered = 0"
| "stubCount opts (JBool b) entered = 0"
| "stubCount opts (JNum n) entered = 0"
| "stubCount opts (JStr s) entered = 0"
| "stubCount opts (JFun f) entered = 0"
| "stubCount opts (JError i name msg) entered = 0"
| "stubCount opts (JStream i) entered = 0"
| "stubCount opts (JOther i fs) entered = 0"
| "stubCount opts (JRef i) entered = 0"
| "stubCount_items opts [] entered = 0"
| "stubCount_items opts (x # xs) entered =
     stubCount opts x entered + stubCount_items opts xs (entersD x entered)"
| "stubCount_entries opts [] entered = 0"
| "stubCount_entries opts ((k, c) # fs) entered =
     stubCount opts c entered + stubCount_entries opts fs (entersD c entered)"

fun tooDeepD :: "jsnumber \<Rightarrow> nat \<Rightarrow> jsval \<Rightarrow> nat list \<Rightarrow> bool"
  and tooDeepD_items :: "jsnumber \<Rightarrow> nat \<Rightarrow> jsval list \<Rightarrow> nat list \<Rightarrow> bool"
  and tooDeepD_entries :: "jsnumber \<Rightarrow> nat \<Rightarrow> (string \<times> jsval) list \<Rightarrow> nat list \<Rightarrow> bool"
where
  "tooDeepD m d (JArr i xs) entered =
     (exceeds d m \<or> i \<notin> set entered \<and> tooDeepD_items m (Suc d) xs (i # entered))"
| "tooDeepD m d (JObj i p fs) entered =
     (exceeds d m
      \<or> stubTag (JObj i p fs) = None \<and> i \<notin> set entered \<and> tooDeepD_entries m (Suc d) fs (i # entered))"
| "tooDeepD m d (JError i name msg) entered = exceeds d m"
| "tooDeepD m d (JStream i) entered = exceeds d m"
| "tooDeepD m d (JOther i fs) entered = exceeds d m"
| "tooDeepD m d (JRef i) entered = exceeds d m"
| "tooDeepD m d Undefined entered = False"
| "tooDeepD m d Null entered = False"
| "tooDeepD m d (JBool b) entered = False"
| "tooDeepD m d (JNum n) entered = False"
| "tooDeepD m d (JStr s) entered = False"
| "tooDeepD m d (JFun f) entered = False"
| "tooDeepD_items m d [] entered = False"
| "tooDeepD_items m d (x # xs) entered =
     (tooDeepD m d x entered \<or> tooDeepD_items m d xs (entersD x entered))"
| "tooDeepD_entries m d [] entered = False"
| "tooDeepD_entries m d ((k, c) # fs) entered =
     (tooDeepD m d c entered \<or> tooDeepD_entries m d fs (entersD c entered))"

fun malformed :: "jsval \<Rightarrow> nat list \<Rightarrow> bool"
  and malformed_items :: "jsval list \<Rightarrow> nat list \<Rightarrow> bool"
  and malformed_entries :: "(string \<times> jsval) list \<Rightarrow> nat list \<Rightarrow> bool"
where
  "malformed (JArr i xs) entered = (i \<notin> set entered \<and> malformed_items xs (i # entered))"
| "malformed (JObj i p fs) entered =
     (stubTag (JObj i p fs) = None
      \<and> (hasInvokeFunctionStubKey (JObj i p fs)
          \<or> i \<notin> set entered \<and> malformed_entries fs (i # entered)))"
| "malformed Undefined entered = False"
| "malformed Null entered = False"
| "malformed (JBool b) entered = False"
| "malformed (JNum n) entered = False"
| "malformed (JStr s) entered = False"
| "malformed (JFun f) entered = False"
| "malformed (JError i name msg) entered = False"
| "malformed (JStream i) entered = False"
| "malformed (JOther i fs) entered = False"
| "malformed (JRef i) entered = False"
| "malformed_items [] entered = False"
| "malformed_items (x # xs) entered = (malformed x entered \<or> malformed_items xs (entersD x entered))"
| "malformed_entries [] entered = False"
| "malformed_entries ((k, c) # fs) entered =
     (malformed c entered \<or> malformed_entries fs (entersD c entered))"

text \<open>
  \<open>overCap k cap\<close>: a walk that comes to \<open>k\<close> functions comes to the last of them when
  the count \<open>k - 1\<close> has reached the cap (\<open>functionCount >= maxFunctions\<close>). For a cap that
  is a whole number \<open>c\<close> this is \<open>0 < k\<close> and \<open>c < k\<close>.
\<close>

definition overCap :: "nat \<Rightarrow> jsnumber \<Rightarrow> bool" where
  "overCap k cap = (0 < k \<and> reaches (k - 1) cap)"

text \<open>The nesting depth of a value as it is written, the value being at depth \<open>d\<close>: the
  greatest depth of an object in it, along any path.\<close>

fun nesting :: "nat \<Rightarrow> jsval \<Rightarrow> nat" where
  "nesting d (JArr i xs) = foldr max (map (nesting (Suc d)) xs) d"
| "nesting d (JObj i p fs) = foldr max (map (\<lambda>(k, c). nesting (Suc d) c) fs) d"
| "nesting d (JError i name msg) = d"
| "nesting d (JStream i) = d"
| "nesting d (JOther i fs) = d"
| "nesting d (JRef i) = d"
| "nesting d v = 0"




definition seenIds :: "(nat \<times> nat) list \<Rightarrow> nat set" where
  "seenIds xs = fst ` set xs"

section \<open>Fixtures after the repository's tests\<close>

text \<open>invoke.spec.ts, "should handle request-response pattern": one context, one
  handler on one family. Function 0 answers with a value built from the request;
  every other function throws.\<close>

definition greet :: "nat \<Rightarrow> jsval \<Rightarrow> jsval \<Rightarrow> outcome" where
  "greet h v opts =
     (if h = 0 then Returns (JArr 1 [JStr ''hello'', v]) else Throws (JError 2 ''Error'' ''failed''))"

definition test_ctx :: world where
  "test_ctx = snd (defineInvokeHandler ''greet'' 0
                    (createContext greet (\<lambda>n. ''call'' @ replicate n CHR ''x'')))"

text \<open>invoke.spec.ts, "should remove invoke specific handler via
  undefineInvokeHandler": two handlers (functions 1 and 2) on one family.\<close>

definition two_handlers_ctx :: world where
  "two_handlers_ctx =
     snd (defineInvokeHandler ''t'' 2
       (snd (defineInvokeHandler ''t'' 1
         (createContext (\<lambda>h v opts. Returns Undefined) (\<lambda>n. ''call'' @ replicate n CHR ''x'')))))"

text \<open>invoke.spec.ts, "should reject pending invoke when abort event fires": a fatal
  event is registered, nothing handles the family.\<close>

definition fatal_ctx :: world where
  "fatal_ctx = registerInvokeAbortEventListeners ''fatal-event''
                 (createContext (\<lambda>h v opts. Returns Undefined) (\<lambda>n. ''call'' @ replicate n CHR ''x''))"

text \<open>stream.spec.ts, "should handle request-stream-response pattern": one stream
  handler (function 0) that yields three values and returns; every other function
  throws when called.\<close>

definition progress :: "nat \<Rightarrow> jsval \<Rightarrow> jsval \<Rightarrow> production" where
  "progress fn payload opts =
     (if fn = 0 then Generates [JNum 20, JNum 40, JStr ''done''] Finishes
      else FnThrows (JError 7 ''Error'' ''boom''))"

text \<open>The platform of the fixtures: \<open>DOMException\<close> is defined, no object is frozen, and
  \<open>String(v)\<close> is the string itself for a string, throws a \<open>TypeError\<close> for an object made
  by \<open>Object.create(null)\<close>, which has no \<open>toString\<close>, and is \<open>[object Object]\<close> for
  another plain object; the fixtures convert no other value.\<close>

fun toText :: "jsval \<Rightarrow> string completion" where
  "toText (JStr s) = Normal s"
| "toText (JObj i NullPrototype fs) =
     Thrown (JError 900 ''TypeError'' ''Cannot convert object to primitive value'')"
| "toText v = Normal ''[object Object]''"

definition stream_ctx :: sworld where
  "stream_ctx = defineStreamInvokeHandler ''progress'' 0
                  (createStreamContext progress (\<lambda>n. ''call'' @ replicate n CHR ''x'') True toText
                     (\<lambda>i. Normal ()))"

text \<open>The same handler registered by the revision of part_000, and a caller's
  \<open>AbortController\<close> (signal 0).\<close>

definition p0_ctx :: sworld where
  "p0_ctx = defineStreamInvokeHandler_p0 ''progress'' 0
              (snd (newAbortController
                (createStreamContext progress (\<lambda>n. ''call'' @ replicate n CHR ''x'') True toText
                   (\<lambda>i. Normal ()))))"

text \<open>A handler that throws when it is called (function 1), registered by the
  revision of part_000, and a caller's \<open>AbortController\<close> (signal 0).\<close>

definition p0_throwing_ctx :: sworld where
  "p0_throwing_ctx = defineStreamInvokeHandler_p0 ''progress'' 1
              (snd (newAbortController
                (createStreamContext progress (\<lambda>n. ''call'' @ replicate n CHR ''x'') True toText
                   (\<lambda>i. Normal ()))))"

text \<open>A context with one handler, for the tests of invoke-remote-methods.\<close>

definition remote_ctx :: world where
  "remote_ctx = snd (defineInvokeHandler ''greet'' 0
                       (createContext (\<lambda>f payload options. Returns (JStr ''ok''))
                          (\<lambda>n. ''call'' @ replicate n CHR ''x'')))"

text \<open>The payloads of the tests of invoke-remote-methods: two functions under a cap of
  one function; one function; a stub descriptor whose tag has not the prefix; a
  \<open>__eventaInvoke\<close> key without a descriptor.\<close>

definition two_functions :: jsval where
  "two_functions = JObj 1 ObjectPrototype [(''a'', JFun 1), (''b'', JFun 2)]"

definition one_function_cap :: stubArg where
  "one_function_cap =
     ArgOptions \<lparr>g_allow = None, g_maxDepth = None, g_maxFunctions = Some (Whole 1), g_tagPrefix = None,
                 g_onDisallowedTag = None, g_autoDisposeMs = None, g_strict = None\<rparr>"

definition helper_payload :: jsval where
  "helper_payload = JObj 1 ObjectPrototype [(''helper'', JFun 1)]"

definition disallowed_payload :: jsval where
  "disallowed_payload =
     JObj 1 ObjectPrototype
       [(''helper'', JObj 2 ObjectPrototype
                      [(''__eventaInvoke'', JObj 3 ObjectPrototype [(''tag'', JStr ''not-allowed'')])])]"

definition malformed_payload :: jsval where
  "malformed_payload =
     JObj 1 ObjectPrototype [(''helper'', JObj 2 ObjectPrototype [(''__eventaInvoke'', JStr ''not-an-object'')])]"

text \<open>Further payloads: an object that holds itself, directly and through an array that
  also holds itself; an instance of a class that holds a plain object; an object \<open>x\<close>
  that holds an object, \<open>x\<close> having two parents, one at depth 1 and one at depth 2; a
  chain of four objects. And further caps: a depth of 2, 1.5 functions, and -1 functions.\<close>

definition cyclic_payload :: jsval where
  "cyclic_payload = JObj 1 ObjectPrototype [(''self'', JRef 1), (''list'', JArr 2 [JRef 1, JRef 2])]"

definition instance_payload :: jsval where
  "instance_payload =
     JObj 1 ObjectPrototype [(''when'', JOther 2 [(''meta'', JObj 3 ObjectPrototype [])])]"

definition shared_deep :: jsval where
  "shared_deep =
     JObj 1 ObjectPrototype
       [(''a'', JObj 2 ObjectPrototype [(''y'', JObj 3 ObjectPrototype [])]),
        (''b'', JObj 4 ObjectPrototype
                  [(''c'', JObj 2 ObjectPrototype [(''y'', JObj 3 ObjectPrototype [])])])]"

definition deep_chain :: jsval where
  "deep_chain =
     JObj 1 ObjectPrototype
       [(''a'', JObj 2 ObjectPrototype [(''b'', JObj 3 ObjectPrototype [(''c'', JObj 4 ObjectPrototype [])])])]"

definition depth_two_cap :: stubArg where
  "depth_two_cap =
     ArgOptions \<lparr>g_allow = None, g_maxDepth = Some (Whole 2), g_maxFunctions = None, g_tagPrefix = None,
                 g_onDisallowedTag = None, g_autoDisposeMs = None, g_strict = None\<rparr>"

definition fraction_cap :: stubArg where
  "fraction_cap =
     ArgOptions \<lparr>g_allow = None, g_maxDepth = None, g_maxFunctions = Some (Between 1 ''1.5''),
                 g_tagPrefix = None, g_onDisallowedTag = None, g_autoDisposeMs = None, g_strict = None\<rparr>"

definition negative_cap :: stubArg where
  "negative_cap =
     ArgOptions \<lparr>g_allow = None, g_maxDepth = None, g_maxFunctions = Some (Whole (- 1)),
                 g_tagPrefix = None, g_onDisallowedTag = None, g_autoDisposeMs = None, g_strict = None\<rparr>"

definition strict_defaults :: stubArg where
  "strict_defaults =
     ArgOptions \<lparr>g_allow = Some True, g_maxDepth = None, g_maxFunctions = None, g_tagPrefix = None,
                 g_onDisallowedTag = None, g_autoDisposeMs = None, g_strict = Some True\<rparr>"

definition strict_options :: stubOptions where
  "strict_options = resolveFunctionStubOptions strict_defaults ArgUndefined"

section \<open>Event ids of one family are pairwise distinct\<close>

lemma receive_ne_receiveError [simp]:
  "invokeReceiveEvent tag iid \<noteq> invokeReceiveEventError tag iid"
  "invokeReceiveEventError tag iid \<noteq> invokeReceiveEvent tag iid"
  by (auto simp: invokeReceiveEvent_def invokeReceiveEventError_def receiveEvent_def
        receiveEventError_def dest: arg_cong [where f = length])

lemma send_ne_receive [simp]:
  "sendEvent tag \<noteq> invokeReceiveEvent tag iid"
  "sendEvent tag \<noteq> invokeReceiveEventError tag iid"
  "invokeReceiveEvent tag iid \<noteq> sendEvent tag"
  "invokeReceiveEventError tag iid \<noteq> sendEvent tag"
  by (auto simp: sendEvent_def invokeReceiveEvent_def invokeReceiveEventError_def receiveEvent_def
        receiveEventError_def)

lemma streamEnd_ne [simp]:
  "invokeReceiveEventStreamEnd tag iid \<noteq> invokeReceiveEvent tag iid"
  "invokeReceiveEvent tag iid \<noteq> invokeReceiveEventStreamEnd tag iid"
  "invokeReceiveEventStreamEnd tag iid \<noteq> invokeReceiveEventError tag iid"
  "invokeReceiveEventError tag iid \<noteq> invokeReceiveEventStreamEnd tag iid"
  "invokeReceiveEventStreamEnd tag iid \<noteq> sendEvent tag"
  "sendEvent tag \<noteq> invokeReceiveEventStreamEnd tag iid"
  by (auto simp: invokeReceiveEvent_def invokeReceiveEventError_def invokeReceiveEventStreamEnd_def
        receiveEvent_def receiveEventError_def receiveEventStreamEnd_def sendEvent_def
        dest: arg_cong [where f = length])

lemma abort_ne [simp]:
  "sendEventAbort tag \<noteq> invokeReceiveEvent tag iid"
  "sendEventAbort tag \<noteq> invokeReceiveEventError tag iid"
  "sendEventAbort tag \<noteq> invokeReceiveEventStreamEnd tag iid"
  "invokeReceiveEvent tag iid \<noteq> sendEventAbort tag"
  "invokeReceiveEventError tag iid \<noteq> sendEventAbort tag"
  "invokeReceiveEventStreamEnd tag iid \<noteq> sendEventAbort tag"
  by (auto simp: invokeReceiveEvent_def invokeReceiveEventError_def invokeReceiveEventStreamEnd_def
        receiveEvent_def receiveEventError_def receiveEventStreamEnd_def sendEventAbort_def)

lemma sendError_ne [simp]:
  "sendEventError tag \<noteq> invokeReceiveEvent tag iid"
  "sendEventError tag \<noteq> invokeReceiveEventError tag iid"
  "sendEventError tag \<noteq> invokeReceiveEventStreamEnd tag iid"
  "invokeReceiveEvent tag iid \<noteq> sendEventError tag"
  "invokeReceiveEventError tag iid \<noteq> sendEventError tag"
  "invokeReceiveEventStreamEnd tag iid \<noteq> sendEventError tag"
  by (auto simp add: sendEventError_def invokeReceiveEvent_def invokeReceiveEventError_def
        invokeReceiveEventStreamEnd_def receiveEvent_def receiveEventError_def receiveEventStreamEnd_def)

lemma sendStreamEnd_ne [simp]:
  "sendEventStreamEnd tag \<noteq> invokeReceiveEvent tag iid"
  "sendEventStreamEnd tag \<noteq> invokeReceiveEventError tag iid"
  "invokeReceiveEvent tag iid \<noteq> sendEventStreamEnd tag"
  "invokeReceiveEventError tag iid \<noteq> sendEventStreamEnd tag"
  by (auto simp add: sendEventStreamEnd_def invokeReceiveEvent_def invokeReceiveEventError_def
        receiveEvent_def receiveEventError_def)

section \<open>The unary invoke: theorems\<close>

lemmas unary_defs = ctx_on_def ctx_off_def reg_on_def reg_off_def invoke_def nanoid_def
  runListener_def onSend_def onSendStreamEnd_def handleInvoke_def onReceive_def
  onReceiveError_def settle_def Let_def









lemmas fixture_defs = two_handlers_ctx_def fatal_ctx_def createContext_def defineInvokeHandler_def
  undefineInvokeHandler_def registerInvokeAbortEventListeners_def
  getContextExtensionInvokeInternalConfig_def
  sendEvent_def sendEventStreamEnd_def invokeReceiveEvent_def invokeReceiveEventError_def
  receiveEvent_def receiveEventError_def




text \<open>
  C10. A \<open>send\<close> or \<open>send-stream-end\<close> envelope without a body, with a body that has
  no \<open>invokeId\<close>, or with an empty \<open>invokeId\<close>, leaves the whole context as it was when
  it reaches the listeners of a registered handler: no handler call, no emit, the
  \<open>streamStates\<close> table unchanged.
\<close>

theorem send_without_invokeId_is_ignored:
  "runListener em (OnSend c) None opts w = w
   \<and> runListener em (OnSend c) (Some (EventBody x)) opts w = w
   \<and> runListener em (OnSend c) (Some (InvokeBody [] ct s)) opts w = w
   \<and> runListener em (OnSendStreamEnd c) None opts w = w
   \<and> runListener em (OnSendStreamEnd c) (Some (EventBody x)) opts w = w
   \<and> runListener em (OnSendStreamEnd c) (Some (InvokeBody [] ct s)) opts w = w"
  by (simp add: runListener_def onSend_def onSendStreamEnd_def split: option.split)

text \<open>
  C9, at the failing input. Two handlers (functions 1 and 2) are registered on family
  \<open>t\<close>. \<open>undefineInvokeHandler(ctx, t, 1)\<close> returns true and leaves only the listener
  of function 2; but it deletes the whole entry of the family from
  \<open>ctx.invokeHandlers\<close>, so \<open>undefineInvokeHandler(ctx, t)\<close> then returns false and
  removes nothing: the next invoke still calls function 2.
\<close>

theorem undefine_all_after_one_leaves_handler:
  "fst (undefineInvokeHandler ''t'' (Some 1) two_handlers_ctx) = True
   \<and> listeners (snd (undefineInvokeHandler ''t'' (Some 1) two_handlers_ctx)) (sendEvent ''t'') = [OnSend 1]
   \<and> internalHandlers two_handlers_ctx 1 = Some \<lparr>ih_tag = ''t'', ih_handler = 2\<rparr>
   \<and> fst (undefineInvokeHandler ''t'' None (snd (undefineInvokeHandler ''t'' (Some 1) two_handlers_ctx))) = False
   \<and> listeners (snd (undefineInvokeHandler ''t'' None
        (snd (undefineInvokeHandler ''t'' (Some 1) two_handlers_ctx)))) (sendEvent ''t'') = [OnSend 1]
   \<and> calls (snd (invoke (Suc (Suc 0)) ''t'' (ReqValue (JNum 5)) Undefined
        (snd (undefineInvokeHandler ''t'' None
          (snd (undefineInvokeHandler ''t'' (Some 1) two_handlers_ctx))))))
      = [(2, JNum 5, Undefined)]"
  by (simp add: fixture_defs unary_defs)

text \<open>
  C5, at the failing input. The fatal event is registered and a call is pending.
  \<open>_invoke\<close> never reads the registered list, so emitting the fatal event with an
  error reaches no listener: the promise stays unsettled, its two listeners and its
  table entries stay.
\<close>

theorem fatal_event_leaves_invoke_pending:
  "getContextExtensionInvokeInternalConfig fatal_ctx = Some [''fatal-event'']
   \<and> (let (p, w1) = invoke (Suc (Suc 0)) ''t'' (ReqValue Undefined) Undefined fatal_ctx;
           w2 = runJobs (Suc (Suc 0)) (Suc (Suc 0))
                  (ctx_emit (Suc (Suc 0)) ''fatal-event''
                     (Some (EventBody (JObj 1 ObjectPrototype [(''error'', JError 2 ''Error'' ''worker failed'')])))
                     Undefined w1)
       in promises w2 p = Unsettled \<and> settleLog w2 = []
        \<and> listeners w2 (invokeReceiveEvent ''t'' ''call'') = [OnReceive ''t'' ''call'']
        \<and> listeners w2 (invokeReceiveEventError ''t'' ''call'') = [OnReceiveError ''t'' ''call'']
        \<and> mInvokeIdPromiseRejectors w2 ''call'' = Some p
        \<and> listeners w2 ''fatal-event'' = [])"
  by (simp add: fixture_defs unary_defs)

section \<open>Streaming invoke: theorems\<close>

lemmas stream_defs = sw_on_def sw_off_def reg_on_def reg_off_def sw_nanoid_def sw_newStream_def
  runSListener_def streamOnReceive_def streamOnReceiveError_def streamOnReceiveStreamEnd_def
  streamOnSend_def streamOnSendStreamEnd_def handleInvoke_stream_def sw_newReqStream_def
  sw_enqueue_def sw_close_def sw_error_def rs_enqueue_def rs_close_def rs_error_def Let_def

lemmas p0_defs = cleanup_def signalReason_def signalAborted_def onAbort_def p0OnReceive_def
  p0OnReceiveError_def p0OnReceiveStreamEnd_def p0_cancel_def clearAbortState_def
  scheduleAbort_def newAbortController_def handleInvoke_p0_def p0OnSend_def abortInput_def
  p0OnSendAbort_def signal_abort_def

lemmas abortError_defs = createAbortError_def renameOrWrap_def newAbortError_def abortMessage_def

lemma createAbortError_isAbortError:
  "createAbortError reason w = (Normal err, w') \<Longrightarrow> isAbortError err"
  by (cases reason)
     (auto simp add: abortError_defs split: if_splits completion.splits)

lemma createAbortError_frame:
  "sw_listeners (snd (createAbortError reason w)) = sw_listeners w"
  "streamHandlers (snd (createAbortError reason w)) = streamHandlers w"
  "nextHandler (snd (createAbortError reason w)) = nextHandler w"
  "sw_streamStates (snd (createAbortError reason w)) = sw_streamStates w"
  "abortControllers (snd (createAbortError reason w)) = abortControllers w"
  "abortReasons (snd (createAbortError reason w)) = abortReasons w"
  "signals (snd (createAbortError reason w)) = signals w"
  "nextSignal (snd (createAbortError reason w)) = nextSignal w"
  "signalListeners (snd (createAbortError reason w)) = signalListeners w"
  "producers (snd (createAbortError reason w)) = producers w"
  "sw_streams (snd (createAbortError reason w)) = sw_streams w"
  "sw_nextStream (snd (createAbortError reason w)) = sw_nextStream w"
  "sw_calls (snd (createAbortError reason w)) = sw_calls w"
  "sw_jobs (snd (createAbortError reason w)) = sw_jobs w"
  "sw_emitted (snd (createAbortError reason w)) = sw_emitted w"
  "sw_nanoidSeq (snd (createAbortError reason w)) = sw_nanoidSeq w"
  "sw_nanoidNext (snd (createAbortError reason w)) = sw_nanoidNext w"
  "sw_stackOverflow (snd (createAbortError reason w)) = sw_stackOverflow w"
  "hasDOMException (snd (createAbortError reason w)) = hasDOMException w"
  "js_String (snd (createAbortError reason w)) = js_String w"
  "js_setName (snd (createAbortError reason w)) = js_setName w"
  by (cases reason; simp add: abortError_defs split: completion.splits)+

lemma makesAbortError_platform:
  assumes "hasDOMException w' = hasDOMException w" "js_String w' = js_String w"
    "js_setName w' = js_setName w"
  shows "makesAbortError reason w' = makesAbortError reason w"
  using assms
  by (cases reason; simp add: makesAbortError_def abortError_defs split: completion.splits)

lemma makesAbortError_Normal:
  "makesAbortError reason w \<Longrightarrow> \<exists>err. fst (createAbortError reason w) = Normal err \<and> isAbortError err"
  by (cases "createAbortError reason w"; cases "fst (createAbortError reason w)")
     (auto simp add: makesAbortError_def dest: createAbortError_isAbortError)

lemma makesAbortError_Thrown:
  "\<not> makesAbortError reason w \<Longrightarrow> \<exists>e. fst (createAbortError reason w) = Thrown e"
  by (cases "fst (createAbortError reason w)") (auto simp add: makesAbortError_def)

lemma p0OnSendAbort_frame:
  assumes "abortControllers w h iid \<noteq> None \<or> sw_streamStates w h iid \<noteq> None
           \<or> (\<forall>tg fn s e. streamHandlers w h = Some (tg, fn)
                  \<longrightarrow> producers w fn (JStream s) Undefined \<noteq> FnThrows e)"
    and "sid < sw_nextStream w" "\<forall>h' i. sw_streamStates w h' i \<noteq> Some sid" "sg < nextSignal w"
    and "b = Some (InvokeBody iid (Plain reason) False)"
  shows "sw_listeners (p0OnSendAbort em h b w) = sw_listeners w"
    and "sw_emitted (p0OnSendAbort em h b w) = sw_emitted w"
    and "sw_streams (p0OnSendAbort em h b w) sid = sw_streams w sid"
    and "signalListeners (p0OnSendAbort em h b w) = signalListeners w"
    and "signals (p0OnSendAbort em h b w) sg = signals w sg"
    and "streamHandlers (p0OnSendAbort em h b w) = streamHandlers w"
    and "producers (p0OnSendAbort em h b w) = producers w"
    and "sid < sw_nextStream (p0OnSendAbort em h b w)"
    and "\<forall>h' i. sw_streamStates (p0OnSendAbort em h b w) h' i \<noteq> Some sid"
    and "sg < nextSignal (p0OnSendAbort em h b w)"
    and "sw_stackOverflow (p0OnSendAbort em h b w) = sw_stackOverflow w"
    and "hasDOMException (p0OnSendAbort em h b w) = hasDOMException w"
    and "js_String (p0OnSendAbort em h b w) = js_String w"
    and "js_setName (p0OnSendAbort em h b w) = js_setName w"
    and "\<forall>h'. h' \<noteq> h \<longrightarrow> abortControllers (p0OnSendAbort em h b w) h' = abortControllers w h'
            \<and> sw_streamStates (p0OnSendAbort em h b w) h' = sw_streamStates w h'"
proof -
  note defs = p0OnSendAbort_def abortInput_def handleInvoke_p0_def scheduleAbort_def
    clearAbortState_def newAbortController_def sw_newReqStream_def sw_newStream_def sw_error_def
    Let_def case_prod_beta createAbortError_frame
  show "sw_listeners (p0OnSendAbort em h b w) = sw_listeners w"
    and "sw_emitted (p0OnSendAbort em h b w) = sw_emitted w"
    and "sw_streams (p0OnSendAbort em h b w) sid = sw_streams w sid"
    and "signalListeners (p0OnSendAbort em h b w) = signalListeners w"
    and "signals (p0OnSendAbort em h b w) sg = signals w sg"
    and "streamHandlers (p0OnSendAbort em h b w) = streamHandlers w"
    and "producers (p0OnSendAbort em h b w) = producers w"
    and "sid < sw_nextStream (p0OnSendAbort em h b w)"
    and "\<forall>h' i. sw_streamStates (p0OnSendAbort em h b w) h' i \<noteq> Some sid"
    and "sg < nextSignal (p0OnSendAbort em h b w)"
    and "sw_stackOverflow (p0OnSendAbort em h b w) = sw_stackOverflow w"
    and "hasDOMException (p0OnSendAbort em h b w) = hasDOMException w"
    and "js_String (p0OnSendAbort em h b w) = js_String w"
    and "js_setName (p0OnSendAbort em h b w) = js_setName w"
    and "\<forall>h'. h' \<noteq> h \<longrightarrow> abortControllers (p0OnSendAbort em h b w) h' = abortControllers w h'
            \<and> sw_streamStates (p0OnSendAbort em h b w) h' = sw_streamStates w h'"
    using assms
    by (auto simp add: defs split: option.splits production.splits completion.splits)
qed

lemma abort_listeners_frame:
  assumes "\<forall>h \<in> set hs. abortControllers w h iid \<noteq> None \<or> sw_streamStates w h iid \<noteq> None
              \<or> (\<forall>tg fn s e. streamHandlers w h = Some (tg, fn)
                     \<longrightarrow> producers w fn (JStream s) Undefined \<noteq> FnThrows e)"
    and "distinct hs"
    and "sid < sw_nextStream w" "\<forall>h' i. sw_streamStates w h' i \<noteq> Some sid" "sg < nextSignal w"
    and "b = Some (InvokeBody iid (Plain reason) False)"
  shows "sw_listeners (foldl (\<lambda>w' l. runSListener em l b opts w') w (map P0SendAbort hs)) = sw_listeners w
       \<and> sw_emitted (foldl (\<lambda>w' l. runSListener em l b opts w') w (map P0SendAbort hs)) = sw_emitted w
       \<and> sw_streams (foldl (\<lambda>w' l. runSListener em l b opts w') w (map P0SendAbort hs)) sid = sw_streams w sid
       \<and> signalListeners (foldl (\<lambda>w' l. runSListener em l b opts w') w (map P0SendAbort hs)) = signalListeners w
       \<and> signals (foldl (\<lambda>w' l. runSListener em l b opts w') w (map P0SendAbort hs)) sg = signals w sg
       \<and> sw_stackOverflow (foldl (\<lambda>w' l. runSListener em l b opts w') w (map P0SendAbort hs)) = sw_stackOverflow w
       \<and> hasDOMException (foldl (\<lambda>w' l. runSListener em l b opts w') w (map P0SendAbort hs)) = hasDOMException w
       \<and> js_String (foldl (\<lambda>w' l. runSListener em l b opts w') w (map P0SendAbort hs)) = js_String w
       \<and> js_setName (foldl (\<lambda>w' l. runSListener em l b opts w') w (map P0SendAbort hs)) = js_setName w"
  using assms(1-5)
proof (induction hs arbitrary: w)
  case Nil
  then show ?case by simp
next
  case (Cons h hs)
  from Cons.prems(1) have h: "abortControllers w h iid \<noteq> None \<or> sw_streamStates w h iid \<noteq> None
      \<or> (\<forall>tg fn s e. streamHandlers w h = Some (tg, fn)
             \<longrightarrow> producers w fn (JStream s) Undefined \<noteq> FnThrows e)"
    by simp
  note fr = p0OnSendAbort_frame [OF h Cons.prems(3) Cons.prems(4) Cons.prems(5) assms(6), of em]
  from Cons.prems(2) have nin: "\<forall>h' \<in> set hs. h' \<noteq> h" and d: "distinct hs" by auto
  have rest: "\<forall>h' \<in> set hs. abortControllers (p0OnSendAbort em h b w) h' iid \<noteq> None
                \<or> sw_streamStates (p0OnSendAbort em h b w) h' iid \<noteq> None
                \<or> (\<forall>tg fn s e. streamHandlers (p0OnSendAbort em h b w) h' = Some (tg, fn)
                     \<longrightarrow> producers (p0OnSendAbort em h b w) fn (JStream s) Undefined \<noteq> FnThrows e)"
    using Cons.prems(1) nin fr(15) by (simp add: fr(6) fr(7))
  have "foldl (\<lambda>w' l. runSListener em l b opts w') w (map P0SendAbort (h # hs))
      = foldl (\<lambda>w' l. runSListener em l b opts w') (p0OnSendAbort em h b w) (map P0SendAbort hs)"
    by (simp add: runSListener_def)
  with Cons.IH [OF rest d fr(8) fr(9) fr(10)] show ?case
    by (simp add: fr)
qed

text \<open>
  C3, with the conditions that make it true. A call of part_000 made with a signal is
  pending: its three listeners and the signal's \<open>abort\<close> listener are registered, the
  response stream is readable. \<open>createAbortError\<close> returns an error for the reason of the
  abort. Every stream handler registered on the family in the same context either has
  been started for this call already, or has an input stream for it, or returns its
  generator without throwing when it is called with a stream. When the signal trips,
  \<open>send-abort\<close> is emitted once with the signal's reason, the response stream is errored
  with an AbortError and its queue dropped, the three listeners and the \<open>abort\<close> listener
  are removed, and a later \<open>receive\<close>, \<open>receive-error\<close> or \<open>receive-stream-end\<close> of the call
  reaches no listener: the context only logs the emit.
\<close>

theorem abort_signal_ends_stream_call:
  assumes call: "c = \<lparr>c_tag = tag, c_invokeId = iid, c_stream = sid, c_signal = Some sg, c_options = opts\<rparr>"
    and pending: "sw_listeners w (invokeReceiveEvent tag iid) = [P0Receive c]"
      "sw_listeners w (invokeReceiveEventError tag iid) = [P0ReceiveError c]"
      "sw_listeners w (invokeReceiveEventStreamEnd tag iid) = [P0ReceiveStreamEnd c]"
      "signalListeners w sg = [c]" "signals w sg = NotAborted"
      "sw_streams w sid = Some \<lparr>chunks = cs, status = Readable\<rparr>"
    and servers: "sw_listeners w (sendEventAbort tag) = map P0SendAbort hs" "distinct hs"
      "\<forall>h \<in> set hs. abortControllers w h iid \<noteq> None \<or> sw_streamStates w h iid \<noteq> None
          \<or> (\<forall>tg fn s e. streamHandlers w h = Some (tg, fn)
                 \<longrightarrow> producers w fn (JStream s) Undefined \<noteq> FnThrows e)"
    and reason: "makesAbortError reason w"
    and allocated: "sid < sw_nextStream w" "\<forall>h i. sw_streamStates w h i \<noteq> Some sid"
      "sg < nextSignal w"
    and trip: "w' = signal_abort (Suc n) sg reason w"
  shows "sw_emitted w' = sw_emitted w @ [(sendEventAbort tag, Some (InvokeBody iid (Plain reason) False))]
       \<and> (\<exists>err. sw_streams w' sid = Some \<lparr>chunks = [], status = Errored err\<rparr> \<and> isAbortError err)
       \<and> sw_listeners w' (invokeReceiveEvent tag iid) = []
       \<and> sw_listeners w' (invokeReceiveEventError tag iid) = []
       \<and> sw_listeners w' (invokeReceiveEventStreamEnd tag iid) = []
       \<and> signalListeners w' sg = []
       \<and> sw_stackOverflow w' = sw_stackOverflow w
       \<and> (\<forall>m b options.
            sw_emit (Suc m) (invokeReceiveEvent tag iid) b options w'
              = w'\<lparr>sw_emitted := sw_emitted w' @ [(invokeReceiveEvent tag iid, b)]\<rparr>
          \<and> sw_emit (Suc m) (invokeReceiveEventError tag iid) b options w'
              = w'\<lparr>sw_emitted := sw_emitted w' @ [(invokeReceiveEventError tag iid, b)]\<rparr>
          \<and> sw_emit (Suc m) (invokeReceiveEventStreamEnd tag iid) b options w'
              = w'\<lparr>sw_emitted := sw_emitted w' @ [(invokeReceiveEventStreamEnd tag iid, b)]\<rparr>)"
proof -
  define body where "body = Some (InvokeBody iid (Plain reason) False)"
  define w0 where "w0 = w\<lparr>signals := (signals w)(sg := Aborted reason),
                           signalListeners := (signalListeners w)(sg := []),
                           sw_emitted := sw_emitted w @ [(sendEventAbort tag, body)]\<rparr>"
  define w1 where "w1 = foldl (\<lambda>w' l. runSListener (sw_emit n) l body opts w') w0 (map P0SendAbort hs)"
  define w2 where "w2 = snd (createAbortError reason w1)"
  have w0: "\<forall>h \<in> set hs. abortControllers w0 h iid \<noteq> None \<or> sw_streamStates w0 h iid \<noteq> None
              \<or> (\<forall>tg fn s e. streamHandlers w0 h = Some (tg, fn)
                     \<longrightarrow> producers w0 fn (JStream s) Undefined \<noteq> FnThrows e)"
    "sid < sw_nextStream w0" "\<forall>h' i. sw_streamStates w0 h' i \<noteq> Some sid" "sg < nextSignal w0"
    using servers(3) allocated by (simp_all add: w0_def)
  note fr = abort_listeners_frame [OF w0(1) servers(2) w0(2) w0(3) w0(4) body_def,
      of "sw_emit n" opts, folded w1_def]
  have w1: "sw_listeners w1 = sw_listeners w"
    "sw_emitted w1 = sw_emitted w @ [(sendEventAbort tag, body)]"
    "sw_streams w1 sid = sw_streams w sid"
    "signalListeners w1 = (signalListeners w)(sg := [])"
    "signals w1 sg = Aborted reason"
    "sw_stackOverflow w1 = sw_stackOverflow w"
    "hasDOMException w1 = hasDOMException w" "js_String w1 = js_String w" "js_setName w1 = js_setName w"
    using fr by (simp_all add: w0_def)
  have "makesAbortError reason w1"
    using reason makesAbortError_platform [OF w1(7) w1(8) w1(9)] by simp
  from makesAbortError_Normal [OF this] obtain err where
    err: "fst (createAbortError reason w1) = Normal err" "isAbortError err" by blast
  have made: "createAbortError reason w1 = (Normal err, w2)"
    using err(1) by (simp add: w2_def prod_eq_iff)
  have emit: "sw_emit (Suc n) (sendEventAbort tag) body opts
                (w\<lparr>signals := (signals w)(sg := Aborted reason),
                   signalListeners := (signalListeners w)(sg := [])\<rparr>) = w1"
    unfolding w1_def w0_def using servers(1) by simp
  have w': "w' = cleanup c (sw_error sid err w2)"
    unfolding trip
    using call pending(5) pending(4) emit w1(5) made
    by (simp add: signal_abort_def onAbort_def signalReason_def Let_def body_def
          del: sw_emit.simps)
  have w2: "sw_listeners w2 = sw_listeners w" "sw_streams w2 sid = sw_streams w sid"
    "sw_emitted w2 = sw_emitted w @ [(sendEventAbort tag, body)]"
    "signalListeners w2 = (signalListeners w)(sg := [])"
    "sw_stackOverflow w2 = sw_stackOverflow w"
    unfolding w2_def by (simp_all add: createAbortError_frame w1)
  have fields: "sw_emitted w' = sw_emitted w @ [(sendEventAbort tag, body)]"
    "sw_streams w' sid = Some \<lparr>chunks = [], status = Errored err\<rparr>"
    "sw_listeners w' (invokeReceiveEvent tag iid) = []"
    "sw_listeners w' (invokeReceiveEventError tag iid) = []"
    "sw_listeners w' (invokeReceiveEventStreamEnd tag iid) = []"
    "signalListeners w' sg = []"
    "sw_stackOverflow w' = sw_stackOverflow w"
    using call pending w2 by (simp_all add: w' cleanup_def stream_defs)
  show ?thesis using fields err(2) by (auto simp: body_def)
qed

lemmas stream_fixture_defs = stream_ctx_def p0_ctx_def p0_throwing_ctx_def progress_def
  createStreamContext_def defineStreamInvokeHandler_def defineStreamInvokeHandler_p0_def
  defineStreamInvoke_def defineStreamInvoke_p0_def newAbortController_def
  sendEvent_def sendEventStreamEnd_def sendEventAbort_def sendEventError_def
  invokeReceiveEvent_def invokeReceiveEventError_def invokeReceiveEventStreamEnd_def
  receiveEvent_def receiveEventError_def receiveEventStreamEnd_def

lemmas id_defs = sendEvent_def sendEventStreamEnd_def sendEventAbort_def sendEventError_def
  invokeReceiveEvent_def invokeReceiveEventError_def invokeReceiveEventStreamEnd_def
  receiveEvent_def receiveEventError_def receiveEventStreamEnd_def

lemma p0_call_eval:
  "defineStreamInvoke_p0 (Suc (Suc 0)) ''progress'' (ReqValue (JStr ''alice'')) (Some 0) Undefined p0_ctx =
    (Normal 0, \<lparr>sw_listeners =
           (\<lambda>_. [])
           (''progress-send'' := [P0Send 0],
              ''progress-send-stream-end'' := [P0SendStreamEnd 0],
              ''progress-send-abort'' := [P0SendAbort 0],
              ''progress-receive-call'' :=
                [P0Receive \<lparr>c_tag = ''progress'', c_invokeId = ''call'', c_stream = 0,
                     c_signal = Some 0, c_options = Undefined\<rparr>],
              ''progress-receive-error-call'' :=
                [P0ReceiveError \<lparr>c_tag = ''progress'', c_invokeId = ''call'', c_stream = 0,
                     c_signal = Some 0, c_options = Undefined\<rparr>],
              ''progress-receive-stream-end-call'' :=
                [P0ReceiveStreamEnd \<lparr>c_tag = ''progress'', c_invokeId = ''call'', c_stream = 0,
                     c_signal = Some 0, c_options = Undefined\<rparr>]),
           streamHandlers = [0 \<mapsto> (''progress'', 0)], nextHandler = Suc 0,
           sw_streamStates = (\<lambda>_ _. None)(0 := \<lambda>_. None),
           abortControllers = (\<lambda>_ _. None)(0 := [''call'' \<mapsto> Suc 0]),
           abortReasons = (\<lambda>_ _. None)(0 := \<lambda>_. None),
           signals = (\<lambda>_. NotAborted)(0 := NotAborted, Suc 0 := NotAborted),
           nextSignal = Suc (Suc 0),
           signalListeners =
             (\<lambda>_. [])
             (0 := [\<lparr>c_tag = ''progress'', c_invokeId = ''call'', c_stream = 0,
                       c_signal = Some 0, c_options = Undefined\<rparr>]),
           producers = progress,
           sw_streams = [0 \<mapsto> \<lparr>chunks = [], status = Readable\<rparr>],
           sw_nextStream = Suc 0,
           sw_calls = [(0, JStr ''alice'', Undefined, Some (Suc 0))],
           sw_jobs = [P0Gen 0 ''progress'' ''call'' [JNum 20, JNum 40, JStr ''done''] Finishes Undefined],
           sw_emitted = [(''progress-send'', Some (InvokeBody ''call'' (Plain (JStr ''alice'')) False))],
           sw_nanoidSeq = (\<lambda>n. ''call'' @ replicate n CHR ''x''),
           sw_nanoidNext = Suc 0, hasDOMException = True,
           js_String = toText, js_setName = (\<lambda>i. Normal ()), nextObject = 0,
           sw_stackOverflow = False\<rparr>)"
  by (simp add: stream_fixture_defs stream_defs p0_defs)

text \<open>The call of the test "supports cancellation": the handler of \<open>progress\<close> has
  started, then the caller aborts with the reason \<open>stop\<close>.\<close>

theorem abort_signal_ends_stream_call_witness:
  "sw_listeners
     (snd (defineStreamInvoke_p0 (Suc (Suc 0)) ''progress'' (ReqValue (JStr ''alice'')) (Some 0) Undefined p0_ctx))
     (sendEventAbort ''progress'') = map P0SendAbort [0]
   \<and> signals
     (snd (defineStreamInvoke_p0 (Suc (Suc 0)) ''progress'' (ReqValue (JStr ''alice'')) (Some 0) Undefined p0_ctx))
     0 = NotAborted
   \<and> makesAbortError (JStr ''stop'')
     (snd (defineStreamInvoke_p0 (Suc (Suc 0)) ''progress'' (ReqValue (JStr ''alice'')) (Some 0) Undefined p0_ctx))
   \<and> sw_emitted (signal_abort (Suc 0) 0 (JStr ''stop'')
        (snd (defineStreamInvoke_p0 (Suc (Suc 0)) ''progress'' (ReqValue (JStr ''alice'')) (Some 0) Undefined p0_ctx)))
      = [(sendEvent ''progress'', Some (InvokeBody ''call'' (Plain (JStr ''alice'')) False)),
         (sendEventAbort ''progress'', Some (InvokeBody ''call'' (Plain (JStr ''stop'')) False))]
   \<and> sw_listeners (signal_abort (Suc 0) 0 (JStr ''stop'')
        (snd (defineStreamInvoke_p0 (Suc (Suc 0)) ''progress'' (ReqValue (JStr ''alice'')) (Some 0) Undefined p0_ctx)))
        (invokeReceiveEvent ''progress'' ''call'') = []"
proof -
  define w where "w = snd (defineStreamInvoke_p0 (Suc (Suc 0)) ''progress'' (ReqValue (JStr ''alice'')) (Some 0) Undefined p0_ctx)"
  define c where "c = \<lparr>c_tag = ''progress'', c_invokeId = ''call'', c_stream = 0, c_signal = Some 0, c_options = Undefined\<rparr>"
  have h: "sw_listeners w (invokeReceiveEvent ''progress'' ''call'') = [P0Receive c]"
    "sw_listeners w (invokeReceiveEventError ''progress'' ''call'') = [P0ReceiveError c]"
    "sw_listeners w (invokeReceiveEventStreamEnd ''progress'' ''call'') = [P0ReceiveStreamEnd c]"
    "signalListeners w 0 = [c]" "signals w 0 = NotAborted"
    "sw_streams w 0 = Some \<lparr>chunks = [], status = Readable\<rparr>"
    "sw_listeners w (sendEventAbort ''progress'') = map P0SendAbort [0]"
    "distinct [0::nat]"
    "\<forall>h \<in> set [0]. abortControllers w h ''call'' \<noteq> None \<or> sw_streamStates w h ''call'' \<noteq> None
          \<or> (\<forall>tg fn s e. streamHandlers w h = Some (tg, fn)
                 \<longrightarrow> producers w fn (JStream s) Undefined \<noteq> FnThrows e)"
    "makesAbortError (JStr ''stop'') w"
    "0 < sw_nextStream w" "\<forall>h i. sw_streamStates w h i \<noteq> Some 0"
    "0 < nextSignal w"
    "sw_emitted w = [(sendEvent ''progress'', Some (InvokeBody ''call'' (Plain (JStr ''alice'')) False))]"
    unfolding w_def c_def p0_call_eval
    by (simp_all add: id_defs progress_def makesAbortError_def abortError_defs)
  from abort_signal_ends_stream_call [OF c_def h(1) h(2) h(3) h(4) h(5) h(6) h(7) h(8) h(9) h(10)
      h(11) h(12) h(13) refl, of 0] h(5) h(7) h(10) h(14)
  show ?thesis unfolding w_def [symmetric] by (simp del: sw_emit.simps)
qed

lemma p0OnReceiveError_errors:
  assumes "c_invokeId c = iid" "c_stream c = sid"
    and "sw_streams v sid = Some \<lparr>chunks = cs, status = Readable\<rparr>"
  shows "sw_streams (p0OnReceiveError c (Some (InvokeBody iid (ErrorBox e) s)) v) sid
           = Some \<lparr>chunks = [], status = Errored e\<rparr>"
    and "sw_emitted (p0OnReceiveError c (Some (InvokeBody iid (ErrorBox e) s)) v) = sw_emitted v"
  using assms
  by (simp_all add: p0OnReceiveError_def cleanup_def sw_off_def reg_off_def sw_error_def rs_error_def
        Let_def split: option.splits)

lemma handleInvoke_p0_throws:
  assumes "c_invokeId c = iid" "c_stream c = sid"
    and "sw_listeners v (invokeReceiveEventError tag iid) = [P0ReceiveError c]"
    and "sw_streams v sid = Some \<lparr>chunks = cs, status = Readable\<rparr>"
    and "producers v fn payload options = FnThrows e"
  shows "sw_streams (handleInvoke_p0 (sw_emit (Suc n)) h tag fn iid payload options v) sid
           = Some \<lparr>chunks = [], status = Errored e\<rparr>"
    and "sw_emitted (handleInvoke_p0 (sw_emit (Suc n)) h tag fn iid payload options v)
           = sw_emitted v @ [(invokeReceiveEventError tag iid, Some (InvokeBody iid (ErrorBox e) False))]"
proof -
  define v3 where "v3 = (snd (newAbortController v))
     \<lparr>abortControllers := (abortControllers (snd (newAbortController v)))
         (h := (abortControllers (snd (newAbortController v)) h)(iid := Some (fst (newAbortController v))))\<rparr>"
  define v4 where "v4 = (case abortReasons v3 h iid of
                  None \<Rightarrow> v3
                | Some reason \<Rightarrow> scheduleAbort (fst (newAbortController v)) reason v3)"
  define v5 where "v5 = v4\<lparr>sw_calls := sw_calls v4 @ [(fn, payload, options, Some (fst (newAbortController v)))]\<rparr>"
  define v6 where "v6 = v5\<lparr>sw_emitted := sw_emitted v5 @
     [(invokeReceiveEventError tag iid, Some (InvokeBody iid (ErrorBox e) False))]\<rparr>"
  define v7 where "v7 = p0OnReceiveError c (Some (InvokeBody iid (ErrorBox e) False)) v6"
  have v4: "sw_listeners v4 = sw_listeners v" "sw_streams v4 = sw_streams v" "sw_emitted v4 = sw_emitted v"
    by (simp_all add: v4_def v3_def newAbortController_def scheduleAbort_def Let_def split: option.splits)
  have v6: "sw_streams v6 sid = Some \<lparr>chunks = cs, status = Readable\<rparr>"
    "sw_emitted v6 = sw_emitted v @ [(invokeReceiveEventError tag iid, Some (InvokeBody iid (ErrorBox e) False))]"
    using assms(4) by (simp_all add: v6_def v5_def v4)
  have emit: "sw_emit (Suc n) (invokeReceiveEventError tag iid)
                (Some (InvokeBody iid (ErrorBox e) False)) options v5 = v7"
    using assms(3) by (simp add: v7_def v6_def v5_def v4 runSListener_def)
  have "handleInvoke_p0 (sw_emit (Suc n)) h tag fn iid payload options v
          = clearAbortState h iid (sw_emit (Suc n) (invokeReceiveEventError tag iid)
                (Some (InvokeBody iid (ErrorBox e) False)) options v5)"
    unfolding v5_def v4_def v3_def handleInvoke_p0_def Let_def case_prod_beta
    using assms(5) by (simp del: sw_emit.simps)
  hence res: "handleInvoke_p0 (sw_emit (Suc n)) h tag fn iid payload options v = clearAbortState h iid v7"
    by (simp only: emit)
  note e = p0OnReceiveError_errors [OF assms(1) assms(2) v6(1), of e False, folded v7_def]
  show "sw_streams (handleInvoke_p0 (sw_emit (Suc n)) h tag fn iid payload options v) sid
           = Some \<lparr>chunks = [], status = Errored e\<rparr>"
    using e(1) by (simp add: res clearAbortState_def)
  show "sw_emitted (handleInvoke_p0 (sw_emit (Suc n)) h tag fn iid payload options v)
           = sw_emitted v @ [(invokeReceiveEventError tag iid, Some (InvokeBody iid (ErrorBox e) False))]"
    using e(2) v6(2) by (simp add: res clearAbortState_def)
qed

lemma abortInput_frame:
  assumes "sid \<noteq> sid'"
  shows "sw_streams (abortInput h iid sid' reason v) sid = sw_streams v sid"
    and "sw_emitted (abortInput h iid sid' reason v) = sw_emitted v"
  using assms
  by (simp_all add: abortInput_def case_prod_beta Let_def sw_error_def createAbortError_frame
        split: option.splits completion.splits)

lemma abort_meets_throwing_handler:
  assumes call: "c = \<lparr>c_tag = tag, c_invokeId = iid, c_stream = sid, c_signal = Some sg, c_options = opts\<rparr>"
    and pending: "sw_listeners w (invokeReceiveEventError tag iid) = [P0ReceiveError c]"
      "signalListeners w sg = [c]" "signals w sg = NotAborted"
      "sw_streams w sid = Some \<lparr>chunks = cs, status = Readable\<rparr>"
    and server: "sw_listeners w (sendEventAbort tag) = [P0SendAbort h]"
      "streamHandlers w h = Some (tag, fn)"
      "abortControllers w h iid = None" "sw_streamStates w h iid = None" "iid \<noteq> []"
      "producers w fn (JStream (sw_nextStream w)) Undefined = FnThrows e"
    and allocated: "sid < sw_nextStream w"
    and trip: "w' = signal_abort (Suc (Suc n)) sg reason w"
  shows "sw_streams w' sid = Some \<lparr>chunks = [], status = Errored e\<rparr>"
    and "sw_emitted w' = sw_emitted w @
          [(sendEventAbort tag, Some (InvokeBody iid (Plain reason) False)),
           (invokeReceiveEventError tag iid, Some (InvokeBody iid (ErrorBox e) False))]"
proof -
  define body where "body = Some (InvokeBody iid (Plain reason) False)"
  define wa where "wa = w\<lparr>signals := (signals w)(sg := Aborted reason),
                           signalListeners := (signalListeners w)(sg := [])\<rparr>"
  define wb where "wb = wa\<lparr>sw_emitted := sw_emitted wa @ [(sendEventAbort tag, body)]\<rparr>"
  define w1 where "w1 = wb\<lparr>abortReasons := (abortReasons wb)(h := (abortReasons wb h)(iid := Some reason))\<rparr>"
  define sid' where "sid' = fst (sw_newReqStream h iid w1)"
  define w2 where "w2 = snd (sw_newReqStream h iid w1)"
  define w3 where "w3 = handleInvoke_p0 (sw_emit (Suc n)) h tag fn iid (JStream sid') Undefined w2"
  define w4 where "w4 = abortInput h iid sid' reason w3"
  have sid': "sid' = sw_nextStream w"
    by (simp add: sid'_def w1_def wb_def wa_def sw_newReqStream_def sw_newStream_def Let_def)
  have ne: "sid \<noteq> sid'" using allocated sid' by simp
  have w2: "sw_listeners w2 (invokeReceiveEventError tag iid) = [P0ReceiveError c]"
    "sw_streams w2 sid = Some \<lparr>chunks = cs, status = Readable\<rparr>"
    "producers w2 fn (JStream sid') Undefined = FnThrows e"
    "sw_emitted w2 = sw_emitted w @ [(sendEventAbort tag, body)]"
    using pending server(6) allocated
    by (simp_all add: sid' w2_def w1_def wb_def wa_def sw_newReqStream_def sw_newStream_def Let_def)
  have c: "c_invokeId c = iid" "c_stream c = sid" "c_tag c = tag" "c_options c = opts" "c_signal c = Some sg"
    by (simp_all add: call)
  note t = handleInvoke_p0_throws [OF c(1) c(2) w2(1) w2(2) w2(3), of n h, folded w3_def]
  note f = abortInput_frame [OF ne, of h iid reason w3, folded w4_def]
  have w4: "sw_streams w4 sid = Some \<lparr>chunks = [], status = Errored e\<rparr>"
    "sw_emitted w4 = sw_emitted w @ [(sendEventAbort tag, body),
        (invokeReceiveEventError tag iid, Some (InvokeBody iid (ErrorBox e) False))]"
    using t f w2(4) by simp_all
  have listener: "p0OnSendAbort (sw_emit (Suc n)) h body wb = w4"
    using server(2) server(3) server(4) server(5)
    by (simp add: p0OnSendAbort_def Let_def case_prod_beta body_def w4_def w3_def w2_def sid'_def
          w1_def wb_def wa_def del: sw_emit.simps)
  have "sw_emit (Suc (Suc n)) (sendEventAbort tag) body opts wa
          = p0OnSendAbort (sw_emit (Suc n)) h body wb"
    using server(1) by (simp add: wa_def wb_def runSListener_def)
  hence emit: "sw_emit (Suc (Suc n)) (sendEventAbort tag) body opts wa = w4"
    by (simp only: listener)
  define r where "r = createAbortError (signalReason c w4) w4"
  have w': "w' = (case fst r of
                    Thrown x \<Rightarrow> snd r
                  | Normal err \<Rightarrow> cleanup c (sw_error sid err (snd r)))"
    unfolding trip r_def using pending(2) pending(3) emit c
    by (simp add: signal_abort_def onAbort_def signalReason_def Let_def case_prod_beta body_def
          wa_def split: completion.splits prod.splits del: sw_emit.simps)
  show "sw_streams w' sid = Some \<lparr>chunks = [], status = Errored e\<rparr>"
    using w4(1) c
    by (cases "fst r")
       (simp_all add: w' r_def cleanup_def sw_off_def reg_off_def sw_error_def rs_error_def Let_def
          createAbortError_frame)
  show "sw_emitted w' = sw_emitted w @
          [(sendEventAbort tag, Some (InvokeBody iid (Plain reason) False)),
           (invokeReceiveEventError tag iid, Some (InvokeBody iid (ErrorBox e) False))]"
    using w4 c
    by (cases "fst r")
       (simp_all add: w' r_def cleanup_def sw_off_def reg_off_def sw_error_def rs_error_def Let_def
          createAbortError_frame body_def)
qed

lemma p0_throwing_call_eval:
  "defineStreamInvoke_p0 (Suc (Suc 0)) ''progress'' (ReqStream [JNum 1] None) (Some 0) Undefined
     p0_throwing_ctx =
    (Normal 0, \<lparr>sw_listeners =
           (\<lambda>_. [])
           (''progress-send'' := [P0Send 0],
              ''progress-send-stream-end'' := [P0SendStreamEnd 0],
              ''progress-send-abort'' := [P0SendAbort 0],
              ''progress-receive-call'' :=
                [P0Receive \<lparr>c_tag = ''progress'', c_invokeId = ''call'', c_stream = 0,
                     c_signal = Some 0, c_options = Undefined\<rparr>],
              ''progress-receive-error-call'' :=
                [P0ReceiveError \<lparr>c_tag = ''progress'', c_invokeId = ''call'', c_stream = 0,
                     c_signal = Some 0, c_options = Undefined\<rparr>],
              ''progress-receive-stream-end-call'' :=
                [P0ReceiveStreamEnd \<lparr>c_tag = ''progress'', c_invokeId = ''call'', c_stream = 0,
                     c_signal = Some 0, c_options = Undefined\<rparr>]),
           streamHandlers = [0 \<mapsto> (''progress'', Suc 0)], nextHandler = Suc 0,
           sw_streamStates = (\<lambda>_ _. None)(0 := \<lambda>_. None),
           abortControllers = (\<lambda>_ _. None)(0 := \<lambda>_. None),
           abortReasons = (\<lambda>_ _. None)(0 := \<lambda>_. None),
           signals = (\<lambda>_. NotAborted)(0 := NotAborted),
           nextSignal = Suc 0,
           signalListeners =
             (\<lambda>_. [])
             (0 := [\<lparr>c_tag = ''progress'', c_invokeId = ''call'', c_stream = 0,
                       c_signal = Some 0, c_options = Undefined\<rparr>]),
           producers = progress,
           sw_streams = [0 \<mapsto> \<lparr>chunks = [], status = Readable\<rparr>],
           sw_nextStream = Suc 0,
           sw_calls = [],
           sw_jobs = [P0Pump \<lparr>c_tag = ''progress'', c_invokeId = ''call'', c_stream = 0,
                       c_signal = Some 0, c_options = Undefined\<rparr> [JNum 1] None],
           sw_emitted = [],
           sw_nanoidSeq = (\<lambda>n. ''call'' @ replicate n CHR ''x''),
           sw_nanoidNext = Suc 0, hasDOMException = True,
           js_String = toText, js_setName = (\<lambda>i. Normal ()), nextObject = 0,
           sw_stackOverflow = False\<rparr>)"
  by (simp add: stream_fixture_defs stream_defs p0_defs)

lemma abort_reason_not_convertible:
  assumes call: "c = \<lparr>c_tag = tag, c_invokeId = iid, c_stream = sid, c_signal = Some sg, c_options = opts\<rparr>"
    and pending: "signalListeners w sg = [c]" "signals w sg = NotAborted"
    and servers: "sw_listeners w (sendEventAbort tag) = map P0SendAbort hs" "distinct hs"
      "\<forall>h \<in> set hs. abortControllers w h iid \<noteq> None \<or> sw_streamStates w h iid \<noteq> None
          \<or> (\<forall>tg fn s e. streamHandlers w h = Some (tg, fn)
                 \<longrightarrow> producers w fn (JStream s) Undefined \<noteq> FnThrows e)"
    and reason: "\<not> makesAbortError reason w"
    and allocated: "sid < sw_nextStream w" "\<forall>h i. sw_streamStates w h i \<noteq> Some sid"
      "sg < nextSignal w"
    and trip: "w' = signal_abort (Suc n) sg reason w"
  shows "sw_emitted w' = sw_emitted w @ [(sendEventAbort tag, Some (InvokeBody iid (Plain reason) False))]"
    and "sw_streams w' sid = sw_streams w sid"
    and "sw_listeners w' = sw_listeners w"
proof -
  define body where "body = Some (InvokeBody iid (Plain reason) False)"
  define w0 where "w0 = w\<lparr>signals := (signals w)(sg := Aborted reason),
                           signalListeners := (signalListeners w)(sg := []),
                           sw_emitted := sw_emitted w @ [(sendEventAbort tag, body)]\<rparr>"
  define w1 where "w1 = foldl (\<lambda>w' l. runSListener (sw_emit n) l body opts w') w0 (map P0SendAbort hs)"
  define w2 where "w2 = snd (createAbortError reason w1)"
  have w0: "\<forall>h \<in> set hs. abortControllers w0 h iid \<noteq> None \<or> sw_streamStates w0 h iid \<noteq> None
              \<or> (\<forall>tg fn s e. streamHandlers w0 h = Some (tg, fn)
                     \<longrightarrow> producers w0 fn (JStream s) Undefined \<noteq> FnThrows e)"
    "sid < sw_nextStream w0" "\<forall>h' i. sw_streamStates w0 h' i \<noteq> Some sid" "sg < nextSignal w0"
    using servers(3) allocated by (simp_all add: w0_def)
  note fr = abort_listeners_frame [OF w0(1) servers(2) w0(2) w0(3) w0(4) body_def,
      of "sw_emit n" opts, folded w1_def]
  have w1: "sw_listeners w1 = sw_listeners w"
    "sw_emitted w1 = sw_emitted w @ [(sendEventAbort tag, body)]"
    "sw_streams w1 sid = sw_streams w sid"
    "signals w1 sg = Aborted reason"
    "hasDOMException w1 = hasDOMException w" "js_String w1 = js_String w" "js_setName w1 = js_setName w"
    using fr by (simp_all add: w0_def)
  have "\<not> makesAbortError reason w1"
    using reason makesAbortError_platform [OF w1(5) w1(6) w1(7)] by simp
  from makesAbortError_Thrown [OF this] obtain e where
    "fst (createAbortError reason w1) = Thrown e" by blast
  hence thrown: "createAbortError reason w1 = (Thrown e, w2)"
    by (simp add: w2_def prod_eq_iff)
  have emit: "sw_emit (Suc n) (sendEventAbort tag) body opts
                (w\<lparr>signals := (signals w)(sg := Aborted reason),
                   signalListeners := (signalListeners w)(sg := [])\<rparr>) = w1"
    unfolding w1_def w0_def using servers(1) by simp
  have w': "w' = w2"
    unfolding trip
    using call pending emit w1(4) thrown
    by (simp add: signal_abort_def onAbort_def signalReason_def Let_def body_def
          del: sw_emit.simps)
  show "sw_emitted w' = sw_emitted w @ [(sendEventAbort tag, Some (InvokeBody iid (Plain reason) False))]"
    and "sw_streams w' sid = sw_streams w sid"
    and "sw_listeners w' = sw_listeners w"
    unfolding w' w2_def by (simp_all add: createAbortError_frame w1 body_def)
qed

text \<open>
  Without these conditions the call does not end with an AbortError.

  In the first call below the request is a stream, so no handler has started when the
  signal trips; the \<open>send-abort\<close> listener of the server in the same context then starts the
  handler, which throws; \<open>handleInvoke\<close> emits \<open>receive-error\<close> inside the client's emit of
  \<open>send-abort\<close>, the response stream is errored with the handler's error, and the
  \<open>controller.error(createAbortError(...))\<close> that follows in \<open>onAbort\<close> finds the stream
  errored already.

  In the second call the reason of the abort is an object made by \<open>Object.create(null)\<close>:
  \<open>String(reason)\<close> throws, so \<open>createAbortError\<close> throws after the emit of \<open>send-abort\<close>, and
  \<open>onAbort\<close> ends before \<open>controller.error\<close> and \<open>cleanup\<close>. The response stream stays
  readable and the three listeners of the call stay registered.
\<close>

theorem abort_does_not_end_with_abort_error:
  "(let w = snd (defineStreamInvoke_p0 (Suc (Suc 0)) ''progress'' (ReqStream [JNum 1] None) (Some 0) Undefined
                p0_throwing_ctx);
        w' = signal_abort (Suc (Suc 0)) 0 (JStr ''stop'') w
    in signals w 0 = NotAborted
     \<and> signalListeners w 0 = [\<lparr>c_tag = ''progress'', c_invokeId = ''call'', c_stream = 0,
                                c_signal = Some 0, c_options = Undefined\<rparr>]
     \<and> sw_streams w 0 = Some \<lparr>chunks = [], status = Readable\<rparr>
     \<and> sw_emitted w' =
          [(sendEventAbort ''progress'', Some (InvokeBody ''call'' (Plain (JStr ''stop'')) False)),
           (invokeReceiveEventError ''progress'' ''call'',
            Some (InvokeBody ''call'' (ErrorBox (JError 7 ''Error'' ''boom'')) False))]
     \<and> sw_streams w' 0 = Some \<lparr>chunks = [], status = Errored (JError 7 ''Error'' ''boom'')\<rparr>
     \<and> \<not> isAbortError (JError 7 ''Error'' ''boom''))
   \<and> (let w = snd (defineStreamInvoke_p0 (Suc (Suc 0)) ''progress'' (ReqValue (JStr ''alice'')) (Some 0)
                     Undefined p0_ctx);
           w' = signal_abort (Suc 0) 0 (JObj 5 NullPrototype []) w
       in signals w 0 = NotAborted
        \<and> signalListeners w 0 = [\<lparr>c_tag = ''progress'', c_invokeId = ''call'', c_stream = 0,
                                   c_signal = Some 0, c_options = Undefined\<rparr>]
        \<and> sw_emitted w' = sw_emitted w @
             [(sendEventAbort ''progress'', Some (InvokeBody ''call'' (Plain (JObj 5 NullPrototype [])) False))]
        \<and> sw_streams w' 0 = Some \<lparr>chunks = [], status = Readable\<rparr>
        \<and> sw_listeners w' (invokeReceiveEvent ''progress'' ''call'')
             = [P0Receive \<lparr>c_tag = ''progress'', c_invokeId = ''call'', c_stream = 0,
                           c_signal = Some 0, c_options = Undefined\<rparr>]
        \<and> sw_listeners w' (invokeReceiveEventError ''progress'' ''call'')
             = [P0ReceiveError \<lparr>c_tag = ''progress'', c_invokeId = ''call'', c_stream = 0,
                           c_signal = Some 0, c_options = Undefined\<rparr>]
        \<and> sw_listeners w' (invokeReceiveEventStreamEnd ''progress'' ''call'')
             = [P0ReceiveStreamEnd \<lparr>c_tag = ''progress'', c_invokeId = ''call'', c_stream = 0,
                           c_signal = Some 0, c_options = Undefined\<rparr>])"
proof -
  define w where "w = snd (defineStreamInvoke_p0 (Suc (Suc 0)) ''progress'' (ReqStream [JNum 1] None)
                            (Some 0) Undefined p0_throwing_ctx)"
  define c where "c = \<lparr>c_tag = ''progress'', c_invokeId = ''call'', c_stream = 0, c_signal = Some 0,
                       c_options = Undefined\<rparr>"
  have h: "sw_listeners w (invokeReceiveEventError ''progress'' ''call'') = [P0ReceiveError c]"
    "signalListeners w 0 = [c]" "signals w 0 = NotAborted"
    "sw_streams w 0 = Some \<lparr>chunks = [], status = Readable\<rparr>"
    "sw_listeners w (sendEventAbort ''progress'') = [P0SendAbort 0]"
    "streamHandlers w 0 = Some (''progress'', Suc 0)"
    "abortControllers w 0 ''call'' = None" "sw_streamStates w 0 ''call'' = None" "''call'' \<noteq> []"
    "producers w (Suc 0) (JStream (sw_nextStream w)) Undefined = FnThrows (JError 7 ''Error'' ''boom'')"
    "0 < sw_nextStream w"
    "sw_emitted w = []"
    unfolding w_def c_def p0_throwing_call_eval by (simp_all add: id_defs progress_def)
  note r = abort_meets_throwing_handler [where n = 0 and reason = "JStr ''stop''",
      OF c_def h(1) h(2) h(3) h(4) h(5) h(6) h(7) h(8) h(9) h(10) h(11) refl]
  have first: "(let w' = signal_abort (Suc (Suc 0)) 0 (JStr ''stop'') w
    in signals w 0 = NotAborted
     \<and> signalListeners w 0 = [\<lparr>c_tag = ''progress'', c_invokeId = ''call'', c_stream = 0,
                                c_signal = Some 0, c_options = Undefined\<rparr>]
     \<and> sw_streams w 0 = Some \<lparr>chunks = [], status = Readable\<rparr>
     \<and> sw_emitted w' =
          [(sendEventAbort ''progress'', Some (InvokeBody ''call'' (Plain (JStr ''stop'')) False)),
           (invokeReceiveEventError ''progress'' ''call'',
            Some (InvokeBody ''call'' (ErrorBox (JError 7 ''Error'' ''boom'')) False))]
     \<and> sw_streams w' 0 = Some \<lparr>chunks = [], status = Errored (JError 7 ''Error'' ''boom'')\<rparr>
     \<and> \<not> isAbortError (JError 7 ''Error'' ''boom''))"
    unfolding Let_def using r h(2) h(3) h(4) h(12) by (simp add: c_def)
  define v where "v = snd (defineStreamInvoke_p0 (Suc (Suc 0)) ''progress'' (ReqValue (JStr ''alice''))
                            (Some 0) Undefined p0_ctx)"
  have g: "signalListeners v 0 = [c]" "signals v 0 = NotAborted"
    "sw_listeners v (sendEventAbort ''progress'') = map P0SendAbort [0]"
    "distinct [0::nat]"
    "\<forall>h \<in> set [0]. abortControllers v h ''call'' \<noteq> None \<or> sw_streamStates v h ''call'' \<noteq> None
          \<or> (\<forall>tg fn s e. streamHandlers v h = Some (tg, fn)
                 \<longrightarrow> producers v fn (JStream s) Undefined \<noteq> FnThrows e)"
    "\<not> makesAbortError (JObj 5 NullPrototype []) v"
    "0 < sw_nextStream v" "\<forall>h i. sw_streamStates v h i \<noteq> Some 0"
    "0 < nextSignal v"
    "sw_streams v 0 = Some \<lparr>chunks = [], status = Readable\<rparr>"
    "sw_listeners v (invokeReceiveEvent ''progress'' ''call'') = [P0Receive c]"
    "sw_listeners v (invokeReceiveEventError ''progress'' ''call'') = [P0ReceiveError c]"
    "sw_listeners v (invokeReceiveEventStreamEnd ''progress'' ''call'') = [P0ReceiveStreamEnd c]"
    unfolding v_def c_def p0_call_eval
    by (simp_all add: id_defs progress_def makesAbortError_def abortError_defs)
  note q = abort_reason_not_convertible [where n = 0 and reason = "JObj 5 NullPrototype []",
      OF c_def g(1) g(2) g(3) g(4) g(5) g(6) g(7) g(8) g(9) refl]
  have second: "(let w' = signal_abort (Suc 0) 0 (JObj 5 NullPrototype []) v
       in signals v 0 = NotAborted
        \<and> signalListeners v 0 = [\<lparr>c_tag = ''progress'', c_invokeId = ''call'', c_stream = 0,
                                   c_signal = Some 0, c_options = Undefined\<rparr>]
        \<and> sw_emitted w' = sw_emitted v @
             [(sendEventAbort ''progress'', Some (InvokeBody ''call'' (Plain (JObj 5 NullPrototype [])) False))]
        \<and> sw_streams w' 0 = Some \<lparr>chunks = [], status = Readable\<rparr>
        \<and> sw_listeners w' (invokeReceiveEvent ''progress'' ''call'')
             = [P0Receive \<lparr>c_tag = ''progress'', c_invokeId = ''call'', c_stream = 0,
                           c_signal = Some 0, c_options = Undefined\<rparr>]
        \<and> sw_listeners w' (invokeReceiveEventError ''progress'' ''call'')
             = [P0ReceiveError \<lparr>c_tag = ''progress'', c_invokeId = ''call'', c_stream = 0,
                           c_signal = Some 0, c_options = Undefined\<rparr>]
        \<and> sw_listeners w' (invokeReceiveEventStreamEnd ''progress'' ''call'')
             = [P0ReceiveStreamEnd \<lparr>c_tag = ''progress'', c_invokeId = ''call'', c_stream = 0,
                           c_signal = Some 0, c_options = Undefined\<rparr>])"
    unfolding Let_def using q g(1) g(2) g(10) g(11) g(12) g(13) by (simp add: c_def del: sw_emit.simps)
  from first second show ?thesis
    unfolding Let_def w_def [symmetric] v_def [symmetric] by simp
qed

lemma pulls_closed:
  "pulls (Suc (length xs)) \<lparr>chunks = xs, status = Closed\<rparr> = map Chunk xs @ [Done]"
  by (induction xs) (simp_all add: pull_def)

lemma send_ids_not_received [simp]:
  "sendEvent tag \<notin> receiveIds tag iid"
  "sendEventStreamEnd tag \<notin> receiveIds tag iid"
  "sendEventError tag \<notin> receiveIds tag iid"
  "invokeReceiveEvent tag iid \<in> receiveIds tag iid"
  "invokeReceiveEventStreamEnd tag iid \<in> receiveIds tag iid"
  by (auto simp add: receiveIds_def sendEvent_def sendEventStreamEnd_def sendEventError_def
        invokeReceiveEvent_def invokeReceiveEventError_def invokeReceiveEventStreamEnd_def
        receiveEvent_def receiveEventError_def receiveEventStreamEnd_def)

lemma gen_step:
  assumes "awaiting tag iid sid acc w"
    and "w' = runSJob (Suc n) (SGen tag iid (x # xs) Finishes opts) (w\<lparr>sw_jobs := js\<rparr>)"
  shows "awaiting tag iid sid (acc @ [x]) w'"
    and "sw_jobs w' = js @ [SGen tag iid xs Finishes opts]"
    and "received tag iid w' = received tag iid w @ [(invokeReceiveEvent tag iid, Some (InvokeBody iid (Plain x) False))]"
    and "sw_stackOverflow w' = sw_stackOverflow w" and "sw_calls w' = sw_calls w"
    and "serving tag iid h rid sid w \<Longrightarrow> serving tag iid h rid sid w'"
  using assms
  by (simp_all add: awaiting_def serving_def received_def stream_defs)

lemma gen_end:
  assumes "awaiting tag iid sid acc w"
    and "w' = runSJob (Suc n) (SGen tag iid [] Finishes opts) (w\<lparr>sw_jobs := js\<rparr>)"
  shows "sw_streams w' sid = Some \<lparr>chunks = acc, status = Closed\<rparr>"
    and "sw_jobs w' = js"
    and "received tag iid w' = received tag iid w @ [(invokeReceiveEventStreamEnd tag iid, Some (InvokeBody iid (Plain Undefined) False))]"
    and "sw_stackOverflow w' = sw_stackOverflow w" and "sw_calls w' = sw_calls w"
    and "serving tag iid h rid sid w \<Longrightarrow> serving tag iid h rid sid w'"
  using assms
  by (simp_all add: awaiting_def serving_def received_def stream_defs)

lemma pump_step:
  assumes "serving tag iid h rid sid w"
    and "w' = runSJob (Suc n) (SPump tag iid (c # cs) e) (w\<lparr>sw_jobs := js\<rparr>)"
  shows "serving tag iid h rid sid w'"
    and "sw_jobs w' = js @ [SPump tag iid cs e]"
    and "received tag iid w' = received tag iid w"
    and "sw_stackOverflow w' = sw_stackOverflow w" and "sw_calls w' = sw_calls w"
    and "sw_streams w' sid = sw_streams w sid"
    and "sw_listeners w' = sw_listeners w"
  using assms
  by (auto simp add: serving_def received_def stream_defs split: option.splits)

lemma pump_end:
  assumes "serving tag iid h rid sid w"
    and "w' = runSJob (Suc n) (SPump tag iid [] e) (w\<lparr>sw_jobs := js\<rparr>)"
  shows "sw_jobs w' = js"
    and "received tag iid w' = received tag iid w"
    and "sw_stackOverflow w' = sw_stackOverflow w" and "sw_calls w' = sw_calls w"
    and "sw_streams w' sid = sw_streams w sid"
    and "sw_listeners w' = sw_listeners w"
  using assms
  by (cases e; auto simp add: serving_def received_def stream_defs split: option.splits)+

lemma pump_start:
  assumes "sw_listeners w (sendEvent tag) = [StreamSend h]"
    and "sw_listeners w (sendEventStreamEnd tag) = [StreamSendStreamEnd h]"
    and "sw_listeners w (sendEventError tag) = []"
    and "streamHandlers w h = Some (tag, fn)"
    and "sw_streamStates w h iid = None" and "iid \<noteq> []"
    and "producers w fn (JStream (sw_nextStream w)) Undefined = Generates xs en"
    and "sid < sw_nextStream w"
    and "w' = runSJob (Suc n) (SPump tag iid (c # cs) e) (w\<lparr>sw_jobs := js\<rparr>)"
  shows "serving tag iid h (sw_nextStream w) sid w'"
    and "sw_jobs w' = js @ [SGen tag iid xs en Undefined, SPump tag iid cs e]"
    and "received tag iid w' = received tag iid w"
    and "sw_stackOverflow w' = sw_stackOverflow w"
    and "sw_calls w' = sw_calls w @ [(fn, JStream (sw_nextStream w), Undefined, None)]"
    and "sw_streams w' sid = sw_streams w sid"
    and "sw_listeners w' = sw_listeners w"
  using assms
  by (auto simp add: serving_def received_def stream_defs case_prod_beta split: option.splits)

lemma awaiting_frame:
  "awaiting tag iid sid acc w \<Longrightarrow> sw_streams w' sid = sw_streams w sid
     \<Longrightarrow> sw_listeners w' = sw_listeners w \<Longrightarrow> awaiting tag iid sid acc w'"
  by (simp add: awaiting_def)

lemma pump_only:
  assumes "serving tag iid h rid sid w" and "sw_jobs w = [SPump tag iid cs e]"
  shows "sw_jobs (runSJobs (Suc (length cs) + k) (Suc n) w) = []
       \<and> sw_streams (runSJobs (Suc (length cs) + k) (Suc n) w) sid = sw_streams w sid
       \<and> received tag iid (runSJobs (Suc (length cs) + k) (Suc n) w) = received tag iid w
       \<and> sw_stackOverflow (runSJobs (Suc (length cs) + k) (Suc n) w) = sw_stackOverflow w
       \<and> sw_calls (runSJobs (Suc (length cs) + k) (Suc n) w) = sw_calls w"
  using assms
proof (induction cs arbitrary: w)
  case Nil
  define w1 where "w1 = runSJob (Suc n) (SPump tag iid [] e) (w\<lparr>sw_jobs := []\<rparr>)"
  note e = pump_end [OF Nil.prems(1) w1_def]
  have "runSJobs (Suc (length ([]::jsval list)) + k) (Suc n) w = runSJobs k (Suc n) w1"
    unfolding w1_def using Nil.prems(2) by simp
  also have "\<dots> = w1" using e(1) by (cases k) simp_all
  finally show ?case using e by simp
next
  case (Cons c cs)
  define w1 where "w1 = runSJob (Suc n) (SPump tag iid (c # cs) e) (w\<lparr>sw_jobs := []\<rparr>)"
  note st = pump_step [OF Cons.prems(1) w1_def]
  have step: "runSJobs (Suc (length (c # cs)) + k) (Suc n) w = runSJobs (Suc (length cs) + k) (Suc n) w1"
    unfolding w1_def using Cons.prems(2) by simp
  from st(2) have j: "sw_jobs w1 = [SPump tag iid cs e]" by simp
  from Cons.IH [OF st(1) j] st show ?case unfolding step by simp
qed

lemma gen_only:
  assumes "awaiting tag iid sid acc w" and "sw_jobs w = [SGen tag iid xs Finishes opts]"
  shows "sw_jobs (runSJobs (Suc (length xs) + k) (Suc n) w) = []
       \<and> sw_streams (runSJobs (Suc (length xs) + k) (Suc n) w) sid
           = Some \<lparr>chunks = acc @ xs, status = Closed\<rparr>
       \<and> received tag iid (runSJobs (Suc (length xs) + k) (Suc n) w)
           = received tag iid w
             @ map (\<lambda>x. (invokeReceiveEvent tag iid, Some (InvokeBody iid (Plain x) False))) xs
             @ [(invokeReceiveEventStreamEnd tag iid, Some (InvokeBody iid (Plain Undefined) False))]
       \<and> sw_stackOverflow (runSJobs (Suc (length xs) + k) (Suc n) w) = sw_stackOverflow w
       \<and> sw_calls (runSJobs (Suc (length xs) + k) (Suc n) w) = sw_calls w"
  using assms
proof (induction xs arbitrary: w acc)
  case Nil
  define w1 where "w1 = runSJob (Suc n) (SGen tag iid [] Finishes opts) (w\<lparr>sw_jobs := []\<rparr>)"
  note e = gen_end [OF Nil.prems(1) w1_def]
  have "runSJobs (Suc (length ([]::jsval list)) + k) (Suc n) w = runSJobs k (Suc n) w1"
    unfolding w1_def using Nil.prems(2) by simp
  also have "\<dots> = w1" using e(2) by (cases k) simp_all
  finally show ?case using e by simp
next
  case (Cons x xs)
  define w1 where "w1 = runSJob (Suc n) (SGen tag iid (x # xs) Finishes opts) (w\<lparr>sw_jobs := []\<rparr>)"
  note st = gen_step [OF Cons.prems(1) w1_def]
  have step: "runSJobs (Suc (length (x # xs)) + k) (Suc n) w = runSJobs (Suc (length xs) + k) (Suc n) w1"
    unfolding w1_def using Cons.prems(2) by simp
  from st(2) have j: "sw_jobs w1 = [SGen tag iid xs Finishes opts]" by simp
  from Cons.IH [OF st(1) j] st show ?case unfolding step by simp
qed

lemma duplex:
  assumes "awaiting tag iid sid acc w" and "serving tag iid h rid sid w"
    and "sw_jobs w = [SGen tag iid xs Finishes opts, SPump tag iid cs e]
         \<or> sw_jobs w = [SPump tag iid cs e, SGen tag iid xs Finishes opts]"
    and "m = length xs + length cs"
  shows "sw_jobs (runSJobs (Suc (Suc m) + k) (Suc n) w) = []
       \<and> sw_streams (runSJobs (Suc (Suc m) + k) (Suc n) w) sid
           = Some \<lparr>chunks = acc @ xs, status = Closed\<rparr>
       \<and> received tag iid (runSJobs (Suc (Suc m) + k) (Suc n) w)
           = received tag iid w
             @ map (\<lambda>x. (invokeReceiveEvent tag iid, Some (InvokeBody iid (Plain x) False))) xs
             @ [(invokeReceiveEventStreamEnd tag iid, Some (InvokeBody iid (Plain Undefined) False))]
       \<and> sw_stackOverflow (runSJobs (Suc (Suc m) + k) (Suc n) w) = sw_stackOverflow w
       \<and> sw_calls (runSJobs (Suc (Suc m) + k) (Suc n) w) = sw_calls w"
  using assms
proof (induction m arbitrary: w acc xs cs)
  case 0
  then have xs: "xs = []" and cs: "cs = []" by simp_all
  from "0.prems"(3) show ?case
  proof
    assume q: "sw_jobs w = [SGen tag iid xs Finishes opts, SPump tag iid cs e]"
    define w1 where "w1 = runSJob (Suc n) (SGen tag iid [] Finishes opts) (w\<lparr>sw_jobs := [SPump tag iid [] e]\<rparr>)"
    note g = gen_end [OF "0.prems"(1) w1_def] gen_end(6) [OF "0.prems"(1) w1_def "0.prems"(2)]
    have step: "runSJobs (Suc (Suc 0) + k) (Suc n) w = runSJobs (Suc (length ([]::jsval list)) + k) (Suc n) w1"
      unfolding w1_def using q xs cs by simp
    from pump_only [OF g(7) g(2), of k n] g show ?thesis unfolding step xs by simp
  next
    assume q: "sw_jobs w = [SPump tag iid cs e, SGen tag iid xs Finishes opts]"
    define w1 where "w1 = runSJob (Suc n) (SPump tag iid [] e) (w\<lparr>sw_jobs := [SGen tag iid [] Finishes opts]\<rparr>)"
    note p = pump_end [OF "0.prems"(2) w1_def]
    have a: "awaiting tag iid sid acc w1" using "0.prems"(1) p(5) p(6) by (rule awaiting_frame)
    have step: "runSJobs (Suc (Suc 0) + k) (Suc n) w = runSJobs (Suc (length ([]::jsval list)) + k) (Suc n) w1"
      unfolding w1_def using q xs cs by simp
    from gen_only [OF a p(1), of k n] p show ?thesis unfolding step xs by simp
  qed
next
  case (Suc m)
  from Suc.prems(3) show ?case
  proof
    assume q: "sw_jobs w = [SGen tag iid xs Finishes opts, SPump tag iid cs e]"
    show ?thesis
    proof (cases xs)
      case Nil
      with Suc.prems(4) have len: "Suc m = length cs" by simp
      define w1 where "w1 = runSJob (Suc n) (SGen tag iid [] Finishes opts) (w\<lparr>sw_jobs := [SPump tag iid cs e]\<rparr>)"
      note g = gen_end [OF Suc.prems(1) w1_def] gen_end(6) [OF Suc.prems(1) w1_def Suc.prems(2)]
      have step: "runSJobs (Suc (Suc (Suc m)) + k) (Suc n) w = runSJobs (Suc (length cs) + k) (Suc n) w1"
        unfolding w1_def using q Nil len by simp
      from pump_only [OF g(7) g(2), of k n] g show ?thesis unfolding step Nil by simp
    next
      case (Cons x xs')
      with Suc.prems(4) have len: "m = length xs' + length cs" by simp
      define w1 where "w1 = runSJob (Suc n) (SGen tag iid (x # xs') Finishes opts) (w\<lparr>sw_jobs := [SPump tag iid cs e]\<rparr>)"
      note g = gen_step [OF Suc.prems(1) w1_def] gen_step(6) [OF Suc.prems(1) w1_def Suc.prems(2)]
      have step: "runSJobs (Suc (Suc (Suc m)) + k) (Suc n) w = runSJobs (Suc (Suc m) + k) (Suc n) w1"
        unfolding w1_def using q Cons by simp
      from g(2) have j: "sw_jobs w1 = [SGen tag iid xs' Finishes opts, SPump tag iid cs e]
         \<or> sw_jobs w1 = [SPump tag iid cs e, SGen tag iid xs' Finishes opts]" by simp
      from Suc.IH [OF g(1) g(7) j len] g show ?thesis unfolding step Cons by simp
    qed
  next
    assume q: "sw_jobs w = [SPump tag iid cs e, SGen tag iid xs Finishes opts]"
    show ?thesis
    proof (cases cs)
      case Nil
      with Suc.prems(4) have len: "Suc m = length xs" by simp
      define w1 where "w1 = runSJob (Suc n) (SPump tag iid [] e) (w\<lparr>sw_jobs := [SGen tag iid xs Finishes opts]\<rparr>)"
      note p = pump_end [OF Suc.prems(2) w1_def]
      have a: "awaiting tag iid sid acc w1" using Suc.prems(1) p(5) p(6) by (rule awaiting_frame)
      have step: "runSJobs (Suc (Suc (Suc m)) + k) (Suc n) w = runSJobs (Suc (length xs) + k) (Suc n) w1"
        unfolding w1_def using q Nil len by simp
      from gen_only [OF a p(1), of k n] p show ?thesis unfolding step by simp
    next
      case (Cons c cs')
      with Suc.prems(4) have len: "m = length xs + length cs'" by simp
      define w1 where "w1 = runSJob (Suc n) (SPump tag iid (c # cs') e) (w\<lparr>sw_jobs := [SGen tag iid xs Finishes opts]\<rparr>)"
      note p = pump_step [OF Suc.prems(2) w1_def]
      have a: "awaiting tag iid sid acc w1" using Suc.prems(1) p(6) p(7) by (rule awaiting_frame)
      have step: "runSJobs (Suc (Suc (Suc m)) + k) (Suc n) w = runSJobs (Suc (Suc m) + k) (Suc n) w1"
        unfolding w1_def using q Cons by simp
      from p(2) have j: "sw_jobs w1 = [SGen tag iid xs Finishes opts, SPump tag iid cs' e]
         \<or> sw_jobs w1 = [SPump tag iid cs' e, SGen tag iid xs Finishes opts]" by simp
      from Suc.IH [OF a p(1) j len] p show ?thesis unfolding step by simp
    qed
  qed
qed

text \<open>
  C2. A streaming invoke of stream.ts, served by one handler of the same context whose
  generator yields \<open>xs\<close> and returns. The request is a plain value or a request stream
  with at least one chunk (ending or failing after its chunks): the client's pump and the
  handler's generator then take turns in the job queue. After the jobs have run, the
  response stream holds exactly \<open>xs\<close>, in order, and is closed: pulling it yields the
  chunks of \<open>xs\<close> one by one and then \<open>Done\<close>, never an error. On the per-call ids the
  context has emitted one \<open>receive\<close> per element of \<open>xs\<close>, in order, then
  \<open>receive-stream-end\<close>, and the handler was called once.
\<close>

theorem stream_yields_exactly:
  assumes one_handler: "sw_listeners w (sendEvent tag) = [StreamSend h]"
      "sw_listeners w (sendEventStreamEnd tag) = [StreamSendStreamEnd h]"
      "sw_listeners w (sendEventError tag) = []"
      "streamHandlers w h = Some (tag, fn)"
      "sw_streamStates w h iid = None"
    and fresh_id: "sw_nanoidSeq w (sw_nanoidNext w) = iid" "iid \<noteq> []"
      "sw_listeners w (invokeReceiveEvent tag iid) = []"
      "sw_listeners w (invokeReceiveEventError tag iid) = []"
      "sw_listeners w (invokeReceiveEventStreamEnd tag iid) = []"
    and request: "startsHandler req"
    and producer: "producers w fn (requestPayload req (Suc (sw_nextStream w))) Undefined = Generates xs Finishes"
    and quiet: "sw_jobs w = []" "\<not> sw_stackOverflow w"
    and run: "defineStreamInvoke (Suc (Suc n)) tag req w = (sid, w1)"
      "w2 = runSJobs (pumpTurns req + Suc (length xs) + k) (Suc n) w1"
  shows "sw_streams w2 sid = Some \<lparr>chunks = xs, status = Closed\<rparr>
       \<and> pulls (Suc (length xs)) (the (sw_streams w2 sid)) = map Chunk xs @ [Done]
       \<and> received tag iid w2 = received tag iid w
            @ map (\<lambda>x. (invokeReceiveEvent tag iid, Some (InvokeBody iid (Plain x) False))) xs
            @ [(invokeReceiveEventStreamEnd tag iid, Some (InvokeBody iid (Plain Undefined) False))]
       \<and> sw_calls w2 = sw_calls w @ [(fn, requestPayload req (Suc (sw_nextStream w)), Undefined, None)]
       \<and> sw_jobs w2 = [] \<and> \<not> sw_stackOverflow w2"
proof (cases req)
  case (ReqValue v)
  have sid: "sid = sw_nextStream w"
    using run(1) by (simp add: defineStreamInvoke_def stream_defs split: prod.splits)
  have w1: "awaiting tag iid sid [] w1"
    "sw_jobs w1 = [SGen tag iid xs Finishes Undefined]"
    "received tag iid w1 = received tag iid w"
    "sw_calls w1 = sw_calls w @ [(fn, v, Undefined, None)]"
    "\<not> sw_stackOverflow w1"
    using one_handler fresh_id producer quiet run(1) ReqValue
    by (auto simp add: defineStreamInvoke_def stream_defs awaiting_def received_def requestPayload_def
          split: prod.splits)
  from gen_only [OF w1(1) w1(2), of k n] w1 run(2) ReqValue
  show ?thesis
    by (simp add: pulls_closed pumpTurns_def requestPayload_def del: runSJobs.simps pulls.simps)
next
  case (ReqStream cs0 e)
  with request obtain c cs where cs0: "cs0 = c # cs" by (cases cs0) (simp_all add: startsHandler_def)
  have sid: "sid = sw_nextStream w"
    using run(1) by (simp add: defineStreamInvoke_def stream_defs split: prod.splits)
  have w1: "awaiting tag iid sid [] w1"
    "sw_jobs w1 = [SPump tag iid (c # cs) e]"
    "received tag iid w1 = received tag iid w"
    "sw_calls w1 = sw_calls w"
    "\<not> sw_stackOverflow w1"
    "sw_listeners w1 (sendEvent tag) = [StreamSend h]"
    "sw_listeners w1 (sendEventStreamEnd tag) = [StreamSendStreamEnd h]"
    "sw_listeners w1 (sendEventError tag) = []"
    "streamHandlers w1 h = Some (tag, fn)"
    "sw_streamStates w1 h iid = None"
    "sw_nextStream w1 = Suc (sw_nextStream w)"
    "producers w1 = producers w"
    using one_handler fresh_id quiet run(1) ReqStream cs0
    by (auto simp add: defineStreamInvoke_def stream_defs awaiting_def received_def split: prod.splits)
  define wa where "wa = runSJob (Suc n) (SPump tag iid (c # cs) e) (w1\<lparr>sw_jobs := []\<rparr>)"
  have prod: "producers w1 fn (JStream (sw_nextStream w1)) Undefined = Generates xs Finishes"
    using producer ReqStream w1(11) w1(12) by (simp add: requestPayload_def)
  have lt: "sid < sw_nextStream w1" using sid w1(11) by simp
  note ps = pump_start [OF w1(6) w1(7) w1(8) w1(9) w1(10) fresh_id(2) prod lt wa_def]
  have a: "awaiting tag iid sid [] wa" using w1(1) ps(6) ps(7) by (rule awaiting_frame)
  have j: "sw_jobs wa = [SGen tag iid xs Finishes Undefined, SPump tag iid cs e]
     \<or> sw_jobs wa = [SPump tag iid cs e, SGen tag iid xs Finishes Undefined]"
    using ps(2) by simp
  have fuel: "pumpTurns req + Suc (length xs) + k = Suc (Suc (Suc (length xs + length cs)) + k)"
    using ReqStream cs0 by (simp add: pumpTurns_def)
  have step: "runSJobs (pumpTurns req + Suc (length xs) + k) (Suc n) w1
                = runSJobs (Suc (Suc (length xs + length cs)) + k) (Suc n) wa"
    unfolding fuel wa_def using w1(2) by simp
  from duplex [OF a ps(1) j refl, of k n] ps w1 run(2) ReqStream
  show ?thesis
    unfolding step
    by (simp add: pulls_closed requestPayload_def del: runSJobs.simps pulls.simps)
qed

text \<open>The handler \<open>progress\<close> of the tests yields 20, 40 and \<open>done\<close>, for a plain request
  and for a request stream of two chunks.\<close>

theorem stream_yields_exactly_witness:
  "sw_listeners stream_ctx (sendEvent ''progress'') = [StreamSend 0]
   \<and> startsHandler (ReqValue (JStr ''alice''))
   \<and> startsHandler (ReqStream [JNum 1, JNum 2] None)
   \<and> producers stream_ctx 0 (JStr ''alice'') Undefined = Generates [JNum 20, JNum 40, JStr ''done''] Finishes
   \<and> sw_streams (runSJobs (Suc (Suc (Suc (Suc 0)))) (Suc 0)
         (snd (defineStreamInvoke (Suc (Suc 0)) ''progress'' (ReqValue (JStr ''alice'')) stream_ctx)))
         (fst (defineStreamInvoke (Suc (Suc 0)) ''progress'' (ReqValue (JStr ''alice'')) stream_ctx))
       = Some \<lparr>chunks = [JNum 20, JNum 40, JStr ''done''], status = Closed\<rparr>
   \<and> sw_streams (runSJobs (Suc (Suc (Suc (Suc (Suc (Suc (Suc 0))))))) (Suc 0)
         (snd (defineStreamInvoke (Suc (Suc 0)) ''progress'' (ReqStream [JNum 1, JNum 2] None) stream_ctx)))
         (fst (defineStreamInvoke (Suc (Suc 0)) ''progress'' (ReqStream [JNum 1, JNum 2] None) stream_ctx))
       = Some \<lparr>chunks = [JNum 20, JNum 40, JStr ''done''], status = Closed\<rparr>"
proof -
  have h: "sw_listeners stream_ctx (sendEvent ''progress'') = [StreamSend 0]"
    "sw_listeners stream_ctx (sendEventStreamEnd ''progress'') = [StreamSendStreamEnd 0]"
    "sw_listeners stream_ctx (sendEventError ''progress'') = []"
    "streamHandlers stream_ctx 0 = Some (''progress'', 0)"
    "sw_streamStates stream_ctx 0 ''call'' = None"
    "sw_nanoidSeq stream_ctx (sw_nanoidNext stream_ctx) = ''call''"
    "''call'' \<noteq> []"
    "sw_listeners stream_ctx (invokeReceiveEvent ''progress'' ''call'') = []"
    "sw_listeners stream_ctx (invokeReceiveEventError ''progress'' ''call'') = []"
    "sw_listeners stream_ctx (invokeReceiveEventStreamEnd ''progress'' ''call'') = []"
    "sw_jobs stream_ctx = []" "\<not> sw_stackOverflow stream_ctx"
    by (simp_all add: stream_fixture_defs sw_on_def reg_on_def Let_def)
  have s: "startsHandler (ReqValue (JStr ''alice''))" "startsHandler (ReqStream [JNum 1, JNum 2] None)"
    by (simp_all add: startsHandler_def)
  have p: "producers stream_ctx 0 (requestPayload (ReqValue (JStr ''alice'')) (Suc (sw_nextStream stream_ctx)))
             Undefined = Generates [JNum 20, JNum 40, JStr ''done''] Finishes"
    "producers stream_ctx 0 (requestPayload (ReqStream [JNum 1, JNum 2] None) (Suc (sw_nextStream stream_ctx)))
             Undefined = Generates [JNum 20, JNum 40, JStr ''done''] Finishes"
    "producers stream_ctx 0 (JStr ''alice'') Undefined = Generates [JNum 20, JNum 40, JStr ''done''] Finishes"
    by (simp_all add: stream_fixture_defs sw_on_def reg_on_def Let_def requestPayload_def)
  note t1 = stream_yields_exactly [where k = 0 and n = 0,
      OF h(1) h(2) h(3) h(4) h(5) h(6) h(7) h(8) h(9) h(10) s(1) p(1) h(11) h(12) surjective_pairing refl]
  note t2 = stream_yields_exactly [where k = 0 and n = 0,
      OF h(1) h(2) h(3) h(4) h(5) h(6) h(7) h(8) h(9) h(10) s(2) p(2) h(11) h(12) surjective_pairing refl]
  from t1 t2 h(1) s p(3) show ?thesis
    by (simp add: pumpTurns_def del: runSJobs.simps pulls.simps)
qed




text \<open>
  C6, at the failing input: a request stream that ends without a chunk. The server of
  stream.ts has no input controller when \<open>send-stream-end\<close> arrives and its listener
  returns at \<open>if (!controller) return\<close>: the stream handler is never called and the response
  stream stays open. The unary server of invoke.ts, on the same request, makes the input
  stream, calls the handler with it and closes it.
\<close>

theorem empty_request_stream_never_starts_stream_handler:
  "(let w = runSJobs (Suc (Suc 0)) (Suc (Suc 0))
              (snd (defineStreamInvoke (Suc (Suc 0)) ''progress'' (ReqStream [] None) stream_ctx))
    in sw_emitted w = [(sendEventStreamEnd ''progress'', Some (InvokeBody ''call'' (Plain Undefined) False))]
     \<and> sw_calls w = []
     \<and> sw_streams w 0 = Some \<lparr>chunks = [], status = Readable\<rparr>
     \<and> sw_jobs w = [])
   \<and> (let u = runJobs (Suc (Suc 0)) (Suc (Suc 0))
              (snd (invoke (Suc (Suc 0)) ''greet'' (ReqStream [] None) Undefined test_ctx))
      in emitted u = [(sendEventStreamEnd ''greet'', Some (InvokeBody ''call'' (Plain Undefined) False)),
                      (invokeReceiveEvent ''greet'' ''call'',
                       Some (InvokeBody ''call'' (Plain (JArr 1 [JStr ''hello'', JStream 0])) False))]
       \<and> calls u = [(0, JStream 0, Undefined)]
       \<and> streams u 0 = Some \<lparr>chunks = [], status = Closed\<rparr>
       \<and> promises u 0 = Fulfilled (JArr 1 [JStr ''hello'', JStream 0]))"
  by code_simp

section \<open>Remote methods: theorems\<close>

lemma seenIds_lookup: "i \<notin> seenIds xs \<Longrightarrow> map_of xs i = None"
  by (simp add: seenIds_def map_of_eq_None_iff)

lemma seenIds_Some: "map_of xs i = Some out \<Longrightarrow> i \<in> seenIds xs \<and> (i, out) \<in> set xs"
  by (auto simp add: seenIds_def dest: map_of_SomeD intro: rev_image_eqI)

lemma seenIds_Cons [simp]: "seenIds ((i, out) # xs) = insert i (seenIds xs)"
  by (simp add: seenIds_def)




lemma throwS_Normal [simp]: "throwS msg st \<noteq> (Normal out, st')"
  by (simp add: throwS_def)





lemma throwD_Normal [simp]: "throwD msg st \<noteq> (Normal out, st')"
  by (simp add: throwD_def)





lemmas remote_fixture_defs = two_functions_def one_function_cap_def helper_payload_def
  disallowed_payload_def malformed_payload_def strict_options_def strict_defaults_def resolveFunctionStubOptions_def
  normalizeFunctionStubOptions_def DEFAULT_FUNCTION_STUB_OPTIONS_def orElse_def
  cyclic_payload_def instance_payload_def shared_deep_def depth_two_cap_def fraction_cap_def



lemma seenIds_None: "map_of xs i = None \<Longrightarrow> i \<notin> seenIds xs"
  by (simp add: seenIds_def map_of_eq_None_iff)

lemma registerStub_count:
  "registerStub opts f st = (r, st')
     \<Longrightarrow> s_functionCount st' = Suc (s_functionCount st) \<and> s_seen st' = s_seen st"
  by (auto simp add: registerStub_def case_prod_beta Let_def)

lemma count_step:
  fixes a b c k1 k2 :: nat
  assumes "b = a + k1" "c = b + k2"
    and "0 < k1 \<longrightarrow> \<not> reaches (b - 1) cap" "0 < k2 \<longrightarrow> \<not> reaches (c - 1) cap"
  shows "c = a + (k1 + k2) \<and> (0 < k1 + k2 \<longrightarrow> \<not> reaches (c - 1) cap)"
proof (cases "k2 = 0")
  case True
  with assms show ?thesis by simp
next
  case False
  with assms show ?thesis by simp
qed

lemma walkS_limits:
  "walkS opts v d st = (Normal out, st') \<Longrightarrow> seenIds (s_seen st) = set entered
     \<Longrightarrow> \<not> tooDeep (maxDepth opts) d v entered
         \<and> s_functionCount st' = s_functionCount st + functionValues v entered
         \<and> (0 < functionValues v entered \<longrightarrow> \<not> reaches (s_functionCount st' - 1) (maxFunctions opts))
         \<and> seenIds (s_seen st') = set (entersS v entered)"
  "walkS_items opts xs d st = (Normal ys, st') \<Longrightarrow> seenIds (s_seen st) = set entered
     \<Longrightarrow> \<not> tooDeep_items (maxDepth opts) d xs entered
         \<and> s_functionCount st' = s_functionCount st + functionValues_items xs entered
         \<and> (0 < functionValues_items xs entered
              \<longrightarrow> \<not> reaches (s_functionCount st' - 1) (maxFunctions opts))
         \<and> seenIds (s_seen st') = set (entersS_items xs entered)"
  "walkS_entries opts fs d st = (Normal gs, st') \<Longrightarrow> seenIds (s_seen st) = set entered
     \<Longrightarrow> \<not> tooDeep_entries (maxDepth opts) d fs entered
         \<and> s_functionCount st' = s_functionCount st + functionValues_entries fs entered
         \<and> (0 < functionValues_entries fs entered
              \<longrightarrow> \<not> reaches (s_functionCount st' - 1) (maxFunctions opts))
         \<and> seenIds (s_seen st') = set (entersS_entries fs entered)"
proof (induction opts v d st and opts xs d st and opts fs d st
       arbitrary: out st' entered and ys st' entered and gs st' entered
       rule: walkS_walkS_items_walkS_entries.induct)
  case (1 opts f depth st)
  from "1.prems"(1) have c: "\<not> reaches (s_functionCount st) (maxFunctions opts)"
    and r: "registerStub opts f st = (Normal out, st')"
    by (simp_all split: if_splits)
  from registerStub_count [OF r] c "1.prems"(2) show ?case by simp
next
  case (2 opts i xs depth st)
  from "2.prems"(1) have deep: "\<not> exceeds depth (maxDepth opts)" by (auto split: if_splits)
  show ?case
  proof (cases "map_of (s_seen st) i")
    case (Some found)
    from seenIds_Some [OF Some] "2.prems"(2) have "i \<in> set entered" by simp
    with "2.prems" deep Some show ?thesis by simp
  next
    case None
    from seenIds_None [OF None] "2.prems"(2) have fresh: "i \<notin> set entered" by simp
    from "2.prems"(1) deep None obtain ys where
      w: "walkS_items opts xs (Suc depth)
            (st\<lparr>s_heap := Suc (s_heap st), s_seen := (i, s_heap st) # s_seen st\<rparr>) = (Normal ys, st')"
      by (auto split: prod.splits completion.splits)
    have ids: "seenIds (s_seen (st\<lparr>s_heap := Suc (s_heap st), s_seen := (i, s_heap st) # s_seen st\<rparr>))
                 = set (i # entered)"
      using "2.prems"(2) by simp
    note ih = "2.IH" [OF deep None w ids]
    with deep fresh show ?thesis by auto
  qed
next
  case (3 opts i p fs depth st)
  from "3.prems"(1) have deep: "\<not> exceeds depth (maxDepth opts)" by (auto split: if_splits)
  show ?case
  proof (cases "map_of (s_seen st) i")
    case (Some found)
    from seenIds_Some [OF Some] "3.prems"(2) have "i \<in> set entered" by simp
    with "3.prems" deep Some show ?thesis by simp
  next
    case None
    from seenIds_None [OF None] "3.prems"(2) have fresh: "i \<notin> set entered" by simp
    from "3.prems"(1) deep None obtain gs where
      w: "walkS_entries opts fs (Suc depth)
            (st\<lparr>s_heap := Suc (s_heap st), s_seen := (i, s_heap st) # s_seen st\<rparr>) = (Normal gs, st')"
      by (auto split: prod.splits completion.splits)
    have ids: "seenIds (s_seen (st\<lparr>s_heap := Suc (s_heap st), s_seen := (i, s_heap st) # s_seen st\<rparr>))
                 = set (i # entered)"
      using "3.prems"(2) by simp
    note ih = "3.IH" [OF deep None w ids]
    with deep fresh show ?thesis by auto
  qed
next
  case (4 opts i depth st)
  then show ?case by (auto split: if_splits option.splits)
next
  case (5 opts i name msg depth st)
  then show ?case by (auto split: if_splits option.splits)
next
  case (6 opts i depth st)
  then show ?case by (auto split: if_splits option.splits)
next
  case (7 opts i fs depth st)
  then show ?case by (auto split: if_splits option.splits)
next
  case (14 opts x xs depth st)
  from "14.prems"(1) obtain y zs st1 where
    w1: "walkS opts x depth st = (Normal y, st1)"
    and w2: "walkS_items opts xs depth st1 = (Normal zs, st')"
    by (auto split: prod.splits completion.splits)
  note ih1 = "14.IH"(1) [OF w1 "14.prems"(2)]
  from ih1 have ids: "seenIds (s_seen st1) = set (entersS x entered)" by blast
  note ih2 = "14.IH"(2) [OF w1 [symmetric] refl w2 ids]
  from ih1 have a1: "s_functionCount st1 = s_functionCount st + functionValues x entered"
    and a3: "0 < functionValues x entered
               \<longrightarrow> \<not> reaches (s_functionCount st1 - 1) (maxFunctions opts)"
    by blast+
  from ih2 have a2: "s_functionCount st'
      = s_functionCount st1 + functionValues_items xs (entersS x entered)"
    and a4: "0 < functionValues_items xs (entersS x entered)
               \<longrightarrow> \<not> reaches (s_functionCount st' - 1) (maxFunctions opts)"
    by blast+
  have cnt: "s_functionCount st' = s_functionCount st + functionValues_items (x # xs) entered
      \<and> (0 < functionValues_items (x # xs) entered
            \<longrightarrow> \<not> reaches (s_functionCount st' - 1) (maxFunctions opts))"
    unfolding functionValues_items.simps by (rule count_step [OF a1 a2 a3 a4])
  have deep: "\<not> tooDeep_items (maxDepth opts) depth (x # xs) entered" using ih1 ih2 by simp
  have ent: "seenIds (s_seen st') = set (entersS_items (x # xs) entered)" using ih2 by simp
  from deep cnt ent show ?case by blast
next
  case (16 opts k c fs depth st)
  from "16.prems"(1) obtain y zs st1 where
    w1: "walkS opts c depth st = (Normal y, st1)"
    and w2: "walkS_entries opts fs depth st1 = (Normal zs, st')"
    by (auto split: prod.splits completion.splits)
  note ih1 = "16.IH"(1) [OF w1 "16.prems"(2)]
  from ih1 have ids: "seenIds (s_seen st1) = set (entersS c entered)" by blast
  note ih2 = "16.IH"(2) [OF w1 [symmetric] refl w2 ids]
  from ih1 have a1: "s_functionCount st1 = s_functionCount st + functionValues c entered"
    and a3: "0 < functionValues c entered
               \<longrightarrow> \<not> reaches (s_functionCount st1 - 1) (maxFunctions opts)"
    by blast+
  from ih2 have a2: "s_functionCount st'
      = s_functionCount st1 + functionValues_entries fs (entersS c entered)"
    and a4: "0 < functionValues_entries fs (entersS c entered)
               \<longrightarrow> \<not> reaches (s_functionCount st' - 1) (maxFunctions opts)"
    by blast+
  have cnt: "s_functionCount st' = s_functionCount st + functionValues_entries ((k, c) # fs) entered
      \<and> (0 < functionValues_entries ((k, c) # fs) entered
            \<longrightarrow> \<not> reaches (s_functionCount st' - 1) (maxFunctions opts))"
    unfolding functionValues_entries.simps by (rule count_step [OF a1 a2 a3 a4])
  have deep: "\<not> tooDeep_entries (maxDepth opts) depth ((k, c) # fs) entered" using ih1 ih2 by simp
  have ent: "seenIds (s_seen st') = set (entersS_entries ((k, c) # fs) entered)" using ih2 by simp
  from deep cnt ent show ?case by blast
qed clarsimp+

lemma rehydrate_limits:
  "rehydrate opts v tag st = (Normal out, st')
     \<Longrightarrow> d_functionCount st' = d_functionCount st + (if allowedTag opts tag then 1 else 0)
         \<and> (allowedTag opts tag \<longrightarrow> \<not> reaches (d_functionCount st' - 1) (maxFunctions opts))
         \<and> d_seen st' = d_seen st"
  by (auto simp add: rehydrate_def throwD_def allowedTag_def split: if_splits disallowedTag.splits)

lemma walkD_limits:
  "walkD opts v d st = (Normal out, st') \<Longrightarrow> seenIds (d_seen st) = set entered
     \<Longrightarrow> \<not> tooDeepD (maxDepth opts) d v entered
         \<and> d_functionCount st' = d_functionCount st + stubCount opts v entered
         \<and> (0 < stubCount opts v entered \<longrightarrow> \<not> reaches (d_functionCount st' - 1) (maxFunctions opts))
         \<and> (strict opts \<longrightarrow> \<not> malformed v entered)
         \<and> seenIds (d_seen st') = set (entersD v entered)"
  "walkD_items opts xs d st = (Normal ys, st') \<Longrightarrow> seenIds (d_seen st) = set entered
     \<Longrightarrow> \<not> tooDeepD_items (maxDepth opts) d xs entered
         \<and> d_functionCount st' = d_functionCount st + stubCount_items opts xs entered
         \<and> (0 < stubCount_items opts xs entered
              \<longrightarrow> \<not> reaches (d_functionCount st' - 1) (maxFunctions opts))
         \<and> (strict opts \<longrightarrow> \<not> malformed_items xs entered)
         \<and> seenIds (d_seen st') = set (entersD_items xs entered)"
  "walkD_entries opts fs d st = (Normal gs, st') \<Longrightarrow> seenIds (d_seen st) = set entered
     \<Longrightarrow> \<not> tooDeepD_entries (maxDepth opts) d fs entered
         \<and> d_functionCount st' = d_functionCount st + stubCount_entries opts fs entered
         \<and> (0 < stubCount_entries opts fs entered
              \<longrightarrow> \<not> reaches (d_functionCount st' - 1) (maxFunctions opts))
         \<and> (strict opts \<longrightarrow> \<not> malformed_entries fs entered)
         \<and> seenIds (d_seen st') = set (entersD_entries fs entered)"
proof (induction opts v d st and opts xs d st and opts fs d st
       arbitrary: out st' entered and ys st' entered and gs st' entered
       rule: walkD_walkD_items_walkD_entries.induct)
  case (1 opts i xs depth st)
  from "1.prems"(1) have deep: "\<not> exceeds depth (maxDepth opts)" by (auto split: if_splits)
  show ?case
  proof (cases "map_of (d_seen st) i")
    case (Some found)
    from seenIds_Some [OF Some] "1.prems"(2) have "i \<in> set entered" by simp
    with "1.prems" deep Some show ?thesis by simp
  next
    case None
    from seenIds_None [OF None] "1.prems"(2) have fresh: "i \<notin> set entered" by simp
    from "1.prems"(1) deep None obtain ys where
      w: "walkD_items opts xs (Suc depth)
            (st\<lparr>d_heap := Suc (d_heap st), d_seen := (i, d_heap st) # d_seen st\<rparr>) = (Normal ys, st')"
      by (auto split: prod.splits completion.splits)
    have ids: "seenIds (d_seen (st\<lparr>d_heap := Suc (d_heap st), d_seen := (i, d_heap st) # d_seen st\<rparr>))
                 = set (i # entered)"
      using "1.prems"(2) by simp
    note ih = "1.IH" [OF deep None w ids]
    with deep fresh show ?thesis by auto
  qed
next
  case (2 opts i p fs depth st)
  from "2.prems"(1) have deep: "\<not> exceeds depth (maxDepth opts)" by (auto split: if_splits)
  show ?case
  proof (cases "stubTag (JObj i p fs)")
    case (Some tag)
    with "2.prems"(1) deep have "rehydrate opts (JObj i p fs) tag st = (Normal out, st')"
      by (simp del: stubTag.simps)
    from rehydrate_limits [OF this] Some deep "2.prems"(2) show ?thesis
      by (auto simp del: stubTag.simps)
  next
    case None
    note plain = None
    from "2.prems"(1) deep plain
    have lax: "\<not> (strict opts \<and> hasInvokeFunctionStubKey (JObj i p fs))"
      by (auto simp del: stubTag.simps hasInvokeFunctionStubKey.simps split: if_splits)
    show ?thesis
    proof (cases "map_of (d_seen st) i")
      case (Some found)
      from seenIds_Some [OF Some] "2.prems"(2) have "i \<in> set entered" by simp
      with "2.prems" deep plain lax Some show ?thesis
        by (auto simp del: stubTag.simps hasInvokeFunctionStubKey.simps)
    next
      case None
      from seenIds_None [OF None] "2.prems"(2) have fresh: "i \<notin> set entered" by simp
      from "2.prems"(1) deep plain lax None obtain gs where
        w: "walkD_entries opts fs (Suc depth)
              (st\<lparr>d_heap := Suc (d_heap st), d_seen := (i, d_heap st) # d_seen st\<rparr>) = (Normal gs, st')"
        by (auto simp del: stubTag.simps hasInvokeFunctionStubKey.simps
              split: prod.splits completion.splits)
      have ids: "seenIds (d_seen (st\<lparr>d_heap := Suc (d_heap st), d_seen := (i, d_heap st) # d_seen st\<rparr>))
                   = set (i # entered)"
        using "2.prems"(2) by simp
      note ih = "2.IH" [OF deep plain lax None w ids]
      with deep plain lax fresh show ?thesis
        by (auto simp del: stubTag.simps hasInvokeFunctionStubKey.simps)
    qed
  qed
next
  case (3 opts i depth st)
  then show ?case by (auto split: if_splits option.splits)
next
  case (4 opts i name msg depth st)
  then show ?case by (auto split: if_splits option.splits)
next
  case (5 opts i depth st)
  then show ?case by (auto split: if_splits option.splits)
next
  case (6 opts i fs depth st)
  then show ?case by (auto split: if_splits option.splits)
next
  case (14 opts x xs depth st)
  from "14.prems"(1) obtain y zs st1 where
    w1: "walkD opts x depth st = (Normal y, st1)"
    and w2: "walkD_items opts xs depth st1 = (Normal zs, st')"
    by (auto split: prod.splits completion.splits)
  note ih1 = "14.IH"(1) [OF w1 "14.prems"(2)]
  from ih1 have ids: "seenIds (d_seen st1) = set (entersD x entered)" by blast
  note ih2 = "14.IH"(2) [OF w1 [symmetric] refl w2 ids]
  from ih1 have a1: "d_functionCount st1 = d_functionCount st + stubCount opts x entered"
    and a3: "0 < stubCount opts x entered
               \<longrightarrow> \<not> reaches (d_functionCount st1 - 1) (maxFunctions opts)"
    by blast+
  from ih2 have a2: "d_functionCount st'
      = d_functionCount st1 + stubCount_items opts xs (entersD x entered)"
    and a4: "0 < stubCount_items opts xs (entersD x entered)
               \<longrightarrow> \<not> reaches (d_functionCount st' - 1) (maxFunctions opts)"
    by blast+
  have cnt: "d_functionCount st' = d_functionCount st + stubCount_items opts (x # xs) entered
      \<and> (0 < stubCount_items opts (x # xs) entered
            \<longrightarrow> \<not> reaches (d_functionCount st' - 1) (maxFunctions opts))"
    unfolding stubCount_items.simps by (rule count_step [OF a1 a2 a3 a4])
  have deep: "\<not> tooDeepD_items (maxDepth opts) depth (x # xs) entered" using ih1 ih2 by simp
  have mal: "strict opts \<longrightarrow> \<not> malformed_items (x # xs) entered" using ih1 ih2 by simp
  have ent: "seenIds (d_seen st') = set (entersD_items (x # xs) entered)" using ih2 by simp
  from deep cnt mal ent show ?case by blast
next
  case (16 opts k c fs depth st)
  from "16.prems"(1) obtain y zs st1 where
    w1: "walkD opts c depth st = (Normal y, st1)"
    and w2: "walkD_entries opts fs depth st1 = (Normal zs, st')"
    by (auto split: prod.splits completion.splits)
  note ih1 = "16.IH"(1) [OF w1 "16.prems"(2)]
  from ih1 have ids: "seenIds (d_seen st1) = set (entersD c entered)" by blast
  note ih2 = "16.IH"(2) [OF w1 [symmetric] refl w2 ids]
  from ih1 have a1: "d_functionCount st1 = d_functionCount st + stubCount opts c entered"
    and a3: "0 < stubCount opts c entered
               \<longrightarrow> \<not> reaches (d_functionCount st1 - 1) (maxFunctions opts)"
    by blast+
  from ih2 have a2: "d_functionCount st'
      = d_functionCount st1 + stubCount_entries opts fs (entersD c entered)"
    and a4: "0 < stubCount_entries opts fs (entersD c entered)
               \<longrightarrow> \<not> reaches (d_functionCount st' - 1) (maxFunctions opts)"
    by blast+
  have cnt: "d_functionCount st' = d_functionCount st + stubCount_entries opts ((k, c) # fs) entered
      \<and> (0 < stubCount_entries opts ((k, c) # fs) entered
            \<longrightarrow> \<not> reaches (d_functionCount st' - 1) (maxFunctions opts))"
    unfolding stubCount_entries.simps by (rule count_step [OF a1 a2 a3 a4])
  have deep: "\<not> tooDeepD_entries (maxDepth opts) depth ((k, c) # fs) entered" using ih1 ih2 by simp
  have mal: "strict opts \<longrightarrow> \<not> malformed_entries ((k, c) # fs) entered" using ih1 ih2 by simp
  have ent: "seenIds (d_seen st') = set (entersD_entries ((k, c) # fs) entered)" using ih2 by simp
  from deep cnt mal ent show ?case by blast
qed clarsimp+

lemma registerStub_frame:
  "registerStub opts f st = (r, st')
     \<Longrightarrow> emitted (s_ctx st') = emitted (s_ctx st) \<and> promises (s_ctx st') = promises (s_ctx st)
         \<and> nextPromise (s_ctx st') = nextPromise (s_ctx st)"
  by (auto simp add: registerStub_def nanoid_def defineInvokeHandler_def ctx_on_def case_prod_beta Let_def
        split: option.splits)

lemma walkS_frame:
  "walkS opts v d st = (r, st')
     \<Longrightarrow> emitted (s_ctx st') = emitted (s_ctx st) \<and> promises (s_ctx st') = promises (s_ctx st)
         \<and> nextPromise (s_ctx st') = nextPromise (s_ctx st)"
  "walkS_items opts xs d st = (rs, st')
     \<Longrightarrow> emitted (s_ctx st') = emitted (s_ctx st) \<and> promises (s_ctx st') = promises (s_ctx st)
         \<and> nextPromise (s_ctx st') = nextPromise (s_ctx st)"
  "walkS_entries opts fs d st = (re, st')
     \<Longrightarrow> emitted (s_ctx st') = emitted (s_ctx st) \<and> promises (s_ctx st') = promises (s_ctx st)
         \<and> nextPromise (s_ctx st') = nextPromise (s_ctx st)"
proof (induction opts v d st and opts xs d st and opts fs d st arbitrary: r st' and rs st' and re st'
       rule: walkS_walkS_items_walkS_entries.induct)
  case (1 opts f depth st)
  then show ?case by (auto simp add: throwS_def split: if_splits dest: registerStub_frame)
next
  case (2 opts i xs depth st)
  obtain rs st1 where w: "walkS_items opts xs (Suc depth)
      (st\<lparr>s_heap := Suc (s_heap st), s_seen := (i, s_heap st) # s_seen st\<rparr>) = (rs, st1)"
    by force
  show ?case
  proof (cases "\<not> exceeds depth (maxDepth opts) \<and> map_of (s_seen st) i = None")
    case True
    with "2.IH" [OF _ _ w] "2.prems" w show ?thesis by (cases rs) auto
  next
    case False
    with "2.prems" show ?thesis by (auto simp add: throwS_def split: if_splits option.splits)
  qed
next
  case (3 opts i p fs depth st)
  obtain re st1 where w: "walkS_entries opts fs (Suc depth)
      (st\<lparr>s_heap := Suc (s_heap st), s_seen := (i, s_heap st) # s_seen st\<rparr>) = (re, st1)"
    by force
  show ?case
  proof (cases "\<not> exceeds depth (maxDepth opts) \<and> map_of (s_seen st) i = None")
    case True
    with "3.IH" [OF _ _ w] "3.prems" w show ?thesis by (cases re) auto
  next
    case False
    with "3.prems" show ?thesis by (auto simp add: throwS_def split: if_splits option.splits)
  qed
next
  case (14 opts x xs depth st)
  obtain a st1 where w: "walkS opts x depth st = (a, st1)" by force
  note ih1 = "14.IH"(1) [OF w]
  show ?case
  proof (cases a)
    case (Thrown e)
    with ih1 w "14.prems"(1) show ?thesis by auto
  next
    case (Normal y)
    obtain b st2 where w2: "walkS_items opts xs depth st1 = (b, st2)" by force
    note ih2 = "14.IH"(2) [OF w [symmetric] Normal w2]
    from ih1 ih2 w w2 Normal "14.prems"(1) show ?thesis by (cases b) auto
  qed
next
  case (16 opts k c fs depth st)
  obtain a st1 where w: "walkS opts c depth st = (a, st1)" by force
  note ih1 = "16.IH"(1) [OF w]
  show ?case
  proof (cases a)
    case (Thrown e)
    with ih1 w "16.prems"(1) show ?thesis by auto
  next
    case (Normal y)
    obtain b st2 where w2: "walkS_entries opts fs depth st1 = (b, st2)" by force
    note ih2 = "16.IH"(2) [OF w [symmetric] Normal w2]
    from ih1 ih2 w w2 Normal "16.prems"(1) show ?thesis by (cases b) auto
  qed
qed (auto simp add: throwS_def split: if_splits option.splits)

lemma walkS_throws:
  "walkS opts v d st = (Thrown e, st') \<Longrightarrow> \<exists>i m. e = JError i ''Error'' m"
  "walkS_items opts xs d st = (Thrown e, st') \<Longrightarrow> \<exists>i m. e = JError i ''Error'' m"
  "walkS_entries opts fs d st = (Thrown e, st') \<Longrightarrow> \<exists>i m. e = JError i ''Error'' m"
proof (induction opts v d st and opts xs d st and opts fs d st arbitrary: st' and st' and st'
       rule: walkS_walkS_items_walkS_entries.induct)
  case (1 opts f depth st)
  then show ?case
    by (auto simp add: throwS_def registerStub_def case_prod_beta Let_def split: if_splits)
next
  case (2 opts i xs depth st)
  then show ?case
    by (auto simp add: throwS_def split: if_splits option.splits prod.splits completion.splits)
next
  case (3 opts i p fs depth st)
  then show ?case
    by (auto simp add: throwS_def split: if_splits option.splits prod.splits completion.splits)
next
  case (14 opts x xs depth st)
  then show ?case
    by (auto split: prod.splits completion.splits)
next
  case (16 opts k c fs depth st)
  then show ?case
    by (auto split: prod.splits completion.splits)
qed (auto simp add: throwS_def split: if_splits option.splits)

lemma walkD_throws:
  "walkD opts v d st = (Thrown e, st') \<Longrightarrow> \<exists>i m. e = JError i ''Error'' m"
  "walkD_items opts xs d st = (Thrown e, st') \<Longrightarrow> \<exists>i m. e = JError i ''Error'' m"
  "walkD_entries opts fs d st = (Thrown e, st') \<Longrightarrow> \<exists>i m. e = JError i ''Error'' m"
proof (induction opts v d st and opts xs d st and opts fs d st arbitrary: st' and st' and st'
       rule: walkD_walkD_items_walkD_entries.induct)
  case (1 opts i xs depth st)
  then show ?case
    by (auto simp add: throwD_def split: if_splits option.splits prod.splits completion.splits)
next
  case (2 opts i p fs depth st)
  then show ?case
    by (auto simp add: throwD_def rehydrate_def simp del: stubTag.simps hasInvokeFunctionStubKey.simps
          split: if_splits option.splits prod.splits completion.splits disallowedTag.splits)
next
  case (14 opts x xs depth st)
  then show ?case
    by (auto split: prod.splits completion.splits)
next
  case (16 opts k c fs depth st)
  then show ?case
    by (auto split: prod.splits completion.splits)
qed (auto simp add: throwD_def split: if_splits option.splits)

lemma overCap_Whole: "overCap k (Whole c) = (0 < k \<and> c < int k)"
  by (auto simp add: overCap_def)

lemma serialize_throws:
  assumes "allow opts"
    and "tooDeep (maxDepth opts) 0 v [] \<or> overCap (functionValues v []) (maxFunctions opts)"
  shows "\<exists>i m w' h'. serializeInvokeFunctionPayload v w opts h = (Thrown (JError i ''Error'' m), w', h')
           \<and> emitted w' = emitted w \<and> promises w' = promises w \<and> nextPromise w' = nextPromise w"
proof -
  define st0 where "st0 = \<lparr>s_functionCount = 0, s_seen = [], s_disposers = [], s_heap = h, s_ctx = w\<rparr>"
  obtain r st where wk: "walkS opts v 0 st0 = (r, st)" by force
  have fr: "emitted (s_ctx st) = emitted w \<and> promises (s_ctx st) = promises w
              \<and> nextPromise (s_ctx st) = nextPromise w"
    using walkS_frame(1) [OF wk] by (simp add: st0_def)
  show ?thesis
  proof (cases r)
    case (Normal out)
    have "seenIds (s_seen st0) = set []" by (simp add: st0_def seenIds_def)
    from walkS_limits(1) [OF wk [unfolded Normal] this] assms(2)
    have False by (auto simp add: st0_def overCap_def)
    then show ?thesis ..
  next
    case (Thrown e)
    from walkS_throws(1) [OF wk [unfolded Thrown]] obtain i m where "e = JError i ''Error'' m" by blast
    with Thrown wk fr assms(1) show ?thesis
      by (auto simp add: serializeInvokeFunctionPayload_def st0_def)
  qed
qed

lemma deserialize_throws:
  assumes "allow opts"
    and "tooDeepD (maxDepth opts) 0 v [] \<or> overCap (stubCount opts v []) (maxFunctions opts)
         \<or> strict opts \<and> malformed v []"
  shows "\<exists>i m fs h'. deserializeInvokeFunctionPayload v opts h = (Thrown (JError i ''Error'' m), fs, h')"
proof -
  define st0 where "st0 = \<lparr>d_functionCount = 0, d_seen = [], d_heap = h, d_invokes = []\<rparr>"
  obtain r st where wk: "walkD opts v 0 st0 = (r, st)" by force
  show ?thesis
  proof (cases r)
    case (Normal out)
    have "seenIds (d_seen st0) = set []" by (simp add: st0_def seenIds_def)
    from walkD_limits(1) [OF wk [unfolded Normal] this] assms(2)
    have False by (auto simp add: st0_def overCap_def)
    then show ?thesis ..
  next
    case (Thrown e)
    from walkD_throws(1) [OF wk [unfolded Thrown]] obtain i m where "e = JError i ''Error'' m" by blast
    with Thrown wk assms(1) show ?thesis
      by (auto simp add: deserializeInvokeFunctionPayload_def st0_def)
  qed
qed

text \<open>
  C8, for what the walks come to, with function stubs allowed. A walk enters each array
  and each plain object once. If the serializer's walk comes to an object deeper than
  \<open>maxDepth\<close>, or comes to a function when its count of functions has reached
  \<open>maxFunctions\<close> (for a cap that is a whole number: it comes to more functions than the
  cap, and to one at least), the serializer throws an \<open>Error\<close> and emits nothing, and the
  remote invoke returns a new promise that is already rejected with that error, the
  context having emitted nothing. If the deserializer's walk comes to an object deeper
  than \<open>maxDepth\<close>, or to a stub descriptor with an allowed tag when its count has reached
  \<open>maxFunctions\<close>, or, in strict mode, to a plain object that has the key
  \<open>__eventaInvoke\<close> without being a stub descriptor, the deserializer throws an \<open>Error\<close>.
\<close>

theorem payload_limits_raise:
  assumes "allow opts"
  shows "(tooDeep (maxDepth opts) 0 v [] \<or> overCap (functionValues v []) (maxFunctions opts)
            \<longrightarrow> (\<exists>i m w' h'. serializeInvokeFunctionPayload v w opts h = (Thrown (JError i ''Error'' m), w', h')
                    \<and> emitted w' = emitted w)
                \<and> (resolveFunctionStubOptions defaultOptions functionStubs = opts
                    \<longrightarrow> (\<exists>i m r w' h'.
                           remoteInvoke n tag defaultOptions v functionStubs invokeOptions w h = (r, w', h')
                           \<and> r_promise r = nextPromise w
                           \<and> promises w' (r_promise r) = Rejected (JError i ''Error'' m)
                           \<and> emitted w' = emitted w)))
       \<and> (tooDeepD (maxDepth opts) 0 v [] \<or> overCap (stubCount opts v []) (maxFunctions opts)
            \<or> strict opts \<and> malformed v []
            \<longrightarrow> (\<exists>i m fs h'. deserializeInvokeFunctionPayload v opts h = (Thrown (JError i ''Error'' m), fs, h')))"
proof (intro conjI impI)
  assume lim: "tooDeep (maxDepth opts) 0 v [] \<or> overCap (functionValues v []) (maxFunctions opts)"
  from serialize_throws [OF assms lim, of w h]
  show "\<exists>i m w' h'. serializeInvokeFunctionPayload v w opts h = (Thrown (JError i ''Error'' m), w', h')
          \<and> emitted w' = emitted w"
    by blast
next
  assume lim: "tooDeep (maxDepth opts) 0 v [] \<or> overCap (functionValues v []) (maxFunctions opts)"
    and opts: "resolveFunctionStubOptions defaultOptions functionStubs = opts"
  from serialize_throws [OF assms lim, of w h] obtain i m w' h' where
    s: "serializeInvokeFunctionPayload v w opts h = (Thrown (JError i ''Error'' m), w', h')"
    and fr: "emitted w' = emitted w" "promises w' = promises w" "nextPromise w' = nextPromise w"
    by blast
  from s fr opts assms(1)
  show "\<exists>i m r w' h'.
          remoteInvoke n tag defaultOptions v functionStubs invokeOptions w h = (r, w', h')
          \<and> r_promise r = nextPromise w
          \<and> promises w' (r_promise r) = Rejected (JError i ''Error'' m)
          \<and> emitted w' = emitted w"
    by (simp add: remoteInvoke_def Let_def)
next
  assume lim: "tooDeepD (maxDepth opts) 0 v [] \<or> overCap (stubCount opts v []) (maxFunctions opts)
            \<or> strict opts \<and> malformed v []"
  from deserialize_throws [OF assms lim, of h]
  show "\<exists>i m fs h'. deserializeInvokeFunctionPayload v opts h = (Thrown (JError i ''Error'' m), fs, h')"
    by blast
qed

lemmas limit_fixture_defs = deep_chain_def negative_cap_def

text \<open>The tests "should reject when function stubs exceed maxFunctions" and "should
  reject malformed stubs in strict mode", and a chain of four objects under a depth of 2.\<close>

theorem payload_limits_raise_witness:
  "allow (resolveFunctionStubOptions (ArgBool True) one_function_cap)
   \<and> maxFunctions (resolveFunctionStubOptions (ArgBool True) one_function_cap) = Whole 1
   \<and> functionValues two_functions [] = 2
   \<and> (\<exists>i m r w' h'.
         remoteInvoke (Suc (Suc 0)) ''greet'' (ArgBool True) two_functions one_function_cap Undefined
           remote_ctx 10 = (r, w', h')
         \<and> r_promise r = nextPromise remote_ctx
         \<and> promises w' (r_promise r) = Rejected (JError i ''Error'' m)
         \<and> emitted w' = emitted remote_ctx)
   \<and> allow strict_options \<and> strict strict_options \<and> malformed malformed_payload []
   \<and> (\<exists>i m fs h'. deserializeInvokeFunctionPayload malformed_payload strict_options 10
                      = (Thrown (JError i ''Error'' m), fs, h'))
   \<and> maxDepth (resolveFunctionStubOptions (ArgBool True) depth_two_cap) = Whole 2
   \<and> tooDeep (Whole 2) 0 deep_chain []
   \<and> (\<exists>i m w' h'. serializeInvokeFunctionPayload deep_chain remote_ctx
                       (resolveFunctionStubOptions (ArgBool True) depth_two_cap) 10
                      = (Thrown (JError i ''Error'' m), w', h')
                    \<and> emitted w' = emitted remote_ctx)"
proof -
  have a: "allow (resolveFunctionStubOptions (ArgBool True) one_function_cap)"
    "maxFunctions (resolveFunctionStubOptions (ArgBool True) one_function_cap) = Whole 1"
    "functionValues two_functions [] = 2"
    by (simp_all add: remote_fixture_defs)
  have a': "overCap (functionValues two_functions [])
              (maxFunctions (resolveFunctionStubOptions (ArgBool True) one_function_cap))"
    unfolding a overCap_Whole by simp
  have b: "allow strict_options" "strict strict_options" "malformed malformed_payload []"
    by (simp_all add: remote_fixture_defs)
  have c: "allow (resolveFunctionStubOptions (ArgBool True) depth_two_cap)"
    "maxDepth (resolveFunctionStubOptions (ArgBool True) depth_two_cap) = Whole 2"
    "tooDeep (Whole 2) 0 deep_chain []"
    by (simp_all add: remote_fixture_defs limit_fixture_defs)
  from payload_limits_raise [OF a(1), where v = two_functions and w = remote_ctx and h = 10
      and defaultOptions = "ArgBool True" and functionStubs = one_function_cap
      and n = "Suc (Suc 0)" and tag = "''greet''" and invokeOptions = Undefined] a'
  have r: "\<exists>i m r w' h'.
         remoteInvoke (Suc (Suc 0)) ''greet'' (ArgBool True) two_functions one_function_cap Undefined
           remote_ctx 10 = (r, w', h')
         \<and> r_promise r = nextPromise remote_ctx
         \<and> promises w' (r_promise r) = Rejected (JError i ''Error'' m)
         \<and> emitted w' = emitted remote_ctx"
    by simp
  from payload_limits_raise [OF b(1), where v = malformed_payload and h = 10] b(2) b(3)
  have d: "\<exists>i m fs h'. deserializeInvokeFunctionPayload malformed_payload strict_options 10
                      = (Thrown (JError i ''Error'' m), fs, h')"
    by simp
  from payload_limits_raise [OF c(1), where v = deep_chain and w = remote_ctx and h = 10] c(2) c(3)
  have e: "\<exists>i m w' h'. serializeInvokeFunctionPayload deep_chain remote_ctx
                       (resolveFunctionStubOptions (ArgBool True) depth_two_cap) 10
                      = (Thrown (JError i ''Error'' m), w', h')
                    \<and> emitted w' = emitted remote_ctx"
    by simp
  from a b c r d e show ?thesis by blast
qed

text \<open>
  C8 as it is written fails in three ways. An object with two parents is entered once:
  in \<open>shared_deep\<close>, whose nesting depth is 3, the object at depth 3 is held by an object
  that the walk has entered at depth 1 and does not enter again at depth 2, so under
  \<open>maxDepth: 2\<close> both walks return and the remote invoke emits its send event, its promise
  pending. A cap is compared with the count before each function: under
  \<open>maxFunctions: 1.5\<close> the serializer lets the two functions of \<open>two_functions\<close> through;
  and under \<open>maxFunctions: -1\<close> a payload without a function passes.
\<close>

theorem payloads_over_the_caps_pass:
  "nesting 0 shared_deep = 3
   \<and> allow (resolveFunctionStubOptions (ArgBool True) depth_two_cap)
   \<and> maxDepth (resolveFunctionStubOptions (ArgBool True) depth_two_cap) = Whole 2
   \<and> fst (serializeInvokeFunctionPayload shared_deep remote_ctx
             (resolveFunctionStubOptions (ArgBool True) depth_two_cap) 10)
       = Normal (JObj 10 NullPrototype
                   [(''a'', JObj 11 NullPrototype [(''y'', JObj 12 NullPrototype [])]),
                    (''b'', JObj 13 NullPrototype [(''c'', JRef 11)])], [])
   \<and> fst (deserializeInvokeFunctionPayload shared_deep
             (resolveFunctionStubOptions (ArgBool True) depth_two_cap) 10)
       = Normal (JObj 10 NullPrototype
                   [(''a'', JObj 11 NullPrototype [(''y'', JObj 12 NullPrototype [])]),
                    (''b'', JObj 13 NullPrototype [(''c'', JRef 11)])])
   \<and> (case remoteInvoke (Suc (Suc 0)) ''greet'' (ArgBool True) shared_deep depth_two_cap Undefined
              remote_ctx 10 of
         (r, w', h') \<Rightarrow> promises w' (r_promise r) = Unsettled
                          \<and> map fst (emitted w') = [''greet-send''])
   \<and> functionValues two_functions [] = 2
   \<and> maxFunctions (resolveFunctionStubOptions (ArgBool True) fraction_cap) = Between 1 ''1.5''
   \<and> fst (serializeInvokeFunctionPayload two_functions remote_ctx
             (resolveFunctionStubOptions (ArgBool True) fraction_cap) 10)
       = Normal (JObj 10 NullPrototype
                   [(''a'', stubLiteral 12 11 ''eventa-invoke-fn-call''),
                    (''b'', stubLiteral 14 13 ''eventa-invoke-fn-callx'')],
                 [(''eventa-invoke-fn-call'', 1), (''eventa-invoke-fn-callx'', 2)])
   \<and> functionValues (JStr ''plain'') [] = 0
   \<and> maxFunctions (resolveFunctionStubOptions (ArgBool True) negative_cap) = Whole (- 1)
   \<and> fst (serializeInvokeFunctionPayload (JStr ''plain'') remote_ctx
             (resolveFunctionStubOptions (ArgBool True) negative_cap) 10)
       = Normal (JStr ''plain'', [])"
  by code_simp

text \<open>The errors of these two tests, and the strict handler's promise.\<close>

theorem remote_payload_errors_of_the_tests:
  "fst (serializeInvokeFunctionPayload two_functions remote_ctx
          (resolveFunctionStubOptions (ArgBool True) one_function_cap) 10)
     = Thrown (JError 13 ''Error'' ''Too many function stubs in invoke payload (max 1).'')
   \<and> fst (deserializeInvokeFunctionPayload malformed_payload strict_options 10)
     = Thrown (JError 11 ''Error'' ''Invalid invoke function stub payload.'')
   \<and> remoteHandler strict_defaults (\<lambda>payload options. Returns (JStr ''ok'')) 10 malformed_payload Undefined
     = Rejects (JError 11 ''Error'' ''Invalid invoke function stub payload.'')"
  by code_simp

end
